theory Spec2Isabelle
  imports Complex_Main "HOL-Library.Word"
begin

section \<open>Conventions of the embedding\<close>

text \<open>
  The settlement layer of the RETE server (\<^verbatim>\<open>server/blockchain.ts\<close>,
  \<^verbatim>\<open>server/storage.ts\<close>, \<^verbatim>\<open>server/routes.ts\<close>) is embedded shallowly.

  \<^item> A thrown JavaScript exception is a value \<open>Inl e\<close> of a sum type; \<open>error\<close> keeps the
    message of an \<^verbatim>\<open>Error\<close> and singles out zod's \<^verbatim>\<open>ZodError\<close>, the only class the
    handlers test with \<^verbatim>\<open>instanceof\<close>.
  \<^item> A byte is a \<open>char\<close>; a \<^verbatim>\<open>Buffer\<close> is a list of them. A JavaScript string is a list of
    code points below 256, which covers every hexadecimal key and every record the vault
    writes.
  \<^item> Code of other packages (Node's \<^verbatim>\<open>crypto\<close>, \<^verbatim>\<open>ethers\<close>, \<^verbatim>\<open>zod\<close>) is not part of the
    repository. What the server calls of it is a field of the record \<open>lib\<close>; the server's
    functions take that record as their first argument and are translated line by line
    on top of it.
  \<^item> Process environment variables are the record \<open>env\<close>; a test \<^verbatim>\<open>!X\<close> on a string that
    may be missing is \<open>\<not> truthy X\<close>: missing and empty are both falsy.
\<close>

datatype error = Error string | ZodError

fun message :: "error \<Rightarrow> string" where
  "message (Error m) = m"
| "message ZodError = ''Validation error''"

type_synonym bytes = "char list"

definition truthy :: "string option \<Rightarrow> bool" where
  "truthy x = (case x of None \<Rightarrow> False | Some s \<Rightarrow> s \<noteq> [])"

record env =
  WALLET_ENCRYPTION_KEY :: "string option"
  PRIVATE_KEY :: "string option"
  RPC_URL :: "string option"
  TOKEN_ADDRESS :: "string option"

section \<open>Encodings used by the key vault\<close>

text \<open>
  \<^verbatim>\<open>buf.toString("hex")\<close> writes two lower-case digits per byte. \<^verbatim>\<open>Buffer.from(s, "hex")\<close>
  reads pairs of digits of either case and stops at the first pair that is not
  hexadecimal; a trailing single digit is dropped.
\<close>

definition hexdigit :: "nat \<Rightarrow> char" where
  "hexdigit k = (if k < 10 then char_of (48 + k) else char_of (87 + k))"

definition hexval :: "char \<Rightarrow> nat option" where
  "hexval c =
     (let n = (of_char c :: nat)
      in if 48 \<le> n \<and> n \<le> 57 then Some (n - 48)
         else if 97 \<le> n \<and> n \<le> 102 then Some (n - 87)
         else if 65 \<le> n \<and> n \<le> 70 then Some (n - 55)
         else None)"

fun to_hex :: "bytes \<Rightarrow> string" where
  "to_hex [] = []"
| "to_hex (b # bs) = hexdigit (of_char b div 16) # hexdigit (of_char b mod 16) # to_hex bs"

fun from_hex :: "string \<Rightarrow> bytes" where
  "from_hex (a # b # rest) =
     (case (hexval a, hexval b) of
        (Some x, Some y) \<Rightarrow> char_of (16 * x + y) # from_hex rest
      | _ \<Rightarrow> [])"
| "from_hex _ = []"

text \<open>
  UTF-8 for code points below 256: one byte below 128, two bytes from 128 on. The decoder
  reads the same two forms; any other byte is ill-formed input, for which Node writes
  U+FFFD. That character is outside the model's strings and is rendered as \<open>CHR 0x1A\<close>
  (SUB); no theorem below depends on it.
\<close>

fun utf8_encode :: "string \<Rightarrow> bytes" where
  "utf8_encode [] = []"
| "utf8_encode (c # cs) =
     (if (of_char c :: nat) < 128 then c # utf8_encode cs
      else char_of (192 + (of_char c :: nat) div 64)
           # char_of (128 + (of_char c :: nat) mod 64) # utf8_encode cs)"

fun utf8_decode :: "bytes \<Rightarrow> string" where
  "utf8_decode [] = []"
| "utf8_decode [b] = (if (of_char b :: nat) < 128 then [b] else [CHR 0x1A])"
| "utf8_decode (b # c # rest) =
     (if (of_char b :: nat) < 128 then b # utf8_decode (c # rest)
      else if 194 \<le> (of_char b :: nat) \<and> (of_char b :: nat) \<le> 195
              \<and> 128 \<le> (of_char c :: nat) \<and> (of_char c :: nat) < 192
      then char_of (((of_char b :: nat) - 192) * 64 + ((of_char c :: nat) - 128))
           # utf8_decode rest
      else CHR 0x1A # utf8_decode (c # rest))"

text \<open>\<^verbatim>\<open>s.split(":")\<close>: the fields between the separators; never the empty list.\<close>

fun split_on :: "char \<Rightarrow> string \<Rightarrow> string list" where
  "split_on sep [] = [[]]"
| "split_on sep (x # xs) =
     (if x = sep then [] # split_on sep xs
      else (case split_on sep xs of
              p # ps \<Rightarrow> (x # p) # ps
            | [] \<Rightarrow> [[x]]))"

section \<open>Library calls\<close>

text \<open>
  The library functions the settlement layer calls.
  \<^item> \<open>scryptSync password salt keylen\<close>: Node's key derivation.
  \<^item> \<open>gcm_encrypt key iv plaintext\<close>: \<^verbatim>\<open>createCipheriv("aes-256-gcm", key, iv)\<close>, then
    \<^verbatim>\<open>update\<close>, \<^verbatim>\<open>final\<close> and \<^verbatim>\<open>getAuthTag\<close>; it returns the ciphertext (the bytes of
    \<^verbatim>\<open>update\<close> followed by those of \<^verbatim>\<open>final\<close>) and the tag.
  \<^item> \<open>gcm_decrypt key iv tag ciphertext\<close>: \<^verbatim>\<open>createDecipheriv\<close>, \<^verbatim>\<open>setAuthTag\<close>,
    \<^verbatim>\<open>update\<close> and \<^verbatim>\<open>final\<close>; \<open>Inl\<close> when any of them throws, which \<^verbatim>\<open>final\<close> does when
    the tag does not verify.
  \<^item> \<open>computeAddress privateKey\<close>: the address of \<^verbatim>\<open>new ethers.Wallet(privateKey)\<close>; the
    constructor throws on a malformed key.
  \<^item> \<open>signTypedData privateKey domain message\<close>: \<^verbatim>\<open>wallet.signTypedData\<close> followed by
    \<^verbatim>\<open>ethers.Signature.from\<close>, giving \<open>(v, r, s)\<close>.
  \<^item> \<open>parseUnits amount decimals\<close>: \<^verbatim>\<open>ethers.parseUnits(amount.toString(), decimals)\<close>
    for a JavaScript number \<open>amount\<close>; it throws on a text it does not read as a decimal
    with at most \<open>decimals\<close> fractional digits.
  \<^item> \<open>is_email\<close>: zod's \<^verbatim>\<open>z.string().email()\<close> check.
  \<^item> \<open>string_to_number\<close>: what \<^verbatim>\<open>Number(s)\<close> gives for a string \<open>s\<close>.
\<close>

record eip712_domain =
  domain_name :: string
  domain_version :: string
  domain_chainId :: int
  domain_verifyingContract :: string

datatype typed_data =
    MintAuthorization string string int int int
  | BurnAuthorization string string int int int
  | Permit string string int int int

datatype jsnum = NaN | PosInf | NegInf | Fin rat

record lib =
  scryptSync :: "string \<Rightarrow> bytes \<Rightarrow> nat \<Rightarrow> bytes"
  gcm_encrypt :: "bytes \<Rightarrow> bytes \<Rightarrow> bytes \<Rightarrow> bytes \<times> bytes"
  gcm_decrypt :: "bytes \<Rightarrow> bytes \<Rightarrow> bytes \<Rightarrow> bytes \<Rightarrow> error + bytes"
  computeAddress :: "string \<Rightarrow> error + string"
  signTypedData :: "string \<Rightarrow> eip712_domain \<Rightarrow> typed_data \<Rightarrow> error + (nat \<times> string \<times> string)"
  parseUnits :: "jsnum \<Rightarrow> nat \<Rightarrow> error + int"
  is_email :: "string \<Rightarrow> bool"
  string_to_number :: "string \<Rightarrow> jsnum"

section \<open>JavaScript values\<close>

text \<open>
  A JavaScript number is \<open>jsnum\<close>: \<open>NaN\<close>, an infinity, or a finite value. A finite double
  stands for the rational it denotes, and every rational is admitted; sums of integers are
  exact. Comparisons with \<open>NaN\<close> are false. \<open>jsval\<close> is a value of a JSON body where the
  handler converts it itself.
\<close>

datatype jsval = JUndefined | JNull | JBool bool | JNumber jsnum | JString string

fun js_truthy :: "jsval \<Rightarrow> bool" where
  "js_truthy JUndefined = False"
| "js_truthy JNull = False"
| "js_truthy (JBool b) = b"
| "js_truthy (JNumber NaN) = False"
| "js_truthy (JNumber (Fin q)) = (q \<noteq> 0)"
| "js_truthy (JNumber _) = True"
| "js_truthy (JString s) = (s \<noteq> [])"

fun js_Number :: "lib \<Rightarrow> jsval \<Rightarrow> jsnum" where
  "js_Number L JUndefined = NaN"
| "js_Number L JNull = Fin 0"
| "js_Number L (JBool b) = Fin (if b then 1 else 0)"
| "js_Number L (JNumber n) = n"
| "js_Number L (JString s) = string_to_number L s"

fun js_le :: "jsnum \<Rightarrow> jsnum \<Rightarrow> bool" where
  "js_le NaN _ = False"
| "js_le _ NaN = False"
| "js_le NegInf _ = True"
| "js_le _ PosInf = True"
| "js_le PosInf _ = False"
| "js_le _ NegInf = False"
| "js_le (Fin a) (Fin b) = (a \<le> b)"

fun js_gt :: "jsnum \<Rightarrow> jsnum \<Rightarrow> bool" where
  "js_gt NaN _ = False"
| "js_gt _ NaN = False"
| "js_gt PosInf PosInf = False"
| "js_gt PosInf _ = True"
| "js_gt _ PosInf = False"
| "js_gt NegInf _ = False"
| "js_gt _ NegInf = True"
| "js_gt (Fin a) (Fin b) = (a > b)"

text \<open>\<^verbatim>\<open>a < b\<close>, the unary minus, and the number an integer is.\<close>

definition js_lt :: "jsnum \<Rightarrow> jsnum \<Rightarrow> bool" where
  "js_lt a b = js_gt b a"

fun js_neg :: "jsnum \<Rightarrow> jsnum" where
  "js_neg NaN = NaN"
| "js_neg PosInf = NegInf"
| "js_neg NegInf = PosInf"
| "js_neg (Fin q) = Fin (- q)"

definition js_of_int :: "int \<Rightarrow> jsnum" where
  "js_of_int i = Fin (of_int i)"

text \<open>The integer a number is, when it is one.\<close>

fun js_integer :: "jsnum \<Rightarrow> int option" where
  "js_integer (Fin q) = (if q = of_int \<lfloor>q\<rfloor> then Some \<lfloor>q\<rfloor> else None)"
| "js_integer _ = None"


section \<open>Key vault (\<^verbatim>\<open>server/blockchain.ts\<close>)\<close>

definition IV_LENGTH :: nat where "IV_LENGTH = 16"
definition SALT_LENGTH :: nat where "SALT_LENGTH = 32"
definition KEY_LENGTH :: nat where "KEY_LENGTH = 32"

definition getEncryptionKey :: "lib \<Rightarrow> env \<Rightarrow> error + bytes" where
  "getEncryptionKey L E =
     (case WALLET_ENCRYPTION_KEY E of
        None \<Rightarrow> Inl (Error ''WALLET_ENCRYPTION_KEY not configured'')
      | Some k \<Rightarrow>
          if k = [] then Inl (Error ''WALLET_ENCRYPTION_KEY not configured'')
          else let salt = scryptSync L k ''rete-wallet-salt'' SALT_LENGTH
               in Inr (scryptSync L k salt KEY_LENGTH))"

text \<open>
  \<open>encryptPrivateKey\<close> takes the bytes that \<^verbatim>\<open>randomBytes(IV_LENGTH)\<close> drew as its
  argument \<open>iv\<close>.
\<close>

definition encryptPrivateKey :: "lib \<Rightarrow> env \<Rightarrow> bytes \<Rightarrow> string \<Rightarrow> error + string" where
  "encryptPrivateKey L E iv privateKey =
     (case getEncryptionKey L E of
        Inl e \<Rightarrow> Inl e
      | Inr key \<Rightarrow>
          (case gcm_encrypt L key iv (utf8_encode privateKey) of
             (ciphertext, authTag) \<Rightarrow>
               Inr (to_hex iv @ '':'' @ to_hex authTag @ '':'' @ to_hex ciphertext)))"

definition decryptPrivateKey :: "lib \<Rightarrow> env \<Rightarrow> string \<Rightarrow> error + string" where
  "decryptPrivateKey L E encryptedData =
     (case getEncryptionKey L E of
        Inl e \<Rightarrow> Inl e
      | Inr key \<Rightarrow>
          (case split_on CHR '':'' encryptedData of
             [p0, p1, p2] \<Rightarrow>
               (case gcm_decrypt L key (from_hex p0) (from_hex p1) (from_hex p2) of
                  Inl e \<Rightarrow> Inl e
                | Inr decrypted \<Rightarrow> Inr (utf8_decode decrypted))
           | _ \<Rightarrow> Inl (Error ''Invalid encrypted data format'')))"

text \<open>
  A private key as \<^verbatim>\<open>ethers\<close> writes it: \<^verbatim>\<open>0x\<close> and 64 hexadecimal digits.
\<close>

definition is_hex_char :: "char \<Rightarrow> bool" where
  "is_hex_char c = (hexval c \<noteq> None)"

definition valid_private_key :: "string \<Rightarrow> bool" where
  "valid_private_key k =
     (length k = 66 \<and> take 2 k = ''0x'' \<and> list_all is_hex_char (drop 2 k))"

text \<open>
  The one property of the cipher the round trip needs, at one key, one initialization
  vector and one plaintext: the library's decipher accepts what its cipher produced
  there, and returns the plaintext.
\<close>

definition cipher_inverts :: "lib \<Rightarrow> bytes \<Rightarrow> bytes \<Rightarrow> bytes \<Rightarrow> bool" where
  "cipher_inverts L key iv pt =
     (case gcm_encrypt L key iv pt of (ct, tag) \<Rightarrow> gcm_decrypt L key iv tag ct = Inr pt)"


section \<open>Chain gateway (\<^verbatim>\<open>server/blockchain.ts\<close>)\<close>

text \<open>
  The token contract is an external interface the server calls through \<^verbatim>\<open>ethers\<close>. Its
  behaviour is the record \<open>gateway\<close> over a chain state \<open>'c\<close>; the second argument of
  every contract call is the token's address.
  \<^item> A view call (\<^verbatim>\<open>eth_call\<close>) reads the state and either throws or returns.
  \<^item> A transaction (\<open>c_mintWithSig\<close>, \<open>c_burnWithSig\<close>, \<open>c_permit\<close>,
    \<open>c_transferFrom\<close>) is the submission from the admin wallet together with
    \<^verbatim>\<open>tx.wait()\<close>: it returns the next chain state with either the error thrown or the
    receipt.
  \<^item> Amounts, nonces and allowances are \<^verbatim>\<open>bigint\<close>s, modelled by \<open>int\<close>. Where the
    source carries one as its decimal string (\<^verbatim>\<open>value\<close>, \<^verbatim>\<open>sent\<close>, \<^verbatim>\<open>nonce\<close>), the model
    carries the integer the string denotes: \<^verbatim>\<open>BigInt(x.toString())\<close> is \<^verbatim>\<open>x\<close>.
\<close>

record receipt =
  receipt_hash :: string
  receipt_blockNumber :: int

record 'c gateway =
  getNetwork :: "'c \<Rightarrow> error + int"
  c_name :: "'c \<Rightarrow> string \<Rightarrow> error + string"
  c_symbol :: "'c \<Rightarrow> string \<Rightarrow> error + string"
  c_decimals :: "'c \<Rightarrow> string \<Rightarrow> error + nat"
  c_totalSupply :: "'c \<Rightarrow> string \<Rightarrow> error + int"
  c_owner :: "'c \<Rightarrow> string \<Rightarrow> error + string"
  c_adminSpender :: "'c \<Rightarrow> string \<Rightarrow> error + string"
  c_mintPaused :: "'c \<Rightarrow> string \<Rightarrow> error + bool"
  c_adminBurnEnabled :: "'c \<Rightarrow> string \<Rightarrow> error + bool"
  c_mintNonces :: "'c \<Rightarrow> string \<Rightarrow> string \<Rightarrow> error + int"
  c_burnNonces :: "'c \<Rightarrow> string \<Rightarrow> string \<Rightarrow> error + int"
  c_nonces :: "'c \<Rightarrow> string \<Rightarrow> string \<Rightarrow> error + int"
  c_allowance :: "'c \<Rightarrow> string \<Rightarrow> string \<Rightarrow> string \<Rightarrow> error + int"
  c_mintWithSig :: "'c \<Rightarrow> string \<Rightarrow> string \<Rightarrow> string \<Rightarrow> int \<Rightarrow> int
                     \<Rightarrow> nat \<Rightarrow> string \<Rightarrow> string \<Rightarrow> (error + receipt) \<times> 'c"
  c_burnWithSig :: "'c \<Rightarrow> string \<Rightarrow> string \<Rightarrow> string \<Rightarrow> int \<Rightarrow> int
                     \<Rightarrow> nat \<Rightarrow> string \<Rightarrow> string \<Rightarrow> (error + receipt) \<times> 'c"
  c_permit :: "'c \<Rightarrow> string \<Rightarrow> string \<Rightarrow> string \<Rightarrow> int \<Rightarrow> int
                \<Rightarrow> nat \<Rightarrow> string \<Rightarrow> string \<Rightarrow> (error + receipt) \<times> 'c"
  c_transferFrom :: "'c \<Rightarrow> string \<Rightarrow> string \<Rightarrow> string \<Rightarrow> int \<Rightarrow> (error + receipt) \<times> 'c"

text \<open>Sequencing of calls that may throw: the first \<open>Inl\<close> ends the sequence.\<close>

fun andThen :: "error + 'a \<Rightarrow> ('a \<Rightarrow> error + 'b) \<Rightarrow> error + 'b" where
  "andThen (Inl e) f = Inl e"
| "andThen (Inr x) f = f x"

record signer =
  signer_privateKey :: string
  signer_address :: string

text \<open>\<^verbatim>\<open>new ethers.Wallet(privateKey)\<close>.\<close>

definition newWallet :: "lib \<Rightarrow> string \<Rightarrow> error + signer" where
  "newWallet L privateKey =
     andThen (computeAddress L privateKey)
       (\<lambda>a. Inr \<lparr>signer_privateKey = privateKey, signer_address = a\<rparr>)"

definition getProvider :: "env \<Rightarrow> error + string" where
  "getProvider E =
     (case RPC_URL E of
        None \<Rightarrow> Inl (Error ''RPC_URL not configured'')
      | Some u \<Rightarrow> if u = [] then Inl (Error ''RPC_URL not configured'') else Inr u)"

definition getAdminWallet :: "lib \<Rightarrow> env \<Rightarrow> error + signer" where
  "getAdminWallet L E =
     (case PRIVATE_KEY E of
        None \<Rightarrow> Inl (Error ''PRIVATE_KEY not configured'')
      | Some k \<Rightarrow>
          if k = [] then Inl (Error ''PRIVATE_KEY not configured'')
          else andThen (getProvider E) (\<lambda>_. newWallet L k))"

definition getTokenAddress :: "env \<Rightarrow> error + string" where
  "getTokenAddress E =
     (case TOKEN_ADDRESS E of
        None \<Rightarrow> Inl (Error ''TOKEN_ADDRESS not configured'')
      | Some a \<Rightarrow> if a = [] then Inl (Error ''TOKEN_ADDRESS not configured'') else Inr a)"

text \<open>\<^verbatim>\<open>tokenAddress || getTokenAddress()\<close> for the optional argument \<^verbatim>\<open>tokenAddress\<close>.\<close>

definition tokenAddressOr :: "env \<Rightarrow> string option \<Rightarrow> error + string" where
  "tokenAddressOr E tokenAddress =
     (case tokenAddress of
        None \<Rightarrow> getTokenAddress E
      | Some a \<Rightarrow> if a = [] then getTokenAddress E else Inr a)"

definition getTokenContract :: "lib \<Rightarrow> env \<Rightarrow> string option \<Rightarrow> error + string" where
  "getTokenContract L E tokenAddress =
     andThen (tokenAddressOr E tokenAddress) (\<lambda>address.
     andThen (getAdminWallet L E) (\<lambda>_. Inr address))"

definition getTokenContractReadonly :: "env \<Rightarrow> string option \<Rightarrow> error + string" where
  "getTokenContractReadonly E tokenAddress =
     andThen (tokenAddressOr E tokenAddress) (\<lambda>address.
     andThen (getProvider E) (\<lambda>_. Inr address))"

definition parseAmount :: "lib \<Rightarrow> jsnum \<Rightarrow> nat \<Rightarrow> error + int" where
  "parseAmount L humanAmount decimals = parseUnits L humanAmount decimals"

record token_config =
  config_token :: string
  config_name :: string
  config_symbol :: string
  config_decimals :: nat
  config_totalSupply :: int
  config_owner :: string
  config_adminSpender :: string
  config_mintPaused :: bool
  config_adminBurnEnabled :: bool
  config_chainId :: int

text \<open>
  \<open>getTokenConfig\<close>: the seven reads of \<^verbatim>\<open>Promise.all\<close> are taken in the order of the
  array; which of several failing reads is reported does not matter to any caller.
\<close>

definition getTokenConfig :: "'c gateway \<Rightarrow> env \<Rightarrow> 'c \<Rightarrow> string option \<Rightarrow> error + token_config" where
  "getTokenConfig G E ch tokenAddress =
     andThen (getTokenContractReadonly E tokenAddress) (\<lambda>token.
     andThen (getProvider E) (\<lambda>_.
     andThen (getNetwork G ch) (\<lambda>chainId.
     andThen (c_name G ch token) (\<lambda>name.
     andThen (c_symbol G ch token) (\<lambda>symbol.
     andThen (c_decimals G ch token) (\<lambda>decimals.
     andThen (c_totalSupply G ch token) (\<lambda>totalSupply.
     andThen (c_owner G ch token) (\<lambda>owner.
     andThen (c_adminSpender G ch token) (\<lambda>adminSpender.
     andThen (c_mintPaused G ch token) (\<lambda>mintPaused.
     let adminBurnEnabled =
           (case c_adminBurnEnabled G ch token of Inl _ \<Rightarrow> False | Inr b \<Rightarrow> b)
     in andThen (tokenAddressOr E tokenAddress) (\<lambda>t.
        Inr \<lparr>config_token = t, config_name = name, config_symbol = symbol,
             config_decimals = decimals, config_totalSupply = totalSupply,
             config_owner = owner, config_adminSpender = adminSpender,
             config_mintPaused = mintPaused, config_adminBurnEnabled = adminBurnEnabled,
             config_chainId = chainId\<rparr>)))))))))))"

record mint_result =
  mint_tx :: string
  mint_block :: int
  mint_to :: string
  mint_amount :: int
  mint_signer :: string
  mint_deadline :: int

definition mintWithSignature ::
  "'c gateway \<Rightarrow> lib \<Rightarrow> env \<Rightarrow> 'c \<Rightarrow> string \<Rightarrow> string \<Rightarrow> jsnum \<Rightarrow> int \<Rightarrow> nat \<Rightarrow> string \<Rightarrow> string
     \<Rightarrow> string option \<Rightarrow> (error + mint_result) \<times> 'c" where
  "mintWithSignature G L E ch signer to amountHuman deadline v r s tokenAddress =
     (case getTokenContract L E tokenAddress of
        Inl e \<Rightarrow> (Inl e, ch)
      | Inr token \<Rightarrow>
     (case c_decimals G ch token of
        Inl e \<Rightarrow> (Inl e, ch)
      | Inr decimals \<Rightarrow>
     (case parseAmount L amountHuman decimals of
        Inl e \<Rightarrow> (Inl e, ch)
      | Inr amount \<Rightarrow>
     (case c_mintWithSig G ch token signer to amount deadline v r s of
        (Inl e, ch') \<Rightarrow> (Inl e, ch')
      | (Inr rc, ch') \<Rightarrow>
          (Inr \<lparr>mint_tx = receipt_hash rc, mint_block = receipt_blockNumber rc, mint_to = to,
                mint_amount = amount, mint_signer = signer, mint_deadline = deadline\<rparr>,
           ch')))))"

record burn_result =
  burn_action :: string
  burn_tx :: string
  burn_block :: int
  burn_signer :: string
  burn_from :: string
  burn_amount :: int
  burn_deadline :: int

definition burnWithSignature ::
  "'c gateway \<Rightarrow> lib \<Rightarrow> env \<Rightarrow> 'c \<Rightarrow> string \<Rightarrow> string \<Rightarrow> jsnum \<Rightarrow> int \<Rightarrow> nat \<Rightarrow> string \<Rightarrow> string
     \<Rightarrow> string option \<Rightarrow> (error + burn_result) \<times> 'c" where
  "burnWithSignature G L E ch signer from amountHuman deadline v r s tokenAddress =
     (case getTokenContract L E tokenAddress of
        Inl e \<Rightarrow> (Inl e, ch)
      | Inr token \<Rightarrow>
     (case c_decimals G ch token of
        Inl e \<Rightarrow> (Inl e, ch)
      | Inr decimals \<Rightarrow>
     (case parseAmount L amountHuman decimals of
        Inl e \<Rightarrow> (Inl e, ch)
      | Inr amount \<Rightarrow>
     (case c_burnWithSig G ch token signer from amount deadline v r s of
        (Inl e, ch') \<Rightarrow> (Inl e, ch')
      | (Inr rc, ch') \<Rightarrow>
          (Inr \<lparr>burn_action = ''burn-with-sig'', burn_tx = receipt_hash rc,
                burn_block = receipt_blockNumber rc, burn_signer = signer, burn_from = from,
                burn_amount = amount, burn_deadline = deadline\<rparr>,
           ch')))))"

definition getMintNonce :: "'c gateway \<Rightarrow> env \<Rightarrow> 'c \<Rightarrow> string \<Rightarrow> string option \<Rightarrow> error + int" where
  "getMintNonce G E ch signerAddress tokenAddress =
     andThen (getTokenContractReadonly E tokenAddress) (\<lambda>token.
       c_mintNonces G ch token signerAddress)"

definition getBurnNonce :: "'c gateway \<Rightarrow> env \<Rightarrow> 'c \<Rightarrow> string \<Rightarrow> string option \<Rightarrow> error + int" where
  "getBurnNonce G E ch signerAddress tokenAddress =
     andThen (getTokenContractReadonly E tokenAddress) (\<lambda>token.
       c_burnNonces G ch token signerAddress)"

definition getPermitNonce :: "'c gateway \<Rightarrow> env \<Rightarrow> 'c \<Rightarrow> string \<Rightarrow> string option \<Rightarrow> error + int" where
  "getPermitNonce G E ch ownerAddress tokenAddress =
     andThen (getTokenContractReadonly E tokenAddress) (\<lambda>token.
       c_nonces G ch token ownerAddress)"


section \<open>Authorization signer (\<^verbatim>\<open>server/blockchain.ts\<close>)\<close>

record authorization =
  auth_v :: nat
  auth_r :: string
  auth_s :: string
  auth_nonce :: int
  auth_deadline :: int

record permit_signature =
  permit_v :: nat
  permit_r :: string
  permit_s :: string
  permit_owner :: string
  permit_spender :: string
  permit_value :: int
  permit_nonce :: int
  permit_deadline :: int

definition signPermit ::
  "'c gateway \<Rightarrow> lib \<Rightarrow> env \<Rightarrow> 'c \<Rightarrow> signer \<Rightarrow> string \<Rightarrow> int \<Rightarrow> int \<Rightarrow> string option
     \<Rightarrow> error + permit_signature" where
  "signPermit G L E ch wallet spender amountWei deadline tokenAddress =
     andThen (getTokenConfig G E ch tokenAddress) (\<lambda>config.
     andThen (getPermitNonce G E ch (signer_address wallet) tokenAddress) (\<lambda>nonce.
     let domain = \<lparr>domain_name = config_name config, domain_version = ''1'',
                    domain_chainId = config_chainId config,
                    domain_verifyingContract = config_token config\<rparr>;
         msg = Permit (signer_address wallet) spender amountWei nonce deadline
     in andThen (signTypedData L (signer_privateKey wallet) domain msg) (\<lambda>(v, r, s).
        Inr \<lparr>permit_v = v, permit_r = r, permit_s = s,
             permit_owner = signer_address wallet, permit_spender = spender,
             permit_value = amountWei, permit_nonce = nonce, permit_deadline = deadline\<rparr>)))"

definition signMintAuthorization ::
  "'c gateway \<Rightarrow> lib \<Rightarrow> env \<Rightarrow> 'c \<Rightarrow> signer \<Rightarrow> string \<Rightarrow> int \<Rightarrow> int \<Rightarrow> string option
     \<Rightarrow> error + authorization" where
  "signMintAuthorization G L E ch wallet to amountWei deadline tokenAddress =
     andThen (getTokenContractReadonly E tokenAddress) (\<lambda>token.
     andThen (getTokenConfig G E ch tokenAddress) (\<lambda>config.
     andThen (getMintNonce G E ch (signer_address wallet) tokenAddress) (\<lambda>nonce.
     let domain = \<lparr>domain_name = config_name config, domain_version = ''1'',
                    domain_chainId = config_chainId config,
                    domain_verifyingContract = config_token config\<rparr>;
         msg = MintAuthorization (signer_address wallet) to amountWei nonce deadline
     in andThen (signTypedData L (signer_privateKey wallet) domain msg) (\<lambda>(v, r, s).
        Inr \<lparr>auth_v = v, auth_r = r, auth_s = s, auth_nonce = nonce,
             auth_deadline = deadline\<rparr>))))"

definition signBurnAuthorization ::
  "'c gateway \<Rightarrow> lib \<Rightarrow> env \<Rightarrow> 'c \<Rightarrow> signer \<Rightarrow> string \<Rightarrow> int \<Rightarrow> int \<Rightarrow> string option
     \<Rightarrow> error + authorization" where
  "signBurnAuthorization G L E ch wallet from amountWei deadline tokenAddress =
     andThen (getTokenConfig G E ch tokenAddress) (\<lambda>config.
     andThen (getBurnNonce G E ch (signer_address wallet) tokenAddress) (\<lambda>nonce.
     let domain = \<lparr>domain_name = config_name config, domain_version = ''1'',
                    domain_chainId = config_chainId config,
                    domain_verifyingContract = config_token config\<rparr>;
         msg = BurnAuthorization (signer_address wallet) from amountWei nonce deadline
     in andThen (signTypedData L (signer_privateKey wallet) domain msg) (\<lambda>(v, r, s).
        Inr \<lparr>auth_v = v, auth_r = r, auth_s = s, auth_nonce = nonce,
             auth_deadline = deadline\<rparr>)))"

section \<open>Permit and transfer (\<^verbatim>\<open>server/blockchain.ts\<close>)\<close>

definition toLowerCase :: "string \<Rightarrow> string" where
  "toLowerCase s =
     map (\<lambda>c. if 65 \<le> (of_char c :: nat) \<and> (of_char c :: nat) \<le> 90
                then char_of ((of_char c :: nat) + 32) else c) s"

record transfer_result =
  transfer_action :: string
  transfer_sent :: int
  transfer_allowanceAfter :: int
  transfer_permitTx :: string
  transfer_permitBlock :: int
  transfer_transferTx :: string
  transfer_transferBlock :: int

definition permitTransfer ::
  "'c gateway \<Rightarrow> lib \<Rightarrow> env \<Rightarrow> 'c \<Rightarrow> string \<Rightarrow> string \<Rightarrow> int \<Rightarrow> int \<Rightarrow> nat \<Rightarrow> string \<Rightarrow> string
     \<Rightarrow> string \<Rightarrow> string option \<Rightarrow> (error + transfer_result) \<times> 'c" where
  "permitTransfer G L E ch owner spender val deadline v r s recipient tokenAddress =
     (case getTokenContract L E tokenAddress of
        Inl e \<Rightarrow> (Inl e, ch)
      | Inr token \<Rightarrow>
     (case getAdminWallet L E of
        Inl e \<Rightarrow> (Inl e, ch)
      | Inr wallet \<Rightarrow>
     if toLowerCase spender \<noteq> toLowerCase (signer_address wallet)
     then (Inl (Error ''Spender must be server wallet''), ch)
     else
     (case c_permit G ch token owner spender val deadline v r s of
        (Inl e, ch1) \<Rightarrow> (Inl e, ch1)
      | (Inr receiptPermit, ch1) \<Rightarrow>
     (case c_allowance G ch1 token owner (signer_address wallet) of
        Inl e \<Rightarrow> (Inl e, ch1)
      | Inr allowance \<Rightarrow>
     if allowance = 0 then (Inl (Error ''No allowance after permit''), ch1)
     else
     let requested = val;
         sendAmount = (if requested \<le> allowance then requested else allowance)
     in
     (case c_transferFrom G ch1 token owner recipient sendAmount of
        (Inl e, ch2) \<Rightarrow> (Inl e, ch2)
      | (Inr rc, ch2) \<Rightarrow>
     (case c_allowance G ch2 token owner (signer_address wallet) of
        Inl e \<Rightarrow> (Inl e, ch2)
      | Inr leftover \<Rightarrow>
          (Inr \<lparr>transfer_action = ''permit-transfer'', transfer_sent = sendAmount,
                transfer_allowanceAfter = leftover,
                transfer_permitTx = receipt_hash receiptPermit,
                transfer_permitBlock = receipt_blockNumber receiptPermit,
                transfer_transferTx = receipt_hash rc,
                transfer_transferBlock = receipt_blockNumber rc\<rparr>,
           ch2)))))))"

section \<open>The store (\<^verbatim>\<open>shared/schema.ts\<close>, \<^verbatim>\<open>server/storage.ts\<close>)\<close>

text \<open>
  A table is the list of its rows in insertion order, with the columns the settlement
  flows read or write. A nullable column is an \<open>option\<close>. A transaction's \<^verbatim>\<open>id\<close>, which
  the database generates, is the serial number \<open>nextId\<close> of the insertion.

  An \<^verbatim>\<open>integer\<close> column is PostgreSQL's \<^verbatim>\<open>int4\<close>, a signed 32-bit word that \<open>sint\<close> reads.
  PostgreSQL does not wrap: a statement whose parameter is not an \<^verbatim>\<open>int4\<close>, or whose sum
  leaves the range, fails as a whole and throws in the server. Of PostgreSQL's messages
  the model keeps the text without the quoted value. Foreign keys are not modelled: the
  routes insert the ids of rows they have just read. Each statement commits on its own, as
  no route opens a database transaction.
\<close>

type_synonym int4 = "32 word"

definition int4_range :: "int \<Rightarrow> bool" where
  "int4_range x = (- 2147483648 \<le> x \<and> x \<le> 2147483647)"

text \<open>
  \<open>int4_input\<close>: what PostgreSQL makes of a number the driver sends as the text of
  \<^verbatim>\<open>toString()\<close>, where it expects an \<^verbatim>\<open>int4\<close>. JavaScript prints an integer in digits
  below \<^verbatim>\<open>1e21\<close> and with an exponent from there on.
\<close>

definition int4_input :: "jsnum \<Rightarrow> error + int4" where
  "int4_input x =
     (case js_integer x of
        None \<Rightarrow> Inl (Error ''invalid input syntax for type integer'')
      | Some i \<Rightarrow>
          if int4_range i then Inr (word_of_int i)
          else if \<bar>i\<bar> < 10 ^ 21 then Inl (Error ''value out of range for type integer'')
          else Inl (Error ''invalid input syntax for type integer''))"

text \<open>The JavaScript number the driver returns for an \<^verbatim>\<open>int4\<close>.\<close>

definition js_of_int4 :: "int4 \<Rightarrow> jsnum" where
  "js_of_int4 w = js_of_int (sint w)"

datatype user_role = Coordinator | Provider | User
datatype transaction_type = Send | Receive | Purchase | Burn
datatype transaction_status = Pending | Completed | Failed

record user =
  user_id :: string
  user_email :: string
  user_name :: string
  user_role :: user_role
  user_ethAddress :: string
  user_tokenBalance :: int4
  user_communityId :: "string option"

record community =
  community_id :: string
  community_name :: string
  community_tokenAddress :: "string option"

record wallet =
  wallet_id :: string
  wallet_userId :: string
  wallet_address :: string
  wallet_encryptedPrivateKey :: string
  wallet_isDefault :: int

record product =
  product_id :: string
  product_name :: string
  product_price :: int4
  product_providerId :: string

record product_community =
  pc_productId :: string
  pc_communityId :: string

record transaction =
  tx_id :: nat
  tx_type :: transaction_type
  tx_amount :: int4
  tx_description :: "string option"
  tx_status :: transaction_status
  tx_fromUserId :: "string option"
  tx_toUserId :: "string option"
  tx_productId :: "string option"
  tx_communityId :: "string option"
  tx_txHash :: "string option"

text \<open>
  \<^verbatim>\<open>InsertTransaction\<close>, the argument of \<open>createTransaction\<close>: a transaction without its
  \<^verbatim>\<open>id\<close>, whose amount is still the JavaScript number of the caller.
\<close>

record insert_transaction =
  ins_type :: transaction_type
  ins_amount :: jsnum
  ins_description :: "string option"
  ins_status :: transaction_status
  ins_fromUserId :: "string option"
  ins_toUserId :: "string option"
  ins_productId :: "string option"
  ins_communityId :: "string option"
  ins_txHash :: "string option"

record db =
  users :: "user list"
  communities :: "community list"
  wallets :: "wallet list"
  products :: "product list"
  productCommunities :: "product_community list"
  transactions :: "transaction list"
  nextId :: nat

definition getUser :: "db \<Rightarrow> string \<Rightarrow> user option" where
  "getUser d i = find (\<lambda>u. user_id u = i) (users d)"

definition getUserByEmail :: "db \<Rightarrow> string \<Rightarrow> user option" where
  "getUserByEmail d email = find (\<lambda>u. user_email u = email) (users d)"

text \<open>The balance a handler reads back: \<^verbatim>\<open>(await storage.getUser(id))?.tokenBalance\<close>.\<close>

definition cachedBalance :: "db \<Rightarrow> string \<Rightarrow> int option" where
  "cachedBalance d i = map_option (\<lambda>u. sint (user_tokenBalance u)) (getUser d i)"

text \<open>
  \<open>updateUserBalance\<close>: the statement \<^verbatim>\<open>SET token_balance = token_balance + $1\<close>. It fails
  when the parameter is not an \<^verbatim>\<open>int4\<close> and when the sum of a row it updates leaves the
  range. On success the model returns the store; the row the source also returns is used
  by its callers for notifications only, as is that of \<open>updateTransactionStatus\<close>.
\<close>

definition updateUserBalance :: "db \<Rightarrow> string \<Rightarrow> jsnum \<Rightarrow> error + db" where
  "updateUserBalance d userId amount =
     (case int4_input amount of
        Inl e \<Rightarrow> Inl e
      | Inr a \<Rightarrow>
          if list_ex (\<lambda>u. user_id u = userId
                          \<and> \<not> int4_range (sint (user_tokenBalance u) + sint a)) (users d)
          then Inl (Error ''integer out of range'')
          else Inr (d\<lparr>users := map (\<lambda>u. if user_id u = userId
                                         then u\<lparr>user_tokenBalance := user_tokenBalance u + a\<rparr>
                                         else u) (users d)\<rparr>))"

definition getCommunity :: "db \<Rightarrow> string \<Rightarrow> community option" where
  "getCommunity d i = find (\<lambda>c. community_id c = i) (communities d)"

definition getProduct :: "db \<Rightarrow> string \<Rightarrow> product option" where
  "getProduct d i = find (\<lambda>p. product_id p = i) (products d)"

definition getDefaultWallet :: "db \<Rightarrow> string \<Rightarrow> wallet option" where
  "getDefaultWallet d userId =
     find (\<lambda>w. wallet_userId w = userId \<and> wallet_isDefault w = 1) (wallets d)"

definition isProductAvailableInCommunity :: "db \<Rightarrow> string \<Rightarrow> string \<Rightarrow> bool" where
  "isProductAvailableInCommunity d productId communityId =
     list_ex (\<lambda>pc. pc_productId pc = productId \<and> pc_communityId pc = communityId)
       (productCommunities d)"

text \<open>
  \<open>createTransaction\<close>: the insert fails when the amount is not an \<^verbatim>\<open>int4\<close>; otherwise it
  returns the new row and the store.
\<close>

definition createTransaction :: "db \<Rightarrow> insert_transaction \<Rightarrow> error + (transaction \<times> db)" where
  "createTransaction d insertTransaction =
     (case int4_input (ins_amount insertTransaction) of
        Inl e \<Rightarrow> Inl e
      | Inr amount \<Rightarrow>
          let row = \<lparr>tx_id = nextId d, tx_type = ins_type insertTransaction,
                     tx_amount = amount,
                     tx_description = ins_description insertTransaction,
                     tx_status = ins_status insertTransaction,
                     tx_fromUserId = ins_fromUserId insertTransaction,
                     tx_toUserId = ins_toUserId insertTransaction,
                     tx_productId = ins_productId insertTransaction,
                     tx_communityId = ins_communityId insertTransaction,
                     tx_txHash = ins_txHash insertTransaction\<rparr>
          in Inr (row, d\<lparr>transactions := transactions d @ [row], nextId := Suc (nextId d)\<rparr>))"

definition updateTransactionStatus ::
  "db \<Rightarrow> nat \<Rightarrow> transaction_status \<Rightarrow> string option \<Rightarrow> db" where
  "updateTransactionStatus d i status txHash =
     d\<lparr>transactions :=
         map (\<lambda>t. if tx_id t = i
                  then (case txHash of
                          None \<Rightarrow> t\<lparr>tx_status := status\<rparr>
                        | Some h \<Rightarrow> t\<lparr>tx_status := status, tx_txHash := Some h\<rparr>)
                  else t) (transactions d)\<rparr>"

text \<open>
  A row of \<open>getCommunityBalances\<close>. Its \<^verbatim>\<open>tokenBalance\<close> is a JavaScript number that holds
  an integer, a column value or a sum of column values: an \<open>int\<close>.
\<close>

record balance_record =
  bal_id :: string
  bal_name :: string
  bal_email :: string
  bal_role :: user_role
  bal_tokenBalance :: int
  bal_ethAddress :: string

definition balanceRecord :: "user \<Rightarrow> int \<Rightarrow> balance_record" where
  "balanceRecord u b =
     \<lparr>bal_id = user_id u, bal_name = user_name u, bal_email = user_email u,
      bal_role = user_role u, bal_tokenBalance = b, bal_ethAddress = user_ethAddress u\<rparr>"

text \<open>
  The three queries of \<open>getCommunityBalances\<close>; joins are nested loops over the tables.
\<close>

definition communityUsers :: "db \<Rightarrow> string \<Rightarrow> user list" where
  "communityUsers d communityId =
     filter (\<lambda>u. user_communityId u = Some communityId) (users d)"

definition providersWithSales :: "db \<Rightarrow> string \<Rightarrow> (user \<times> int) list" where
  "providersWithSales d communityId =
     [(u, sint (tx_amount t)). t \<leftarrow> transactions d, p \<leftarrow> products d, u \<leftarrow> users d,
        tx_productId t = Some (product_id p), product_providerId p = user_id u,
        tx_communityId t = Some communityId, tx_type t = Purchase]"

definition providerBurns :: "db \<Rightarrow> string \<Rightarrow> (string option \<times> int) list" where
  "providerBurns d communityId =
     [(tx_fromUserId t, sint (tx_amount t)). t \<leftarrow> transactions d, u \<leftarrow> users d,
        tx_fromUserId t = Some (user_id u), tx_communityId t = Some communityId,
        tx_type t = Burn, user_role u = Provider]"

text \<open>
  The \<^verbatim>\<open>Map\<close> \<open>providerBalances\<close> is the list of its values in insertion order; the key of
  a value is its \<open>bal_id\<close>.
\<close>

definition addSale :: "balance_record list \<Rightarrow> user \<times> int \<Rightarrow> balance_record list" where
  "addSale m p =
     (if list_ex (\<lambda>b. bal_id b = user_id (fst p)) m
      then map (\<lambda>b. if bal_id b = user_id (fst p)
                     then b\<lparr>bal_tokenBalance := bal_tokenBalance b + snd p\<rparr> else b) m
      else m @ [balanceRecord (fst p) (snd p)])"

definition subtractBurn :: "balance_record list \<Rightarrow> string option \<times> int \<Rightarrow> balance_record list" where
  "subtractBurn m burn =
     (case fst burn of
        None \<Rightarrow> m
      | Some f \<Rightarrow>
          if f = [] then m
          else map (\<lambda>b. if bal_id b = f
                         then b\<lparr>bal_tokenBalance := bal_tokenBalance b - snd burn\<rparr> else b) m)"

definition pushProvider :: "balance_record list \<Rightarrow> balance_record \<Rightarrow> balance_record list" where
  "pushProvider allBalances provider =
     (if list_ex (\<lambda>u. bal_id u = bal_id provider) allBalances then allBalances
      else allBalances @ [provider])"

definition allBalances :: "db \<Rightarrow> string \<Rightarrow> balance_record list" where
  "allBalances d communityId =
     (let providerBalances =
            foldl subtractBurn (foldl addSale [] (providersWithSales d communityId))
              (providerBurns d communityId)
      in foldl pushProvider
           (map (\<lambda>u. balanceRecord u (sint (user_tokenBalance u))) (communityUsers d communityId))
           providerBalances)"

definition getCommunityBalances :: "db \<Rightarrow> string \<Rightarrow> balance_record list" where
  "getCommunityBalances d communityId =
     filter (\<lambda>u. 0 < bal_tokenBalance u) (allBalances d communityId)"

text \<open>
  \<open>burnAllCommunityTokens\<close>, the store's own burn of every balance: no chain call, and the
  transaction it inserts names no hash. An insert that fails ends the loop with what was
  written before it.
\<close>

fun burnAllLoop :: "string \<Rightarrow> string \<Rightarrow> balance_record list \<Rightarrow> int \<Rightarrow> int \<Rightarrow> db
                    \<Rightarrow> (error + int \<times> int) \<times> db" where
  "burnAllLoop communityId coordinatorId [] totalBurned usersAffected d =
     (Inr (totalBurned, usersAffected), d)"
| "burnAllLoop communityId coordinatorId (balance # rest) totalBurned usersAffected d =
     (if 0 < bal_tokenBalance balance
      then
        let d1 = (if bal_role balance \<noteq> Provider
                  then d\<lparr>users := map (\<lambda>u. if user_id u = bal_id balance
                                              then u\<lparr>user_tokenBalance := 0\<rparr> else u) (users d)\<rparr>
                  else d)
        in (case createTransaction d1
                   \<lparr>ins_type = Burn, ins_amount = js_of_int (bal_tokenBalance balance),
                    ins_description = Some (''Burn completo - '' @ bal_name balance),
                    ins_status = Completed, ins_fromUserId = Some (bal_id balance),
                    ins_toUserId = Some coordinatorId, ins_productId = None,
                    ins_communityId = Some communityId, ins_txHash = None\<rparr> of
              Inl e \<Rightarrow> (Inl e, d1)
            | Inr (row, d2) \<Rightarrow>
                burnAllLoop communityId coordinatorId rest
                  (totalBurned + bal_tokenBalance balance) (usersAffected + 1) d2)
      else burnAllLoop communityId coordinatorId rest totalBurned usersAffected d)"

definition burnAllCommunityTokens ::
  "db \<Rightarrow> string \<Rightarrow> string \<Rightarrow> (error + int \<times> int) \<times> db" where
  "burnAllCommunityTokens d communityId coordinatorId =
     burnAllLoop communityId coordinatorId (getCommunityBalances d communityId) 0 0 d"

section \<open>Settlement routes (\<^verbatim>\<open>server/routes.ts\<close>)\<close>

text \<open>
  A handler takes the session's user id, the request body, the store and the chain state,
  and returns the response with the store and the chain state it leaves behind.
  \<^item> \<open>Json x\<close> is \<^verbatim>\<open>res.json(x)\<close>; \<open>Fail n m\<close> is \<^verbatim>\<open>res.status(n).json({error: m})\<close>;
    \<open>Invalid\<close> is the status 400 that carries a \<^verbatim>\<open>ZodError\<close>'s issues. Messages are written
    without their accents.
  \<^item> \<open>now\<close> is \<^verbatim>\<open>Math.floor(Date.now() / 1000)\<close>, one value for the whole request.
  \<^item> The WebSocket notifications (\<^verbatim>\<open>emitTransactionUpdate\<close>, \<^verbatim>\<open>emitBalanceUpdate\<close>,
    \<^verbatim>\<open>emitTransactionToCommunity\<close>) never throw and touch neither the store nor the chain;
    they are left out.
  \<^item> Request bodies are typed: a field has the type its handler passes on, and is an
    \<open>option\<close> where the handler tests that it is present. An amount is the JavaScript
    number of the JSON body, of which the handlers test no more than the sign.
  \<^item> A statement of the store that fails throws; the handler's \<^verbatim>\<open>catch\<close> answers, and what
    was written before stays written.
\<close>

datatype 'a response = Json 'a | Fail nat string | Invalid

definition messageOr :: "error \<Rightarrow> string \<Rightarrow> string" where
  "messageOr e d = (if message e = [] then d else message e)"

definition orElse :: "string option \<Rightarrow> string option \<Rightarrow> string option" where
  "orElse a b = (if truthy a then a else b)"

text \<open>A string a handler has tested with \<^verbatim>\<open>!x\<close>: present when neither missing nor empty.\<close>

definition present :: "string option \<Rightarrow> string option" where
  "present x = (case x of None \<Rightarrow> None | Some s \<Rightarrow> if s = [] then None else Some s)"

text \<open>\<open>requireAuth\<close>: the middleware in front of every settlement route.\<close>

definition requireAuth :: "string option \<Rightarrow> 's \<Rightarrow> (string \<Rightarrow> 'a response \<times> 's) \<Rightarrow> 'a response \<times> 's" where
  "requireAuth session st handler =
     (case session of
        None \<Rightarrow> (Fail 401 ''Non autenticato'', st)
      | Some userId \<Rightarrow>
          if userId = [] then (Fail 401 ''Non autenticato'', st) else handler userId)"

text \<open>
  The signer of a custodial wallet: \<^verbatim>\<open>decryptPrivateKey\<close> followed by
  \<^verbatim>\<open>new ethers.Wallet(privateKey)\<close>.
\<close>

definition custodialSigner :: "lib \<Rightarrow> env \<Rightarrow> wallet \<Rightarrow> error + signer" where
  "custodialSigner L E w =
     andThen (decryptPrivateKey L E (wallet_encryptedPrivateKey w)) (newWallet L)"

subsection \<open>\<^verbatim>\<open>POST /api/tokens/distribute\<close>\<close>

record distribution =
  dist_email :: string
  dist_amount :: jsnum

record distributed_entry =
  distributed_email :: string
  distributed_amount :: jsnum
  distributed_userName :: string
  distributed_txHash :: string

record distribute_error =
  error_email :: string
  error_text :: string

record distribute_result =
  distributed :: "distributed_entry list"
  errors :: "distribute_error list"

text \<open>
  \<^verbatim>\<open>z.number().positive()\<close> accepts a number that is greater than 0, which \<open>NaN\<close> is not.
\<close>

definition distributeTokensSchema_parse :: "lib \<Rightarrow> distribution list \<Rightarrow> error + distribution list" where
  "distributeTokensSchema_parse L body =
     (if list_all (\<lambda>d. is_email L (dist_email d) \<and> js_gt (dist_amount d) (Fin 0)) body
      then Inr body else Inl ZodError)"

text \<open>
  The checks in front of the loop (lines 266 to 290): a response, or the coordinator, the
  token address of the community, the coordinator's signer and the parsed distributions.
\<close>

definition distribute_prepare ::
  "lib \<Rightarrow> env \<Rightarrow> db \<Rightarrow> string \<Rightarrow> distribution list
     \<Rightarrow> distribute_result response + (user \<times> string \<times> signer \<times> distribution list)" where
  "distribute_prepare L E d userId body =
     (case getUser d userId of
        None \<Rightarrow> Inl (Fail 403 ''Solo i coordinatori possono distribuire token'')
      | Some user \<Rightarrow>
     if user_role user \<noteq> Coordinator
     then Inl (Fail 403 ''Solo i coordinatori possono distribuire token'')
     else
     (case user_communityId user of
        None \<Rightarrow> Inl (Fail 400 ''Nessuna comunita associata'')
      | Some cid \<Rightarrow>
     if cid = [] then Inl (Fail 400 ''Nessuna comunita associata'')
     else
     (case getCommunity d cid of
        None \<Rightarrow> Inl (Fail 400 ''La comunita non ha ancora un token. Crealo prima nelle Impostazioni.'')
      | Some community \<Rightarrow>
     (case community_tokenAddress community of
        None \<Rightarrow> Inl (Fail 400 ''La comunita non ha ancora un token. Crealo prima nelle Impostazioni.'')
      | Some tokenAddress \<Rightarrow>
     if tokenAddress = []
     then Inl (Fail 400 ''La comunita non ha ancora un token. Crealo prima nelle Impostazioni.'')
     else
     (case getDefaultWallet d (user_id user) of
        None \<Rightarrow> Inl (Fail 400 ''Wallet del coordinatore non trovato'')
      | Some coordinatorWallet \<Rightarrow>
     (case custodialSigner L E coordinatorWallet of
        Inl e \<Rightarrow> Inl (Fail 500 ''Errore nella distribuzione'')
      | Inr signerWallet \<Rightarrow>
     (case distributeTokensSchema_parse L body of
        Inl e \<Rightarrow> Inl (if e = ZodError then Invalid else Fail 500 ''Errore nella distribuzione'')
      | Inr distributions \<Rightarrow> Inr (user, tokenAddress, signerWallet, distributions))))))))"

text \<open>
  Lines 330 to 344 of the \<^verbatim>\<open>try\<close> block: read the token's decimals, scale the amount and
  sign the mint authorization with the coordinator's wallet.
\<close>

definition distribute_sign ::
  "'c gateway \<Rightarrow> lib \<Rightarrow> env \<Rightarrow> int \<Rightarrow> 'c \<Rightarrow> signer \<Rightarrow> user \<Rightarrow> distribution \<Rightarrow> string
     \<Rightarrow> error + authorization" where
  "distribute_sign G L E now ch signerWallet targetUser item tokenAddress =
     andThen (getTokenConfig G E ch (Some tokenAddress)) (\<lambda>tokenConfig.
     andThen (parseAmount L (dist_amount item) (config_decimals tokenConfig)) (\<lambda>amountWei.
     signMintAuthorization G L E ch signerWallet (user_ethAddress targetUser) amountWei
       (now + 3600) (Some tokenAddress)))"

text \<open>
  The \<^verbatim>\<open>try\<close> block of one item (lines 306 to 384). Whatever throws in it, a chain call
  or a statement of the store, ends the item with the error.
\<close>

definition distribute_try ::
  "'c gateway \<Rightarrow> lib \<Rightarrow> env \<Rightarrow> int \<Rightarrow> user \<Rightarrow> string \<Rightarrow> signer \<Rightarrow> distribution \<Rightarrow> user
     \<Rightarrow> db \<Rightarrow> 'c \<Rightarrow> (error + distributed_entry) \<times> db \<times> 'c" where
  "distribute_try G L E now user tokenAddress signerWallet item targetUser d ch =
     (case createTransaction d
             \<lparr>ins_type = Receive, ins_amount = dist_amount item,
              ins_description = Some (''Distribuzione da '' @ user_name user),
              ins_status = Pending, ins_fromUserId = Some (user_id user),
              ins_toUserId = Some (user_id targetUser), ins_productId = None,
              ins_communityId = user_communityId user, ins_txHash = None\<rparr> of
        Inl e \<Rightarrow> (Inl e, d, ch)
      | Inr (pendingTransaction, d1) \<Rightarrow>
     (case distribute_sign G L E now ch signerWallet targetUser item tokenAddress of
        Inl e \<Rightarrow> (Inl e, d1, ch)
      | Inr signature \<Rightarrow>
     (case mintWithSignature G L E ch (signer_address signerWallet) (user_ethAddress targetUser)
             (dist_amount item) (now + 3600) (auth_v signature) (auth_r signature)
             (auth_s signature) (Some tokenAddress) of
        (Inl e, ch') \<Rightarrow> (Inl e, d1, ch')
      | (Inr mintResult, ch') \<Rightarrow>
     (case updateUserBalance d1 (user_id targetUser) (dist_amount item) of
        Inl e \<Rightarrow> (Inl e, d1, ch')
      | Inr d2 \<Rightarrow>
          let d3 = updateTransactionStatus d2 (tx_id pendingTransaction) Completed
                     (Some (mint_tx mintResult))
          in (Inr \<lparr>distributed_email = dist_email item, distributed_amount = dist_amount item,
                   distributed_userName = user_name targetUser,
                   distributed_txHash = mint_tx mintResult\<rparr>, d3, ch')))))"

text \<open>The loop over the distributions (lines 295 to 392), with its two result lists.\<close>

fun distribute_loop ::
  "'c gateway \<Rightarrow> lib \<Rightarrow> env \<Rightarrow> int \<Rightarrow> user \<Rightarrow> string \<Rightarrow> signer \<Rightarrow> distribution list
     \<Rightarrow> distributed_entry list \<Rightarrow> distribute_error list \<Rightarrow> db \<Rightarrow> 'c
     \<Rightarrow> distribute_result \<times> db \<times> 'c" where
  "distribute_loop G L E now user tokenAddress signerWallet [] results errs d ch =
     (\<lparr>distributed = results, errors = errs\<rparr>, d, ch)"
| "distribute_loop G L E now user tokenAddress signerWallet (item # rest) results errs d ch =
     (case getUserByEmail d (dist_email item) of
        None \<Rightarrow>
          distribute_loop G L E now user tokenAddress signerWallet rest results
            (errs @ [\<lparr>error_email = dist_email item, error_text = ''Utente non trovato''\<rparr>]) d ch
      | Some targetUser \<Rightarrow>
          if user_communityId targetUser \<noteq> user_communityId user
          then distribute_loop G L E now user tokenAddress signerWallet rest results
                 (errs @ [\<lparr>error_email = dist_email item,
                           error_text = ''Utente non appartiene alla comunita''\<rparr>]) d ch
          else
            (case distribute_try G L E now user tokenAddress signerWallet item targetUser d ch of
               (Inl mintError, d', ch') \<Rightarrow>
                 distribute_loop G L E now user tokenAddress signerWallet rest results
                   (errs @ [\<lparr>error_email = dist_email item,
                             error_text = ''Errore blockchain: ''
                                            @ messageOr mintError ''Mint fallito''\<rparr>]) d' ch'
             | (Inr entry, d', ch') \<Rightarrow>
                 distribute_loop G L E now user tokenAddress signerWallet rest
                   (results @ [entry]) errs d' ch'))"

definition distribute ::
  "'c gateway \<Rightarrow> lib \<Rightarrow> env \<Rightarrow> int \<Rightarrow> string option \<Rightarrow> distribution list \<Rightarrow> db \<Rightarrow> 'c
     \<Rightarrow> distribute_result response \<times> db \<times> 'c" where
  "distribute G L E now session body d ch =
     requireAuth session (d, ch) (\<lambda>userId.
       case distribute_prepare L E d userId body of
         Inl response \<Rightarrow> (response, d, ch)
       | Inr (user, tokenAddress, signerWallet, distributions) \<Rightarrow>
           (case distribute_loop G L E now user tokenAddress signerWallet distributions [] [] d ch of
              (result, d', ch') \<Rightarrow> (Json result, d', ch')))"


subsection \<open>\<^verbatim>\<open>POST /api/tokens/burn\<close>\<close>

record burn_body =
  body_burnAmount :: jsnum
  body_description :: "string option"
  body_targetUserId :: "string option"

record burn_response =
  burned_success :: bool
  burned :: jsnum
  burned_txHash :: string

definition burn_prepare ::
  "lib \<Rightarrow> env \<Rightarrow> db \<Rightarrow> string \<Rightarrow> burn_body
     \<Rightarrow> burn_response response + (user \<times> string \<times> user \<times> signer)" where
  "burn_prepare L E d userId body =
     (case getUser d userId of
        None \<Rightarrow> Inl (Fail 403 ''Solo i coordinatori possono bruciare token'')
      | Some user \<Rightarrow>
     if user_role user \<noteq> Coordinator
     then Inl (Fail 403 ''Solo i coordinatori possono bruciare token'')
     else if \<not> js_truthy (JNumber (body_burnAmount body)) \<or> js_le (body_burnAmount body) (Fin 0)
     then Inl (Fail 400 ''Importo non valido'')
     else
     (case user_communityId user of
        None \<Rightarrow> Inl (Fail 400 ''Nessuna comunita associata'')
      | Some cid \<Rightarrow>
     if cid = [] then Inl (Fail 400 ''Nessuna comunita associata'')
     else
     (case getCommunity d cid of
        None \<Rightarrow> Inl (Fail 400 ''La comunita non ha ancora un token. Crealo prima nelle Impostazioni.'')
      | Some community \<Rightarrow>
     (case community_tokenAddress community of
        None \<Rightarrow> Inl (Fail 400 ''La comunita non ha ancora un token. Crealo prima nelle Impostazioni.'')
      | Some tokenAddress \<Rightarrow>
     if tokenAddress = []
     then Inl (Fail 400 ''La comunita non ha ancora un token. Crealo prima nelle Impostazioni.'')
     else
     (case getDefaultWallet d (user_id user) of
        None \<Rightarrow> Inl (Fail 400 ''Wallet del coordinatore non trovato'')
      | Some coordinatorWallet \<Rightarrow>
     (case (case present (body_targetUserId body) of
              None \<Rightarrow> Some user
            | Some targetUserId \<Rightarrow>
                (case getUser d targetUserId of
                   None \<Rightarrow> None
                 | Some targetUser \<Rightarrow>
                     if user_communityId targetUser \<noteq> user_communityId user then None
                     else Some targetUser)) of
        None \<Rightarrow> Inl (Fail 400 ''Utente non trovato o non appartiene alla comunita'')
      | Some burnFromUser \<Rightarrow>
     (case custodialSigner L E coordinatorWallet of
        Inl e \<Rightarrow> Inl (Fail 500 (''Errore nel burn: '' @ messageOr e ''Operazione fallita''))
      | Inr signerWallet \<Rightarrow> Inr (user, tokenAddress, burnFromUser, signerWallet))))))))"

definition burn_settle ::
  "'c gateway \<Rightarrow> lib \<Rightarrow> env \<Rightarrow> int \<Rightarrow> burn_body \<Rightarrow> user \<Rightarrow> string \<Rightarrow> user \<Rightarrow> signer
     \<Rightarrow> db \<Rightarrow> 'c \<Rightarrow> burn_response response \<times> db \<times> 'c" where
  "burn_settle G L E now body user tokenAddress burnFromUser signerWallet d ch =
     (case createTransaction d
             \<lparr>ins_type = Burn, ins_amount = body_burnAmount body,
              ins_description = orElse (body_description body) (Some ''Burn token''),
              ins_status = Pending, ins_fromUserId = Some (user_id burnFromUser),
              ins_toUserId = None, ins_productId = None,
              ins_communityId = user_communityId user, ins_txHash = None\<rparr> of
        Inl e \<Rightarrow> (Fail 500 (''Errore nel burn: '' @ messageOr e ''Operazione fallita''), d, ch)
      | Inr (pendingTransaction, d1) \<Rightarrow>
     (case andThen (getTokenConfig G E ch (Some tokenAddress)) (\<lambda>tokenConfig.
           andThen (parseAmount L (body_burnAmount body) (config_decimals tokenConfig)) (\<lambda>amountWei.
           signBurnAuthorization G L E ch signerWallet (user_ethAddress burnFromUser) amountWei
             (now + 3600) (Some tokenAddress))) of
        Inl e \<Rightarrow> (Fail 500 (''Errore nel burn: '' @ messageOr e ''Operazione fallita''), d1, ch)
      | Inr signature \<Rightarrow>
     (case burnWithSignature G L E ch (signer_address signerWallet) (user_ethAddress burnFromUser)
             (body_burnAmount body) (now + 3600) (auth_v signature) (auth_r signature)
             (auth_s signature) (Some tokenAddress) of
        (Inl e, ch') \<Rightarrow>
          (Fail 500 (''Errore nel burn: '' @ messageOr e ''Operazione fallita''), d1, ch')
      | (Inr burnResult, ch') \<Rightarrow>
     (case updateUserBalance d1 (user_id burnFromUser) (js_neg (body_burnAmount body)) of
        Inl e \<Rightarrow>
          (Fail 500 (''Errore nel burn: '' @ messageOr e ''Operazione fallita''), d1, ch')
      | Inr d2 \<Rightarrow>
          let d3 = updateTransactionStatus d2 (tx_id pendingTransaction) Completed
                     (Some (burn_tx burnResult))
          in (Json \<lparr>burned_success = True, burned = body_burnAmount body,
                    burned_txHash = burn_tx burnResult\<rparr>, d3, ch')))))"

definition burn ::
  "'c gateway \<Rightarrow> lib \<Rightarrow> env \<Rightarrow> int \<Rightarrow> string option \<Rightarrow> burn_body \<Rightarrow> db \<Rightarrow> 'c
     \<Rightarrow> burn_response response \<times> db \<times> 'c" where
  "burn G L E now session body d ch =
     requireAuth session (d, ch) (\<lambda>userId.
       case burn_prepare L E d userId body of
         Inl response \<Rightarrow> (response, d, ch)
       | Inr (user, tokenAddress, burnFromUser, signerWallet) \<Rightarrow>
           burn_settle G L E now body user tokenAddress burnFromUser signerWallet d ch)"

subsection \<open>The chain steps of a transfer and of a purchase\<close>

text \<open>
  Lines 575 to 602 of the transfer, which the purchase repeats at lines 1072 to 1099: read
  the token's decimals, scale the amount, sign the permit with the payer's wallet and run
  \<open>permitTransfer\<close> towards the payee's address.
\<close>

definition permitFlow ::
  "'c gateway \<Rightarrow> lib \<Rightarrow> env \<Rightarrow> int \<Rightarrow> 'c \<Rightarrow> signer \<Rightarrow> string \<Rightarrow> jsnum \<Rightarrow> string \<Rightarrow> string
     \<Rightarrow> (error + transfer_result) \<times> 'c" where
  "permitFlow G L E now ch signerWallet adminAddress amount payee tokenAddress =
     (case andThen (getTokenConfig G E ch (Some tokenAddress)) (\<lambda>tokenConfig.
           andThen (parseAmount L amount (config_decimals tokenConfig)) (\<lambda>amountWei.
           andThen (signPermit G L E ch signerWallet adminAddress amountWei (now + 3600)
                      (Some tokenAddress)) (\<lambda>permitSig. Inr (amountWei, permitSig)))) of
        Inl e \<Rightarrow> (Inl e, ch)
      | Inr (amountWei, permitSig) \<Rightarrow>
          permitTransfer G L E ch (signer_address signerWallet) adminAddress amountWei
            (now + 3600) (permit_v permitSig) (permit_r permitSig) (permit_s permitSig)
            payee (Some tokenAddress))"

subsection \<open>\<^verbatim>\<open>POST /api/tokens/transfer\<close>\<close>

record transfer_body =
  body_recipientId :: "string option"
  body_amount :: jsnum
  body_note :: "string option"

record transfer_response =
  transferred_success :: bool
  transferred :: jsnum
  transferred_txHash :: string
  transferred_to :: string

record transfer_ctx =
  ctx_sender :: user
  ctx_recipient :: user
  ctx_communityId :: string
  ctx_tokenAddress :: string
  ctx_signerWallet :: signer
  ctx_adminAddress :: string

definition transfer_prepare ::
  "lib \<Rightarrow> env \<Rightarrow> db \<Rightarrow> string \<Rightarrow> transfer_body \<Rightarrow> transfer_response response + transfer_ctx" where
  "transfer_prepare L E d userId body =
     (case getUser d userId of
        None \<Rightarrow> Inl (Fail 401 ''Non autenticato'')
      | Some sender \<Rightarrow>
     (case present (body_recipientId body) of
        None \<Rightarrow> Inl (Fail 400 ''Dati non validi'')
      | Some recipientId \<Rightarrow>
     if \<not> js_truthy (JNumber (body_amount body)) \<or> js_le (body_amount body) (Fin 0)
     then Inl (Fail 400 ''Dati non validi'')
     else if js_lt (js_of_int4 (user_tokenBalance sender)) (body_amount body)
     then Inl (Fail 400 ''Saldo insufficiente'')
     else
     (case getUser d recipientId of
        None \<Rightarrow> Inl (Fail 400 ''Destinatario non trovato'')
      | Some recipient \<Rightarrow>
     if truthy (user_communityId sender) \<and> truthy (user_communityId recipient)
        \<and> user_communityId sender \<noteq> user_communityId recipient
     then Inl (Fail 400 ''Trasferimento tra comunita diverse non permesso'')
     else
     (case orElse (user_communityId sender) (user_communityId recipient) of
        None \<Rightarrow> Inl (Fail 400 ''Nessuna comunita associata'')
      | Some communityId \<Rightarrow>
     if communityId = [] then Inl (Fail 400 ''Nessuna comunita associata'')
     else
     (case getCommunity d communityId of
        None \<Rightarrow> Inl (Fail 400 ''La comunita non ha ancora un token'')
      | Some community \<Rightarrow>
     (case community_tokenAddress community of
        None \<Rightarrow> Inl (Fail 400 ''La comunita non ha ancora un token'')
      | Some tokenAddress \<Rightarrow>
     if tokenAddress = [] then Inl (Fail 400 ''La comunita non ha ancora un token'')
     else
     (case getDefaultWallet d (user_id sender) of
        None \<Rightarrow> Inl (Fail 400 ''Wallet del mittente non trovato'')
      | Some senderWallet \<Rightarrow>
     (case andThen (custodialSigner L E senderWallet) (\<lambda>signerWallet.
           andThen (getAdminWallet L E) (\<lambda>admin. Inr (signerWallet, signer_address admin))) of
        Inl e \<Rightarrow>
          Inl (Fail 500 (''Errore nel trasferimento: '' @ messageOr e ''Operazione fallita''))
      | Inr (signerWallet, adminAddress) \<Rightarrow>
          Inr \<lparr>ctx_sender = sender, ctx_recipient = recipient, ctx_communityId = communityId,
               ctx_tokenAddress = tokenAddress, ctx_signerWallet = signerWallet,
               ctx_adminAddress = adminAddress\<rparr>))))))))"

definition transfer_settle ::
  "'c gateway \<Rightarrow> lib \<Rightarrow> env \<Rightarrow> int \<Rightarrow> transfer_body \<Rightarrow> transfer_ctx \<Rightarrow> db \<Rightarrow> 'c
     \<Rightarrow> transfer_response response \<times> db \<times> 'c" where
  "transfer_settle G L E now body c d ch =
     (case permitFlow G L E now ch (ctx_signerWallet c) (ctx_adminAddress c) (body_amount body)
             (user_ethAddress (ctx_recipient c)) (ctx_tokenAddress c) of
        (Inl e, ch') \<Rightarrow>
          (Fail 500 (''Errore nel trasferimento: '' @ messageOr e ''Operazione fallita''), d, ch')
      | (Inr transferResult, ch') \<Rightarrow>
     (case updateUserBalance d (user_id (ctx_sender c)) (js_neg (body_amount body)) of
        Inl e \<Rightarrow>
          (Fail 500 (''Errore nel trasferimento: '' @ messageOr e ''Operazione fallita''), d, ch')
      | Inr d1 \<Rightarrow>
     (case updateUserBalance d1 (user_id (ctx_recipient c)) (body_amount body) of
        Inl e \<Rightarrow>
          (Fail 500 (''Errore nel trasferimento: '' @ messageOr e ''Operazione fallita''), d1, ch')
      | Inr d2 \<Rightarrow>
     (case createTransaction d2
             \<lparr>ins_type = Send, ins_amount = body_amount body,
              ins_description =
                orElse (body_note body)
                  (Some (''Trasferimento a '' @ user_name (ctx_recipient c))),
              ins_status = Completed, ins_fromUserId = Some (user_id (ctx_sender c)),
              ins_toUserId = Some (user_id (ctx_recipient c)), ins_productId = None,
              ins_communityId = Some (ctx_communityId c),
              ins_txHash = Some (transfer_transferTx transferResult)\<rparr> of
        Inl e \<Rightarrow>
          (Fail 500 (''Errore nel trasferimento: '' @ messageOr e ''Operazione fallita''), d2, ch')
      | Inr (transaction, d3) \<Rightarrow>
          (Json \<lparr>transferred_success = True, transferred = body_amount body,
                 transferred_txHash = transfer_transferTx transferResult,
                 transferred_to = user_name (ctx_recipient c)\<rparr>, d3, ch')))))"

definition transfer ::
  "'c gateway \<Rightarrow> lib \<Rightarrow> env \<Rightarrow> int \<Rightarrow> string option \<Rightarrow> transfer_body \<Rightarrow> db \<Rightarrow> 'c
     \<Rightarrow> transfer_response response \<times> db \<times> 'c" where
  "transfer G L E now session body d ch =
     requireAuth session (d, ch) (\<lambda>userId.
       case transfer_prepare L E d userId body of
         Inl response \<Rightarrow> (response, d, ch)
       | Inr c \<Rightarrow> transfer_settle G L E now body c d ch)"


subsection \<open>\<^verbatim>\<open>POST /api/purchase\<close>\<close>

record purchase_response =
  purchase_success :: bool
  purchase_newBalance :: "int option"
  purchase_product :: string
  purchase_txHash :: string

record purchase_ctx =
  ctx_buyer :: user
  ctx_product :: product
  ctx_provider :: user
  ctx_buyerCommunityId :: string
  ctx_purchaseToken :: string
  ctx_providerWallet :: wallet
  ctx_buyerSigner :: signer
  ctx_purchaseAdmin :: string

definition purchase_prepare ::
  "lib \<Rightarrow> env \<Rightarrow> db \<Rightarrow> string \<Rightarrow> string \<Rightarrow> purchase_response response + purchase_ctx" where
  "purchase_prepare L E d userId productId =
     (case getUser d userId of
        None \<Rightarrow> Inl (Fail 404 ''Utente non trovato'')
      | Some buyer \<Rightarrow>
     (case getProduct d productId of
        None \<Rightarrow> Inl (Fail 404 ''Prodotto non trovato'')
      | Some product \<Rightarrow>
     if sint (user_tokenBalance buyer) < sint (product_price product)
     then Inl (Fail 400 ''Saldo insufficiente'')
     else
     (case getUser d (product_providerId product) of
        None \<Rightarrow> Inl (Fail 400 ''Provider non trovato'')
      | Some provider \<Rightarrow>
     (case present (user_communityId buyer) of
        None \<Rightarrow> Inl (Fail 400 ''Utente non associato a una comunita'')
      | Some communityId \<Rightarrow>
     if \<not> isProductAvailableInCommunity d (product_id product) communityId
     then Inl (Fail 400 ''Questo prodotto non e disponibile nella tua comunita'')
     else
     (case getCommunity d communityId of
        None \<Rightarrow> Inl (Fail 400 ''La comunita non ha ancora un token'')
      | Some community \<Rightarrow>
     (case present (community_tokenAddress community) of
        None \<Rightarrow> Inl (Fail 400 ''La comunita non ha ancora un token'')
      | Some tokenAddress \<Rightarrow>
     (case getDefaultWallet d (user_id buyer) of
        None \<Rightarrow> Inl (Fail 400 ''Wallet dell'acquirente non trovato'')
      | Some buyerWallet \<Rightarrow>
     (case getDefaultWallet d (user_id provider) of
        None \<Rightarrow> Inl (Fail 400 ''Wallet del venditore non trovato'')
      | Some providerWallet \<Rightarrow>
     (case andThen (custodialSigner L E buyerWallet) (\<lambda>signerWallet.
           andThen (getAdminWallet L E) (\<lambda>admin. Inr (signerWallet, signer_address admin))) of
        Inl e \<Rightarrow> Inl (Fail 500 (''Errore nell'acquisto: '' @ messageOr e ''Operazione fallita''))
      | Inr (signerWallet, adminAddress) \<Rightarrow>
          Inr \<lparr>ctx_buyer = buyer, ctx_product = product, ctx_provider = provider,
               ctx_buyerCommunityId = communityId, ctx_purchaseToken = tokenAddress,
               ctx_providerWallet = providerWallet, ctx_buyerSigner = signerWallet,
               ctx_purchaseAdmin = adminAddress\<rparr>)))))))))"

definition purchase_settle ::
  "'c gateway \<Rightarrow> lib \<Rightarrow> env \<Rightarrow> int \<Rightarrow> purchase_ctx \<Rightarrow> db \<Rightarrow> 'c
     \<Rightarrow> purchase_response response \<times> db \<times> 'c" where
  "purchase_settle G L E now c d ch =
     (case createTransaction d
             \<lparr>ins_type = Purchase, ins_amount = js_of_int4 (product_price (ctx_product c)),
              ins_description = Some (''Acquisto: '' @ product_name (ctx_product c)),
              ins_status = Pending, ins_fromUserId = Some (user_id (ctx_buyer c)),
              ins_toUserId = Some (product_providerId (ctx_product c)),
              ins_productId = Some (product_id (ctx_product c)),
              ins_communityId = Some (ctx_buyerCommunityId c), ins_txHash = None\<rparr> of
        Inl e \<Rightarrow>
          (Fail 500 (''Errore nell'acquisto: '' @ messageOr e ''Operazione fallita''), d, ch)
      | Inr (pendingTransaction, d1) \<Rightarrow>
     (case permitFlow G L E now ch (ctx_buyerSigner c) (ctx_purchaseAdmin c)
             (js_of_int4 (product_price (ctx_product c))) (wallet_address (ctx_providerWallet c))
             (ctx_purchaseToken c) of
        (Inl e, ch') \<Rightarrow>
          (Fail 500 (''Errore nell'acquisto: '' @ messageOr e ''Operazione fallita''), d1, ch')
      | (Inr transferResult, ch') \<Rightarrow>
     (case updateUserBalance d1 (user_id (ctx_buyer c))
             (js_neg (js_of_int4 (product_price (ctx_product c)))) of
        Inl e \<Rightarrow>
          (Fail 500 (''Errore nell'acquisto: '' @ messageOr e ''Operazione fallita''), d1, ch')
      | Inr d2 \<Rightarrow>
     (case updateUserBalance d2 (user_id (ctx_provider c))
             (js_of_int4 (product_price (ctx_product c))) of
        Inl e \<Rightarrow>
          (Fail 500 (''Errore nell'acquisto: '' @ messageOr e ''Operazione fallita''), d2, ch')
      | Inr d3 \<Rightarrow>
          let d4 = updateTransactionStatus d3 (tx_id pendingTransaction) Completed
                     (Some (transfer_transferTx transferResult))
          in (Json \<lparr>purchase_success = True,
                    purchase_newBalance = cachedBalance d4 (user_id (ctx_buyer c)),
                    purchase_product = product_name (ctx_product c),
                    purchase_txHash = transfer_transferTx transferResult\<rparr>, d4, ch')))))"

definition purchase ::
  "'c gateway \<Rightarrow> lib \<Rightarrow> env \<Rightarrow> int \<Rightarrow> string option \<Rightarrow> string \<Rightarrow> db \<Rightarrow> 'c
     \<Rightarrow> purchase_response response \<times> db \<times> 'c" where
  "purchase G L E now session productId d ch =
     requireAuth session (d, ch) (\<lambda>userId.
       case purchase_prepare L E d userId productId of
         Inl response \<Rightarrow> (response, d, ch)
       | Inr c \<Rightarrow> purchase_settle G L E now c d ch)"

subsection \<open>\<^verbatim>\<open>POST /api/tokens/burn-all\<close>\<close>

record burnall_entry =
  burnall_name :: string
  burnall_amount :: int
  burnall_txHash :: string

record burnall_error =
  burnall_error_name :: string
  burnall_error_text :: string

record burnall_result =
  totalBurned :: int
  usersAffected :: int
  burnall_results :: "burnall_entry list"
  burnall_errors :: "burnall_error list"

definition burnAll_prepare ::
  "'c gateway \<Rightarrow> lib \<Rightarrow> env \<Rightarrow> db \<Rightarrow> 'c \<Rightarrow> string
     \<Rightarrow> burnall_result response + (user \<times> string \<times> string \<times> signer \<times> token_config)" where
  "burnAll_prepare G L E d ch userId =
     (case getUser d userId of
        None \<Rightarrow> Inl (Fail 403 ''Solo i coordinatori possono eseguire il burn'')
      | Some user \<Rightarrow>
     if user_role user \<noteq> Coordinator
     then Inl (Fail 403 ''Solo i coordinatori possono eseguire il burn'')
     else
     (case present (user_communityId user) of
        None \<Rightarrow> Inl (Fail 400 ''Nessuna comunita associata'')
      | Some communityId \<Rightarrow>
     (case getCommunity d communityId of
        None \<Rightarrow> Inl (Fail 400 ''La comunita non ha ancora un token. Crealo prima nelle Impostazioni.'')
      | Some community \<Rightarrow>
     (case present (community_tokenAddress community) of
        None \<Rightarrow> Inl (Fail 400 ''La comunita non ha ancora un token. Crealo prima nelle Impostazioni.'')
      | Some tokenAddress \<Rightarrow>
     (case getDefaultWallet d (user_id user) of
        None \<Rightarrow> Inl (Fail 400 ''Wallet del coordinatore non trovato'')
      | Some coordinatorWallet \<Rightarrow>
     (case andThen (custodialSigner L E coordinatorWallet) (\<lambda>signerWallet.
           andThen (getTokenConfig G E ch (Some tokenAddress)) (\<lambda>tokenConfig.
             Inr (signerWallet, tokenConfig))) of
        Inl e \<Rightarrow> Inl (Fail 500 ''Errore nel burn totale'')
      | Inr (signerWallet, tokenConfig) \<Rightarrow>
          Inr (user, communityId, tokenAddress, signerWallet, tokenConfig)))))))"

text \<open>
  The \<^verbatim>\<open>try\<close> block of one holder (lines 702 to 774). Whatever throws in it, a chain call
  or a statement of the store, ends the holder's burn with the error.
\<close>

definition burnAll_try ::
  "'c gateway \<Rightarrow> lib \<Rightarrow> env \<Rightarrow> int \<Rightarrow> user \<Rightarrow> string \<Rightarrow> signer \<Rightarrow> token_config
     \<Rightarrow> balance_record \<Rightarrow> db \<Rightarrow> 'c \<Rightarrow> (error + burnall_entry) \<times> db \<times> 'c" where
  "burnAll_try G L E now user tokenAddress signerWallet tokenConfig balance d ch =
     (case createTransaction d
             \<lparr>ins_type = Burn, ins_amount = js_of_int (bal_tokenBalance balance),
              ins_description = Some (''Burn completo - '' @ bal_name balance),
              ins_status = Pending, ins_fromUserId = Some (bal_id balance),
              ins_toUserId = Some (user_id user), ins_productId = None,
              ins_communityId = user_communityId user, ins_txHash = None\<rparr> of
        Inl e \<Rightarrow> (Inl e, d, ch)
      | Inr (pendingTransaction, d1) \<Rightarrow>
     (case andThen (parseAmount L (js_of_int (bal_tokenBalance balance))
                      (config_decimals tokenConfig))
             (\<lambda>amountWei.
                signBurnAuthorization G L E ch signerWallet (bal_ethAddress balance) amountWei
                  (now + 3600) (Some tokenAddress)) of
        Inl e \<Rightarrow> (Inl e, d1, ch)
      | Inr signature \<Rightarrow>
     (case burnWithSignature G L E ch (signer_address signerWallet) (bal_ethAddress balance)
             (js_of_int (bal_tokenBalance balance)) (now + 3600) (auth_v signature)
             (auth_r signature) (auth_s signature) (Some tokenAddress) of
        (Inl e, ch') \<Rightarrow> (Inl e, d1, ch')
      | (Inr burnResult, ch') \<Rightarrow>
     (case (if bal_role balance \<noteq> Provider
            then updateUserBalance d1 (bal_id balance)
                   (js_neg (js_of_int (bal_tokenBalance balance)))
            else Inr d1) of
        Inl e \<Rightarrow> (Inl e, d1, ch')
      | Inr d2 \<Rightarrow>
          let d3 = updateTransactionStatus d2 (tx_id pendingTransaction) Completed
                     (Some (burn_tx burnResult))
          in (Inr \<lparr>burnall_name = bal_name balance, burnall_amount = bal_tokenBalance balance,
                   burnall_txHash = burn_tx burnResult\<rparr>, d3, ch')))))"

text \<open>The loop over the balances (lines 700 to 780), with its counters and result lists.\<close>

fun burnAll_loop ::
  "'c gateway \<Rightarrow> lib \<Rightarrow> env \<Rightarrow> int \<Rightarrow> user \<Rightarrow> string \<Rightarrow> signer \<Rightarrow> token_config
     \<Rightarrow> balance_record list \<Rightarrow> burnall_result \<Rightarrow> db \<Rightarrow> 'c \<Rightarrow> burnall_result \<times> db \<times> 'c" where
  "burnAll_loop G L E now user tokenAddress signerWallet tokenConfig [] acc d ch = (acc, d, ch)"
| "burnAll_loop G L E now user tokenAddress signerWallet tokenConfig (balance # rest) acc d ch =
     (if 0 < bal_tokenBalance balance
      then
        (case burnAll_try G L E now user tokenAddress signerWallet tokenConfig balance d ch of
           (Inl burnError, d', ch') \<Rightarrow>
             burnAll_loop G L E now user tokenAddress signerWallet tokenConfig rest
               (acc\<lparr>burnall_errors := burnall_errors acc
                       @ [\<lparr>burnall_error_name = bal_name balance,
                           burnall_error_text = messageOr burnError ''Burn fallito''\<rparr>]\<rparr>) d' ch'
         | (Inr entry, d', ch') \<Rightarrow>
             burnAll_loop G L E now user tokenAddress signerWallet tokenConfig rest
               (acc\<lparr>burnall_results := burnall_results acc @ [entry],
                     totalBurned := totalBurned acc + bal_tokenBalance balance,
                     usersAffected := usersAffected acc + 1\<rparr>) d' ch')
      else burnAll_loop G L E now user tokenAddress signerWallet tokenConfig rest acc d ch)"

definition burnAll ::
  "'c gateway \<Rightarrow> lib \<Rightarrow> env \<Rightarrow> int \<Rightarrow> string option \<Rightarrow> db \<Rightarrow> 'c
     \<Rightarrow> burnall_result response \<times> db \<times> 'c" where
  "burnAll G L E now session d ch =
     requireAuth session (d, ch) (\<lambda>userId.
       case burnAll_prepare G L E d ch userId of
         Inl response \<Rightarrow> (response, d, ch)
       | Inr (user, communityId, tokenAddress, signerWallet, tokenConfig) \<Rightarrow>
           (case burnAll_loop G L E now user tokenAddress signerWallet tokenConfig
                   (getCommunityBalances d communityId)
                   \<lparr>totalBurned = 0, usersAffected = 0, burnall_results = [],
                    burnall_errors = []\<rparr> d ch of
              (result, d', ch') \<Rightarrow> (Json result, d', ch')))"


subsection \<open>\<^verbatim>\<open>POST /api/blockchain/mint-with-sig\<close> and \<^verbatim>\<open>burn-with-sig\<close>\<close>

text \<open>
  These two routes convert the body's \<^verbatim>\<open>deadline\<close> with \<^verbatim>\<open>Number\<close>, so that field is kept
  as the JSON value the client sent.
\<close>

text \<open>
  \<^verbatim>\<open>ethers\<close> encodes the deadline as a \<^verbatim>\<open>uint256\<close> and throws, before anything is sent, on a
  number that is not an integer: the routes go on with \<open>js_integer\<close> of the deadline.
\<close>

record sig_body =
  body_signer :: "string option"
  body_holder :: "string option"
  body_sigAmount :: int
  body_deadline :: jsval
  body_v :: "nat option"
  body_r :: "string option"
  body_s :: "string option"
  body_tokenAddress :: "string option"

text \<open>
  \<open>body_holder\<close> is the body's \<^verbatim>\<open>to\<close> on the mint route and its \<^verbatim>\<open>from\<close> on the burn route.
  \<open>sig_arguments\<close> is the presence test both routes open with.
\<close>

definition sig_arguments :: "sig_body \<Rightarrow> (string \<times> string \<times> nat \<times> string \<times> string) option" where
  "sig_arguments body =
     (case (present (body_signer body), present (body_holder body), body_v body,
            present (body_r body), present (body_s body)) of
        (Some signer, Some holder, Some v, Some r, Some s) \<Rightarrow>
          if body_sigAmount body = 0 \<or> \<not> js_truthy (body_deadline body) then None
          else Some (signer, holder, v, r, s)
      | _ \<Rightarrow> None)"

definition mintWithSig_route ::
  "'c gateway \<Rightarrow> lib \<Rightarrow> env \<Rightarrow> int \<Rightarrow> string option \<Rightarrow> sig_body \<Rightarrow> 'c
     \<Rightarrow> mint_result response \<times> 'c" where
  "mintWithSig_route G L E now session body ch =
     requireAuth session ch (\<lambda>_.
       case sig_arguments body of
         None \<Rightarrow> (Fail 400 ''Parametri mancanti'', ch)
       | Some (signer, to, v, r, s) \<Rightarrow>
           let deadlineNum = js_Number L (body_deadline body)
           in if js_le deadlineNum (Fin (of_int now)) then (Fail 400 ''La firma e scaduta'', ch)
              else if js_gt deadlineNum (Fin (of_int (now + 3600)))
              then (Fail 400 ''Deadline troppo lontana (max 1 ora)'', ch)
              else
                (case js_integer deadlineNum of
                   None \<Rightarrow> (Fail 500 ''Errore nel minting con firma'', ch)
                 | Some deadline \<Rightarrow>
                     (case mintWithSignature G L E ch signer to (js_of_int (body_sigAmount body)) deadline
                             v r s (body_tokenAddress body) of
                        (Inl e, ch') \<Rightarrow> (Fail 500 ''Errore nel minting con firma'', ch')
                      | (Inr result, ch') \<Rightarrow> (Json result, ch'))))"

definition burnWithSig_route ::
  "'c gateway \<Rightarrow> lib \<Rightarrow> env \<Rightarrow> int \<Rightarrow> string option \<Rightarrow> sig_body \<Rightarrow> 'c
     \<Rightarrow> burn_result response \<times> 'c" where
  "burnWithSig_route G L E now session body ch =
     requireAuth session ch (\<lambda>_.
       case sig_arguments body of
         None \<Rightarrow> (Fail 400 ''Parametri mancanti'', ch)
       | Some (signer, from, v, r, s) \<Rightarrow>
           let deadlineNum = js_Number L (body_deadline body)
           in if js_le deadlineNum (Fin (of_int now)) then (Fail 400 ''La firma e scaduta'', ch)
              else if js_gt deadlineNum (Fin (of_int (now + 3600)))
              then (Fail 400 ''Deadline troppo lontana (max 1 ora)'', ch)
              else
                (case js_integer deadlineNum of
                   None \<Rightarrow> (Fail 500 ''Errore nel burn con firma'', ch)
                 | Some deadline \<Rightarrow>
                     (case burnWithSignature G L E ch signer from (js_of_int (body_sigAmount body)) deadline
                             v r s (body_tokenAddress body) of
                        (Inl e, ch') \<Rightarrow> (Fail 500 ''Errore nel burn con firma'', ch')
                      | (Inr result, ch') \<Rightarrow> (Json result, ch'))))"

section \<open>Invariants and reachable stores\<close>

text \<open>
  The invariant of the data model: a completed transaction carries a chain hash.
\<close>

definition completed_have_hash :: "db \<Rightarrow> bool" where
  "completed_have_hash d =
     list_all (\<lambda>t. tx_status t = Completed \<longrightarrow> tx_txHash t \<noteq> None) (transactions d)"

text \<open>
  The stores reachable through the five settlement routes from a store without
  transactions. Between two requests the other tables and the chain may change in any way
  (registrations, products, other senders of chain transactions): rule \<open>other\<close>.
\<close>

inductive reachable :: "'c gateway \<Rightarrow> lib \<Rightarrow> env \<Rightarrow> db \<Rightarrow> 'c \<Rightarrow> bool"
  for G :: "'c gateway" and L :: lib and E :: env where
  init: "transactions d = [] \<Longrightarrow> reachable G L E d ch"
| other: "reachable G L E d ch \<Longrightarrow> transactions d' = transactions d \<Longrightarrow> reachable G L E d' ch'"
| by_distribute:
    "reachable G L E d ch \<Longrightarrow> distribute G L E now session body d ch = (r, d', ch')
       \<Longrightarrow> reachable G L E d' ch'"
| by_burn:
    "reachable G L E d ch \<Longrightarrow> burn G L E now session burnBody d ch = (rb, d', ch')
       \<Longrightarrow> reachable G L E d' ch'"
| by_burnAll:
    "reachable G L E d ch \<Longrightarrow> burnAll G L E now session d ch = (ra, d', ch')
       \<Longrightarrow> reachable G L E d' ch'"
| by_transfer:
    "reachable G L E d ch \<Longrightarrow> transfer G L E now session transferBody d ch = (rt, d', ch')
       \<Longrightarrow> reachable G L E d' ch'"
| by_purchase:
    "reachable G L E d ch \<Longrightarrow> purchase G L E now session productId d ch = (rp, d', ch')
       \<Longrightarrow> reachable G L E d' ch'"

text \<open>
  Three constraints the schema and the product route put on the store: \<^verbatim>\<open>users.id\<close> and
  \<^verbatim>\<open>products.id\<close> are primary keys whose values the database generates (none is the empty
  string), and a product is created by, and belongs to, a user whose role is
  \<^verbatim>\<open>provider\<close> (\<^verbatim>\<open>POST /api/products\<close> answers 403 to every other role, and no route changes
  a role).
\<close>

definition users_by_id :: "db \<Rightarrow> bool" where
  "users_by_id d = (distinct (map user_id (users d)) \<and> [] \<notin> set (map user_id (users d)))"

definition products_by_id :: "db \<Rightarrow> bool" where
  "products_by_id d = distinct (map product_id (products d))"

definition products_of_providers :: "db \<Rightarrow> bool" where
  "products_of_providers d =
     list_all (\<lambda>p. list_all (\<lambda>u. product_providerId p = user_id u \<longrightarrow> user_role u = Provider)
                       (users d)) (products d)"

text \<open>
  The balances of a community in the words of the specification. A member of the
  community holds the balance stored with the account. A provider's balance is not stored:
  it is the sum of the purchase transactions of the community credited to the provider
  (those of the provider's products) minus the burns of the community recorded against the
  provider. The balances of a community are those of its members and those of the other
  accounts that purchases of the community have credited.
\<close>

definition spec_credited :: "db \<Rightarrow> string \<Rightarrow> string \<Rightarrow> transaction \<Rightarrow> bool" where
  "spec_credited d communityId providerId t =
     (tx_type t = Purchase \<and> tx_communityId t = Some communityId
      \<and> (case tx_productId t of
            None \<Rightarrow> False
          | Some productId \<Rightarrow>
              (case getProduct d productId of
                 None \<Rightarrow> False
               | Some p \<Rightarrow> product_providerId p = providerId)))"

definition spec_burnt :: "string \<Rightarrow> string \<Rightarrow> transaction \<Rightarrow> bool" where
  "spec_burnt communityId userId t =
     (tx_type t = Burn \<and> tx_communityId t = Some communityId \<and> tx_fromUserId t = Some userId)"

definition spec_derivedBalance :: "db \<Rightarrow> string \<Rightarrow> string \<Rightarrow> int" where
  "spec_derivedBalance d communityId providerId =
     sum_list (map (\<lambda>t. sint (tx_amount t))
                 (filter (spec_credited d communityId providerId) (transactions d)))
     - sum_list (map (\<lambda>t. sint (tx_amount t))
                   (filter (spec_burnt communityId providerId) (transactions d)))"

definition spec_balance :: "db \<Rightarrow> string \<Rightarrow> user \<Rightarrow> int" where
  "spec_balance d communityId u =
     (if user_communityId u = Some communityId then sint (user_tokenBalance u)
      else if list_ex (spec_credited d communityId (user_id u)) (transactions d)
      then spec_derivedBalance d communityId (user_id u)
      else 0)"

text \<open>
  The ledger write of one successful burn-all item on the table of users: the holder's
  balance is lowered by the burnt amount unless the holder is a provider.
\<close>

definition burnLedger :: "user list \<Rightarrow> balance_record \<Rightarrow> user list" where
  "burnLedger us balance =
     (if bal_role balance \<noteq> Provider
      then map (\<lambda>u. if user_id u = bal_id balance
                     then u\<lparr>user_tokenBalance :=
                             user_tokenBalance u - word_of_int (bal_tokenBalance balance)\<rparr>
                     else u) us
      else us)"

text \<open>
  What the ledger writes of a burn-all over \<open>balances\<close> take from the cached balance of
  one user: the amounts of the entries with that id whose role is not provider.
\<close>

definition ledgerDebit :: "balance_record list \<Rightarrow> string \<Rightarrow> int" where
  "ledgerDebit balances userId =
     sum_list (map bal_tokenBalance
       (filter (\<lambda>b. bal_id b = userId \<and> bal_role b \<noteq> Provider) balances))"

text \<open>
  The store a distribution item leaves when every step of its \<^verbatim>\<open>try\<close> block succeeds: the
  item's transaction inserted as the last row, the recipient's balance raised by the
  amount, and the transaction completed with the hash of the mint.
\<close>

definition settled_distribution :: "db \<Rightarrow> user \<Rightarrow> user \<Rightarrow> int4 \<Rightarrow> string \<Rightarrow> db" where
  "settled_distribution d user targetUser amount txHash =
     updateTransactionStatus
       (d\<lparr>users := map (\<lambda>u. if user_id u = user_id targetUser
                             then u\<lparr>user_tokenBalance := user_tokenBalance u + amount\<rparr>
                             else u) (users d),
          transactions := transactions d @
            [\<lparr>tx_id = nextId d, tx_type = Receive, tx_amount = amount,
              tx_description = Some (''Distribuzione da '' @ user_name user),
              tx_status = Pending, tx_fromUserId = Some (user_id user),
              tx_toUserId = Some (user_id targetUser), tx_productId = None,
              tx_communityId = user_communityId user, tx_txHash = None\<rparr>],
          nextId := Suc (nextId d)\<rparr>)
       (nextId d) Completed (Some txHash)"

section \<open>A concrete instance\<close>

text \<open>
  An executable library, a small token chain and a store with one community, on which the
  theorems below are exercised. The cipher of \<open>demo_lib\<close> reverses the plaintext and tags
  it with a length checksum; the chain \<open>demo_gateway\<close> keeps balances, allowances and the
  three nonce counters as \<^verbatim>\<open>ReteToken\<close> does, answers no call when \<open>chain_up\<close> is false,
  and grants a permit at most \<open>chain_cap\<close>.
\<close>

definition demo_lib :: lib where
  "demo_lib =
     \<lparr>scryptSync = (\<lambda>password salt keylen.
                      take keylen (password @ salt @ password @ salt)),
      gcm_encrypt = (\<lambda>key iv pt. (rev pt, [char_of (length pt + length key + length iv)])),
      gcm_decrypt = (\<lambda>key iv tag ct.
         if tag = [char_of (length ct + length key + length iv)] then Inr (rev ct)
         else Inl (Error ''Unsupported state or unable to authenticate data'')),
      computeAddress = (\<lambda>k. if valid_private_key k then Inr (''0x'' @ take 40 (drop 2 k))
                            else Inl (Error ''invalid private key'')),
      signTypedData = (\<lambda>k domain msg.
         Inr (27, ''0x'' @ take 8 (drop 2 k), domain_verifyingContract domain)),
      parseUnits = (\<lambda>amount decimals.
         case amount of
           Fin q \<Rightarrow>
             if q * 10 ^ decimals = of_int \<lfloor>q * 10 ^ decimals\<rfloor>
             then Inr \<lfloor>q * 10 ^ decimals\<rfloor>
             else Inl (Error ''too many decimals for format'')
         | _ \<Rightarrow> Inl (Error ''invalid FixedNumber string value'')),
      is_email = (\<lambda>s. CHR ''@'' \<in> set s),
      string_to_number = (\<lambda>s. NaN)\<rparr>"

definition demo_env :: env where
  "demo_env =
     \<lparr>WALLET_ENCRYPTION_KEY = Some ''master-secret'',
      PRIVATE_KEY = Some ''0xaaaaaaaaaaaaaaaaaaaaaaaaaaaaaaaaaaaaaaaaaaaaaaaaaaaaaaaaaaaaaaaa'',
      RPC_URL = Some ''http://localhost:8545'',
      TOKEN_ADDRESS = None\<rparr>"

definition demo_iv :: bytes where
  "demo_iv = ''0123456789abcdef''"

definition demo_key :: string where
  "demo_key = ''0x1111111111111111111111111111111111111111111111111111111111111111''"

record chain =
  chain_up :: bool
  chain_height :: nat
  chain_owner :: string
  chain_admin :: string
  chain_cap :: int
  chain_balance :: "string \<Rightarrow> int"
  chain_allowance :: "string \<Rightarrow> string \<Rightarrow> int"
  chain_mintNonce :: "string \<Rightarrow> int"
  chain_burnNonce :: "string \<Rightarrow> int"
  chain_permitNonce :: "string \<Rightarrow> int"

definition demo_read :: "chain \<Rightarrow> 'a \<Rightarrow> error + 'a" where
  "demo_read ch x = (if chain_up ch then Inr x else Inl (Error ''could not detect network''))"

definition demo_mined :: "chain \<Rightarrow> receipt" where
  "demo_mined ch =
     \<lparr>receipt_hash = ''0x'' @ replicate (Suc (chain_height ch)) CHR ''f'',
      receipt_blockNumber = int (Suc (chain_height ch))\<rparr>"

definition demo_gateway :: "chain gateway" where
  "demo_gateway =
     \<lparr>getNetwork = (\<lambda>ch. demo_read ch 11155111),
      c_name = (\<lambda>ch token. demo_read ch ''Rete Token''),
      c_symbol = (\<lambda>ch token. demo_read ch ''RETE''),
      c_decimals = (\<lambda>ch token. demo_read ch 18),
      c_totalSupply = (\<lambda>ch token. demo_read ch 0),
      c_owner = (\<lambda>ch token. demo_read ch (chain_owner ch)),
      c_adminSpender = (\<lambda>ch token. demo_read ch (chain_admin ch)),
      c_mintPaused = (\<lambda>ch token. demo_read ch False),
      c_adminBurnEnabled = (\<lambda>ch token. demo_read ch False),
      c_mintNonces = (\<lambda>ch token a. demo_read ch (chain_mintNonce ch a)),
      c_burnNonces = (\<lambda>ch token a. demo_read ch (chain_burnNonce ch a)),
      c_nonces = (\<lambda>ch token a. demo_read ch (chain_permitNonce ch a)),
      c_allowance = (\<lambda>ch token owner spender. demo_read ch (chain_allowance ch owner spender)),
      c_mintWithSig = (\<lambda>ch token signer to amount deadline v r s.
         if \<not> chain_up ch then (Inl (Error ''could not detect network''), ch)
         else if signer \<noteq> chain_owner ch
         then (Inl (Error ''execution reverted: only owner can authorize''), ch)
         else (Inr (demo_mined ch),
               ch\<lparr>chain_height := Suc (chain_height ch),
                  chain_balance := (chain_balance ch)(to := chain_balance ch to + amount),
                  chain_mintNonce :=
                    (chain_mintNonce ch)(signer := chain_mintNonce ch signer + 1)\<rparr>)),
      c_burnWithSig = (\<lambda>ch token signer from amount deadline v r s.
         if \<not> chain_up ch then (Inl (Error ''could not detect network''), ch)
         else if signer \<noteq> chain_owner ch
         then (Inl (Error ''execution reverted: only owner can authorize''), ch)
         else if chain_balance ch from < amount
         then (Inl (Error ''execution reverted: ERC20InsufficientBalance''), ch)
         else (Inr (demo_mined ch),
               ch\<lparr>chain_height := Suc (chain_height ch),
                  chain_balance := (chain_balance ch)(from := chain_balance ch from - amount),
                  chain_burnNonce :=
                    (chain_burnNonce ch)(signer := chain_burnNonce ch signer + 1)\<rparr>)),
      c_permit = (\<lambda>ch token owner spender val deadline v r s.
         if \<not> chain_up ch then (Inl (Error ''could not detect network''), ch)
         else (Inr (demo_mined ch),
               ch\<lparr>chain_height := Suc (chain_height ch),
                  chain_allowance :=
                    (chain_allowance ch)
                      (owner := (chain_allowance ch owner)(spender := min val (chain_cap ch))),
                  chain_permitNonce :=
                    (chain_permitNonce ch)(owner := chain_permitNonce ch owner + 1)\<rparr>)),
      c_transferFrom = (\<lambda>ch token from to val.
         if \<not> chain_up ch then (Inl (Error ''could not detect network''), ch)
         else if chain_allowance ch from (chain_admin ch) < val
         then (Inl (Error ''execution reverted: ERC20InsufficientAllowance''), ch)
         else if chain_balance ch from < val
         then (Inl (Error ''execution reverted: ERC20InsufficientBalance''), ch)
         else (Inr (demo_mined ch),
               ch\<lparr>chain_height := Suc (chain_height ch),
                  chain_allowance :=
                    (chain_allowance ch)
                      (from := (chain_allowance ch from)
                         (chain_admin ch := chain_allowance ch from (chain_admin ch) - val)),
                  chain_balance :=
                    (\<lambda>a. (if a = to then val else 0) - (if a = from then val else 0)
                          + chain_balance ch a)\<rparr>))\<rparr>"

definition carla_address :: string where
  "carla_address = ''0x1111111111111111111111111111111111111111''"

definition alice_address :: string where
  "alice_address = ''0x2222222222222222222222222222222222222222''"

definition paolo_address :: string where
  "paolo_address = ''0x3333333333333333333333333333333333333333''"

definition bob_address :: string where
  "bob_address = ''0xb0b0b0b0b0b0b0b0b0b0b0b0b0b0b0b0b0b0b0b0''"

definition admin_address :: string where
  "admin_address = ''0xaaaaaaaaaaaaaaaaaaaaaaaaaaaaaaaaaaaaaaaa''"

definition demo_chain :: chain where
  "demo_chain =
     \<lparr>chain_up = True, chain_height = 0, chain_owner = carla_address,
      chain_admin = admin_address, chain_cap = 10 ^ 30,
      chain_balance = (\<lambda>a. if a = alice_address then 300 * 10 ^ 18
                            else if a = carla_address then 150 * 10 ^ 18 else 0),
      chain_allowance = (\<lambda>owner spender. 0),
      chain_mintNonce = (\<lambda>a. 0), chain_burnNonce = (\<lambda>a. 0),
      chain_permitNonce = (\<lambda>a. 0)\<rparr>"

definition carla :: user where
  "carla = \<lparr>user_id = ''u-carla'', user_email = ''carla@rete.it'', user_name = ''Carla'',
            user_role = Coordinator, user_ethAddress = carla_address,
            user_tokenBalance = 150, user_communityId = Some ''c1''\<rparr>"

definition alice :: user where
  "alice = \<lparr>user_id = ''u-alice'', user_email = ''alice@rete.it'', user_name = ''Alice'',
            user_role = User, user_ethAddress = alice_address,
            user_tokenBalance = 300, user_communityId = Some ''c1''\<rparr>"

definition bob :: user where
  "bob = \<lparr>user_id = ''u-bob'', user_email = ''bob@rete.it'', user_name = ''Bob'',
          user_role = User, user_ethAddress = bob_address,
          user_tokenBalance = 0, user_communityId = Some ''c1''\<rparr>"

definition paolo :: user where
  "paolo = \<lparr>user_id = ''u-paolo'', user_email = ''paolo@shop.it'', user_name = ''Paolo'',
            user_role = Provider, user_ethAddress = paolo_address,
            user_tokenBalance = 0, user_communityId = None\<rparr>"

definition carla_wallet :: wallet where
  "carla_wallet =
     \<lparr>wallet_id = ''w-carla'', wallet_userId = ''u-carla'', wallet_address = carla_address,
      wallet_encryptedPrivateKey = ''30313233343536373839616263646566:72:313131313131313131313131313131313131313131313131313131313131313131313131313131313131313131313131313131313131313131313131313131317830'',
      wallet_isDefault = 1\<rparr>"

definition alice_wallet :: wallet where
  "alice_wallet =
     \<lparr>wallet_id = ''w-alice'', wallet_userId = ''u-alice'', wallet_address = alice_address,
      wallet_encryptedPrivateKey = ''30313233343536373839616263646566:72:323232323232323232323232323232323232323232323232323232323232323232323232323232323232323232323232323232323232323232323232323232327830'',
      wallet_isDefault = 1\<rparr>"

definition paolo_wallet :: wallet where
  "paolo_wallet =
     \<lparr>wallet_id = ''w-paolo'', wallet_userId = ''u-paolo'', wallet_address = paolo_address,
      wallet_encryptedPrivateKey = ''30313233343536373839616263646566:72:333333333333333333333333333333333333333333333333333333333333333333333333333333333333333333333333333333333333333333333333333333337830'',
      wallet_isDefault = 1\<rparr>"

definition demo_wallets :: "wallet list" where
  "demo_wallets = [carla_wallet, alice_wallet, paolo_wallet]"

definition demo_product :: product where
  "demo_product = \<lparr>product_id = ''p1'', product_name = ''Pannello solare'', product_price = 120,
                    product_providerId = ''u-paolo''\<rparr>"

definition demo_token :: string where
  "demo_token = ''0x7070707070707070707070707070707070707070''"

definition demo_db :: db where
  "demo_db =
     \<lparr>users = [alice, bob, carla, paolo],
      communities = [\<lparr>community_id = ''c1'', community_name = ''Rete Uno'',
                      community_tokenAddress = Some demo_token\<rparr>],
      wallets = demo_wallets,
      products = [demo_product],
      productCommunities = [\<lparr>pc_productId = ''p1'', pc_communityId = ''c1''\<rparr>],
      transactions = [],
      nextId = 0\<rparr>"


definition carla_signer :: signer where
  "carla_signer = \<lparr>signer_privateKey = demo_key, signer_address = carla_address\<rparr>"

definition alice_signer :: signer where
  "alice_signer =
     \<lparr>signer_privateKey = ''0x2222222222222222222222222222222222222222222222222222222222222222'',
      signer_address = alice_address\<rparr>"

definition expired_body :: sig_body where
  "expired_body =
     \<lparr>body_signer = Some carla_address, body_holder = Some alice_address, body_sigAmount = 100,
      body_deadline = JNumber (Fin 900), body_v = Some 27, body_r = Some ''0x11111111'',
      body_s = Some demo_token, body_tokenAddress = None\<rparr>"

definition demo_item :: distribution where
  "demo_item = \<lparr>dist_email = ''alice@rete.it'', dist_amount = Fin 100\<rparr>"

definition demo_auth :: authorization where
  "demo_auth = \<lparr>auth_v = 27, auth_r = ''0x11111111'', auth_s = demo_token, auth_nonce = 0,
                 auth_deadline = 4600\<rparr>"

definition demo_mint :: mint_result where
  "demo_mint = \<lparr>mint_tx = ''0xf'', mint_block = 1, mint_to = alice_address,
                 mint_amount = 100 * 10 ^ 18, mint_signer = carla_address,
                 mint_deadline = 4600\<rparr>"


definition auth_at :: "int \<Rightarrow> int \<Rightarrow> authorization" where
  "auth_at n deadline = \<lparr>auth_v = 27, auth_r = ''0x11111111'', auth_s = demo_token,
                          auth_nonce = n, auth_deadline = deadline\<rparr>"


definition demo_transfer_body :: transfer_body where
  "demo_transfer_body = \<lparr>body_recipientId = Some ''u-bob'', body_amount = Fin 100, body_note = None\<rparr>"

definition demo_transfer_ctx :: transfer_ctx where
  "demo_transfer_ctx =
     \<lparr>ctx_sender = alice, ctx_recipient = bob, ctx_communityId = ''c1'',
      ctx_tokenAddress = demo_token, ctx_signerWallet = alice_signer,
      ctx_adminAddress = admin_address\<rparr>"

definition demo_purchase_ctx :: purchase_ctx where
  "demo_purchase_ctx =
     \<lparr>ctx_buyer = alice, ctx_product = demo_product, ctx_provider = paolo,
      ctx_buyerCommunityId = ''c1'', ctx_purchaseToken = demo_token,
      ctx_providerWallet = paolo_wallet, ctx_buyerSigner = alice_signer,
      ctx_purchaseAdmin = admin_address\<rparr>"

definition demo_pending_purchase :: transaction where
  "demo_pending_purchase =
     \<lparr>tx_id = 0, tx_type = Purchase, tx_amount = 120,
      tx_description = Some ''Acquisto: Pannello solare'', tx_status = Pending,
      tx_fromUserId = Some ''u-alice'', tx_toUserId = Some ''u-paolo'',
      tx_productId = Some ''p1'', tx_communityId = Some ''c1'', tx_txHash = None\<rparr>"

definition capped_chain :: chain where
  "capped_chain = demo_chain\<lparr>chain_cap := 40 * 10 ^ 18\<rparr>"

definition demo_transfer_result :: transfer_result where
  "demo_transfer_result =
     \<lparr>transfer_action = ''permit-transfer'', transfer_sent = 40 * 10 ^ 18,
      transfer_allowanceAfter = 0, transfer_permitTx = ''0xf'', transfer_permitBlock = 1,
      transfer_transferTx = ''0xff'', transfer_transferBlock = 2\<rparr>"

definition demo_minted :: "chain \<Rightarrow> string \<Rightarrow> int \<Rightarrow> chain" where
  "demo_minted ch to amount =
     ch\<lparr>chain_height := Suc (chain_height ch),
        chain_balance := (chain_balance ch)(to := chain_balance ch to + amount),
        chain_mintNonce :=
          (chain_mintNonce ch)(carla_address := chain_mintNonce ch carla_address + 1)\<rparr>"


definition alice_entry :: distributed_entry where
  "alice_entry = \<lparr>distributed_email = ''alice@rete.it'', distributed_amount = Fin 100,
                   distributed_userName = ''Alice'', distributed_txHash = ''0xf''\<rparr>"


definition db_after_alice :: db where
  "db_after_alice = settled_distribution demo_db carla alice 100 ''0xf''"

definition chain_after_alice :: chain where
  "chain_after_alice = demo_minted demo_chain alice_address (100 * 10 ^ 18)"




definition demo_burned :: "chain \<Rightarrow> string \<Rightarrow> int \<Rightarrow> chain" where
  "demo_burned ch holder amount =
     ch\<lparr>chain_height := Suc (chain_height ch),
        chain_balance := (chain_balance ch)(holder := chain_balance ch holder - amount),
        chain_burnNonce :=
          (chain_burnNonce ch)(carla_address := chain_burnNonce ch carla_address + 1)\<rparr>"

text \<open>A store in which Alice's balance is the largest an \<^verbatim>\<open>int4\<close> holds.\<close>

definition full_db :: db where
  "full_db = demo_db\<lparr>users := [alice\<lparr>user_tokenBalance := 2147483647\<rparr>, bob, carla, paolo]\<rparr>"

definition one_item :: distribution where
  "one_item = \<lparr>dist_email = ''alice@rete.it'', dist_amount = Fin 1\<rparr>"

text \<open>A transfer of one token and a half.\<close>

definition half_body :: transfer_body where
  "half_body = \<lparr>body_recipientId = Some ''u-bob'', body_amount = Fin (3 / 2), body_note = None\<rparr>"

section \<open>Properties of the key vault\<close>

lemma of_char_lt_256: "(of_char c :: nat) < 256"
  by (cases c) simp

lemma hexval_hexdigit: "k < 16 \<Longrightarrow> hexval (hexdigit k) = Some k"
  by (auto simp: hexval_def hexdigit_def Let_def)

lemma hexdigit_not_colon: "k < 16 \<Longrightarrow> hexdigit k \<noteq> CHR '':''"
proof
  assume k: "k < 16" and eq: "hexdigit k = CHR '':''"
  from hexval_hexdigit[OF k] eq have "hexval CHR '':'' = Some k" by simp
  then show False by (simp add: hexval_def)
qed

lemma byte_split: "char_of (16 * ((of_char b :: nat) div 16) + (of_char b :: nat) mod 16) = b"
  by simp

lemma from_hex_to_hex: "from_hex (to_hex bs) = bs"
proof (induction bs)
  case Nil
  show ?case by simp
next
  case (Cons b bs)
  have hi: "(of_char b :: nat) div 16 < 16" using of_char_lt_256[of b] by arith
  have lo: "(of_char b :: nat) mod 16 < 16" by simp
  show ?case using Cons byte_split[of b]
    by (simp add: hexval_hexdigit[OF hi] hexval_hexdigit[OF lo])
qed

lemma colon_notin_to_hex: "CHR '':'' \<notin> set (to_hex bs)"
proof (induction bs)
  case Nil
  show ?case by simp
next
  case (Cons b bs)
  have hi: "(of_char b :: nat) div 16 < 16" using of_char_lt_256[of b] by arith
  have lo: "(of_char b :: nat) mod 16 < 16" by simp
  show ?case using Cons hexdigit_not_colon[OF hi] hexdigit_not_colon[OF lo] by auto
qed

lemma split_on_none: "sep \<notin> set a \<Longrightarrow> split_on sep a = [a]"
  by (induction a) auto

lemma split_on_append: "sep \<notin> set a \<Longrightarrow> split_on sep (a @ sep # r) = a # split_on sep r"
  by (induction a) (auto split: list.splits)

lemma split_record:
  "split_on CHR '':'' (to_hex iv @ '':'' @ to_hex tag @ '':'' @ to_hex ct)
     = [to_hex iv, to_hex tag, to_hex ct]"
proof -
  have "split_on CHR '':'' (to_hex iv @ CHR '':'' # (to_hex tag @ CHR '':'' # to_hex ct))
          = to_hex iv # split_on CHR '':'' (to_hex tag @ CHR '':'' # to_hex ct)"
    by (rule split_on_append[OF colon_notin_to_hex])
  also have "split_on CHR '':'' (to_hex tag @ CHR '':'' # to_hex ct)
          = to_hex tag # split_on CHR '':'' (to_hex ct)"
    by (rule split_on_append[OF colon_notin_to_hex])
  also have "split_on CHR '':'' (to_hex ct) = [to_hex ct]"
    by (rule split_on_none[OF colon_notin_to_hex])
  finally show ?thesis by simp
qed

lemma utf8_encode_ascii:
  "list_all (\<lambda>c. (of_char c :: nat) < 128) k \<Longrightarrow> utf8_encode k = k"
  by (induction k) auto

lemma utf8_decode_ascii:
  "list_all (\<lambda>c. (of_char c :: nat) < 128) k \<Longrightarrow> utf8_decode k = k"
  by (induction k rule: utf8_decode.induct) auto

lemma hex_char_ascii: "is_hex_char c \<Longrightarrow> (of_char c :: nat) < 128"
  by (auto simp: is_hex_char_def hexval_def Let_def split: if_splits)

lemma valid_private_key_ascii:
  assumes "valid_private_key k"
  shows "list_all (\<lambda>c. (of_char c :: nat) < 128) k"
proof -
  have a: "list_all (\<lambda>c. (of_char c :: nat) < 128) (take 2 k)"
    using assms by (simp add: valid_private_key_def)
  have "list_all is_hex_char (drop 2 k)"
    using assms by (simp add: valid_private_key_def)
  then have b: "list_all (\<lambda>c. (of_char c :: nat) < 128) (drop 2 k)"
    by (simp add: list_all_iff hex_char_ascii)
  have "list_all (\<lambda>c. (of_char c :: nat) < 128) (take 2 k @ drop 2 k)"
    using a b by (simp only: list_all_append)
  then show ?thesis by simp
qed

lemma demo_encryption_key:
  "getEncryptionKey demo_lib demo_env = Inr ''master-secretmaster-secretrete-w''"
  by (simp add: getEncryptionKey_def demo_lib_def demo_env_def SALT_LENGTH_def KEY_LENGTH_def)

text \<open>
  Claim C3. For every valid private key \<open>k\<close> and every initialization vector \<open>iv\<close> that
  \<^verbatim>\<open>randomBytes\<close> may draw, encryption returns a record and decrypting that record returns
  \<open>k\<close>. The master secret is configured (otherwise neither function returns), and the
  library's decipher inverts its cipher at the key derived from it, at \<open>iv\<close> and at the
  bytes of \<open>k\<close>.
\<close>

theorem decrypt_encrypt_roundtrip:
  assumes valid: "valid_private_key k"
      and key: "getEncryptionKey L E = Inr key"
      and inv: "cipher_inverts L key iv (utf8_encode k)"
  shows "\<exists>r. encryptPrivateKey L E iv k = Inr r \<and> decryptPrivateKey L E r = Inr k"
proof -
  obtain ct tag where enc: "gcm_encrypt L key iv (utf8_encode k) = (ct, tag)"
    by (cases "gcm_encrypt L key iv (utf8_encode k)") auto
  let ?r = "to_hex iv @ '':'' @ to_hex tag @ '':'' @ to_hex ct"
  have e: "encryptPrivateKey L E iv k = Inr ?r"
    by (simp add: encryptPrivateKey_def key enc)
  have dec: "gcm_decrypt L key iv tag ct = Inr (utf8_encode k)"
    using inv enc by (simp add: cipher_inverts_def)
  have ascii: "list_all (\<lambda>c. (of_char c :: nat) < 128) k"
    by (rule valid_private_key_ascii[OF valid])
  have rt: "utf8_decode (utf8_encode k) = k"
    by (simp add: utf8_encode_ascii[OF ascii] utf8_decode_ascii[OF ascii])
  have d: "decryptPrivateKey L E ?r = Inr k"
    unfolding decryptPrivateKey_def
    by (simp only: key split_record sum.case list.case from_hex_to_hex dec rt)
  from e d show ?thesis by blast
qed

theorem decrypt_encrypt_roundtrip_witness:
  "valid_private_key demo_key
   \<and> getEncryptionKey demo_lib demo_env = Inr ''master-secretmaster-secretrete-w''
   \<and> cipher_inverts demo_lib ''master-secretmaster-secretrete-w'' demo_iv (utf8_encode demo_key)
   \<and> (\<exists>r. encryptPrivateKey demo_lib demo_env demo_iv demo_key = Inr r
            \<and> decryptPrivateKey demo_lib demo_env r = Inr demo_key)"
proof -
  have v: "valid_private_key demo_key"
    by (simp add: demo_key_def valid_private_key_def is_hex_char_def hexval_def)
  note k = demo_encryption_key
  have c: "cipher_inverts demo_lib ''master-secretmaster-secretrete-w'' demo_iv
             (utf8_encode demo_key)"
    by (simp add: cipher_inverts_def demo_lib_def)
  from decrypt_encrypt_roundtrip[OF v k c] v k c show ?thesis by blast
qed

text \<open>
  Claim C7. \<open>decryptPrivateKey\<close> returns an error and no output for every record that
  does not split into exactly three colon-delimited fields, and returns the library's
  error whenever the decipher rejects the three fields (tampered ciphertext or tag, wrong
  key). It never returns partial plaintext: whatever it returns is the decoding of the
  whole plaintext of a record the decipher accepted.
\<close>

theorem decrypt_rejects:
  "(length (split_on CHR '':'' r) \<noteq> 3 \<longrightarrow> (\<exists>e. decryptPrivateKey L E r = Inl e))
   \<and> (\<forall>key p0 p1 p2 e. getEncryptionKey L E = Inr key
         \<and> split_on CHR '':'' r = [p0, p1, p2]
         \<and> gcm_decrypt L key (from_hex p0) (from_hex p1) (from_hex p2) = Inl e
       \<longrightarrow> decryptPrivateKey L E r = Inl e)
   \<and> (\<forall>p. decryptPrivateKey L E r = Inr p \<longrightarrow>
         (\<exists>key p0 p1 p2 pt. getEncryptionKey L E = Inr key
            \<and> split_on CHR '':'' r = [p0, p1, p2]
            \<and> gcm_decrypt L key (from_hex p0) (from_hex p1) (from_hex p2) = Inr pt
            \<and> p = utf8_decode pt))"
  by (auto simp: decryptPrivateKey_def split: sum.splits list.splits)

theorem decrypt_rejects_witness:
  "length (split_on CHR '':'' ''00ff:00'') \<noteq> 3
   \<and> (\<exists>e. decryptPrivateKey demo_lib demo_env ''00ff:00'' = Inl e)
   \<and> getEncryptionKey demo_lib demo_env = Inr ''master-secretmaster-secretrete-w''
   \<and> split_on CHR '':'' ''3031:00:7830'' = [''3031'', ''00'', ''7830'']
   \<and> gcm_decrypt demo_lib ''master-secretmaster-secretrete-w''
        (from_hex ''3031'') (from_hex ''00'') (from_hex ''7830'')
        = Inl (Error ''Unsupported state or unable to authenticate data'')
   \<and> decryptPrivateKey demo_lib demo_env ''3031:00:7830''
        = Inl (Error ''Unsupported state or unable to authenticate data'')"
proof -
  have a: "length (split_on CHR '':'' ''00ff:00'') \<noteq> 3" by simp
  note k = demo_encryption_key
  have s: "split_on CHR '':'' ''3031:00:7830'' = [''3031'', ''00'', ''7830'']" by simp
  have g: "gcm_decrypt demo_lib ''master-secretmaster-secretrete-w''
             (from_hex ''3031'') (from_hex ''00'') (from_hex ''7830'')
           = Inl (Error ''Unsupported state or unable to authenticate data'')"
    by (simp add: demo_lib_def hexval_def)
  from decrypt_rejects[of "''00ff:00''" demo_lib demo_env] a
  have 1: "\<exists>e. decryptPrivateKey demo_lib demo_env ''00ff:00'' = Inl e" by blast
  from decrypt_rejects[of "''3031:00:7830''" demo_lib demo_env] k s g
  have 2: "decryptPrivateKey demo_lib demo_env ''3031:00:7830''
        = Inl (Error ''Unsupported state or unable to authenticate data'')" by blast
  from a 1 k s g 2 show ?thesis by blast
qed

section \<open>Facts about the concrete instance\<close>

lemma demo_key_valid: "valid_private_key demo_key"
  by (simp add: demo_key_def valid_private_key_def is_hex_char_def hexval_def)

lemma demo_wallet_carla:
  "getDefaultWallet demo_db ''u-carla'' = Some carla_wallet"
  by (simp add: getDefaultWallet_def demo_db_def demo_wallets_def carla_wallet_def)

lemma demo_decrypt_carla:
  "decryptPrivateKey demo_lib demo_env (wallet_encryptedPrivateKey carla_wallet) = Inr demo_key"
  unfolding decryptPrivateKey_def demo_encryption_key
  by (simp add: carla_wallet_def hexval_def demo_lib_def demo_key_def char_of_eq_iff)

lemma demo_signer_carla:
  "custodialSigner demo_lib demo_env carla_wallet = Inr carla_signer"
proof -
  have "newWallet demo_lib demo_key = Inr carla_signer"
    using demo_key_valid
    by (simp add: newWallet_def demo_lib_def carla_signer_def carla_address_def)
       (simp add: demo_key_def)
  then show ?thesis by (simp add: custodialSigner_def demo_decrypt_carla)
qed

lemma demo_prepare:
  "distribute_prepare demo_lib demo_env demo_db ''u-carla'' [demo_item]
     = Inr (carla, demo_token, carla_signer, [demo_item])"
proof -
  have u: "getUser demo_db ''u-carla'' = Some carla"
    by (simp add: getUser_def demo_db_def alice_def bob_def carla_def)
  have c: "getCommunity demo_db ''c1''
             = Some \<lparr>community_id = ''c1'', community_name = ''Rete Uno'',
                     community_tokenAddress = Some demo_token\<rparr>"
    by (simp add: getCommunity_def demo_db_def)
  have w: "getDefaultWallet demo_db (user_id carla) = Some carla_wallet"
    using demo_wallet_carla by (simp add: carla_def)
  have p: "distributeTokensSchema_parse demo_lib [demo_item] = Inr [demo_item]"
    by (simp add: distributeTokensSchema_parse_def demo_lib_def demo_item_def)
  have r: "user_role carla = Coordinator" "user_communityId carla = Some ''c1''"
    by (simp_all add: carla_def)
  show ?thesis
    by (simp add: distribute_prepare_def u c w p r demo_signer_carla) (simp add: demo_token_def)
qed

lemma demo_config:
  "chain_up ch \<Longrightarrow> getTokenConfig demo_gateway demo_env ch (Some demo_token) =
     Inr \<lparr>config_token = demo_token, config_name = ''Rete Token'', config_symbol = ''RETE'',
          config_decimals = 18, config_totalSupply = 0, config_owner = chain_owner ch,
          config_adminSpender = chain_admin ch, config_mintPaused = False,
          config_adminBurnEnabled = False, config_chainId = 11155111\<rparr>"
  by (simp add: getTokenConfig_def getTokenContractReadonly_def tokenAddressOr_def getProvider_def
       demo_env_def demo_gateway_def demo_read_def demo_token_def)

lemma demo_parse: "parseAmount demo_lib (Fin (of_int a)) n = Inr (a * 10 ^ n)"
proof -
  have "(of_int a :: rat) * 10 ^ n = of_int (a * 10 ^ n)" by simp
  then show ?thesis by (simp add: parseAmount_def demo_lib_def del: of_int_mult of_int_power)
qed

lemma demo_parse_numeral:
  "parseAmount demo_lib (Fin (numeral k)) n = Inr (numeral k * 10 ^ n)"
  using demo_parse[of "numeral k" n] by simp

lemma demo_readonly: "getTokenContractReadonly demo_env (Some demo_token) = Inr demo_token"
  by (simp add: getTokenContractReadonly_def tokenAddressOr_def getProvider_def demo_env_def
        demo_token_def)

lemma demo_sign:
  "distribute_sign demo_gateway demo_lib demo_env 1000 demo_chain carla_signer alice demo_item
     demo_token = Inr demo_auth"
proof -
  have up: "chain_up demo_chain" by (simp add: demo_chain_def)
  have n: "getMintNonce demo_gateway demo_env demo_chain carla_address (Some demo_token) = Inr 0"
    by (simp add: getMintNonce_def demo_readonly)
       (simp add: demo_gateway_def demo_read_def demo_chain_def)
  show ?thesis
    by (simp add: distribute_sign_def demo_config[OF up] demo_item_def demo_parse_numeral
          signMintAuthorization_def demo_readonly n carla_signer_def demo_auth_def)
       (simp add: demo_lib_def demo_key_def)
qed

lemma demo_admin: "getAdminWallet demo_lib demo_env
    = Inr \<lparr>signer_privateKey = ''0xaaaaaaaaaaaaaaaaaaaaaaaaaaaaaaaaaaaaaaaaaaaaaaaaaaaaaaaaaaaaaaaa'',
           signer_address = admin_address\<rparr>"
  by (simp add: getAdminWallet_def getProvider_def newWallet_def demo_env_def demo_lib_def
        valid_private_key_def is_hex_char_def hexval_def admin_address_def)

lemma demo_contract: "getTokenContract demo_lib demo_env (Some demo_token) = Inr demo_token"
  by (simp add: getTokenContract_def tokenAddressOr_def demo_admin) (simp add: demo_token_def)

lemma demo_mint_ok:
  "fst (mintWithSignature demo_gateway demo_lib demo_env demo_chain (signer_address carla_signer)
          (user_ethAddress alice) (dist_amount demo_item) (1000 + 3600) (auth_v demo_auth)
          (auth_r demo_auth) (auth_s demo_auth) (Some demo_token)) = Inr demo_mint"
proof -
  have d: "c_decimals demo_gateway demo_chain demo_token = Inr 18"
    by (simp add: demo_gateway_def demo_read_def demo_chain_def)
  show ?thesis
    by (simp add: mintWithSignature_def demo_contract demo_item_def demo_parse_numeral d)
       (simp add: demo_gateway_def demo_chain_def demo_mined_def
          carla_signer_def demo_mint_def alice_def demo_auth_def)
qed

section \<open>Signing and deadlines\<close>

lemma andThen_Inr: "andThen m f = Inr y \<longleftrightarrow> (\<exists>x. m = Inr x \<and> f x = Inr y)"
  by (cases m) auto










text \<open>
  Claim C9. A mint-with-signature or burn-with-signature request whose deadline, as the
  route converts it with \<^verbatim>\<open>Number\<close>, is not after \<open>now\<close> is answered by a validation
  response (or by 401 when there is no session): the chain state is returned unchanged,
  and the outcome is the same for every gateway, so that no call reached the chain.
\<close>

theorem expired_deadline_rejected:
  assumes "js_le (js_Number L (body_deadline body)) (Fin (of_int now))"
  shows "fst (mintWithSig_route G L E now session body ch)
           \<in> {Fail 401 ''Non autenticato'', Fail 400 ''Parametri mancanti'',
              Fail 400 ''La firma e scaduta''}
       \<and> snd (mintWithSig_route G L E now session body ch) = ch
       \<and> mintWithSig_route G L E now session body ch
           = mintWithSig_route G' L E now session body ch
       \<and> fst (burnWithSig_route G L E now session body ch)
           \<in> {Fail 401 ''Non autenticato'', Fail 400 ''Parametri mancanti'',
              Fail 400 ''La firma e scaduta''}
       \<and> snd (burnWithSig_route G L E now session body ch) = ch
       \<and> burnWithSig_route G L E now session body ch
           = burnWithSig_route G' L E now session body ch"
  using assms
  by (auto simp: mintWithSig_route_def burnWithSig_route_def requireAuth_def Let_def
           split: option.splits prod.splits)

theorem expired_deadline_rejected_witness:
  "js_le (js_Number demo_lib (body_deadline expired_body)) (Fin (of_int 1000))
   \<and> fst (mintWithSig_route demo_gateway demo_lib demo_env 1000 (Some ''u-carla'') expired_body
            demo_chain)
       \<in> {Fail 401 ''Non autenticato'', Fail 400 ''Parametri mancanti'',
          Fail 400 ''La firma e scaduta''}
   \<and> snd (mintWithSig_route demo_gateway demo_lib demo_env 1000 (Some ''u-carla'') expired_body
            demo_chain) = demo_chain
   \<and> snd (burnWithSig_route demo_gateway demo_lib demo_env 1000 (Some ''u-carla'') expired_body
            demo_chain) = demo_chain
   \<and> mintWithSig_route demo_gateway demo_lib demo_env 1000 (Some ''u-carla'') expired_body
        demo_chain = (Fail 400 ''La firma e scaduta'', demo_chain)"
proof -
  have h: "js_le (js_Number demo_lib (body_deadline expired_body)) (Fin (of_int 1000))"
    by (simp add: expired_body_def)
  have m: "mintWithSig_route demo_gateway demo_lib demo_env 1000 (Some ''u-carla'') expired_body
             demo_chain = (Fail 400 ''La firma e scaduta'', demo_chain)"
    by (simp add: mintWithSig_route_def requireAuth_def sig_arguments_def present_def
          expired_body_def carla_address_def alice_address_def demo_token_def)
  from expired_deadline_rejected[OF h, of demo_gateway demo_env "Some ''u-carla''" demo_chain
         demo_gateway] h m
  show ?thesis by blast
qed

section \<open>Sequencing and the store\<close>

lemma js_integer_of_int: "js_integer (js_of_int i) = Some i"
  by (simp add: js_of_int_def)

lemma int4_range_sint: "int4_range (sint (w :: int4))"
  using sint_ge[of w] sint_lt[of w] by (simp add: int4_range_def)

lemma sint_int4_of_int: "int4_range i \<Longrightarrow> sint (word_of_int i :: int4) = i"
  by (simp add: int4_range_def sint_sbintrunc' signed_take_bit_int_eq_self)

lemma int4_input_of_int:
  "int4_range i \<Longrightarrow> int4_input (js_of_int i) = Inr (word_of_int i)"
  by (simp add: int4_input_def js_integer_of_int)

lemma int4_input_of_int4: "int4_input (js_of_int4 w) = Inr w"
  by (simp add: js_of_int4_def int4_input_of_int[OF int4_range_sint])

lemma int4_input_Inr: "int4_input x = Inr a \<longleftrightarrow> x = js_of_int (sint a)"
proof
  assume h: "int4_input x = Inr a"
  then obtain i where i: "js_integer x = Some i" "int4_range i" "a = word_of_int i"
    by (auto simp: int4_input_def split: option.splits if_splits)
  from i(1) have "x = js_of_int i"
    by (cases x) (auto simp: js_of_int_def split: if_splits)
  with i show "x = js_of_int (sint a)" by (simp add: sint_int4_of_int)
next
  assume "x = js_of_int (sint a)"
  then show "int4_input x = Inr a"
    using int4_input_of_int4[of a] by (simp add: js_of_int4_def)
qed

lemma find_map_same_key:
  assumes "\<And>u. key (f u) = key u"
  shows "find (\<lambda>u. key u = k) (map f us) = map_option f (find (\<lambda>u. key u = k) us)"
  using assms by (induction us) auto

lemma find_by_id:
  assumes "distinct (map user_id us)" and "u \<in> set us"
  shows "find (\<lambda>x. user_id x = user_id u) us = Some u"
  using assms
proof (induction us)
  case Nil
  then show ?case by simp
next
  case (Cons x xs)
  then show ?case by (cases "x = u") auto
qed

lemma getUser_member:
  "users_by_id d \<Longrightarrow> u \<in> set (users d) \<Longrightarrow> getUser d (user_id u) = Some u"
  by (simp add: getUser_def users_by_id_def find_by_id)

lemma same_id_same_user:
  assumes "users_by_id d" and "u \<in> set (users d)" and "v \<in> set (users d)"
      and "user_id u = user_id v"
  shows "u = v"
  using assms by (auto simp: users_by_id_def distinct_map inj_on_def)

lemma getUserByEmail_member: "getUserByEmail d e = Some A \<Longrightarrow> A \<in> set (users d)"
  by (auto simp: getUserByEmail_def find_Some_iff)

lemma createTransaction_ok:
  assumes "int4_input (ins_amount ins) = Inr a"
  shows "createTransaction d ins
         = Inr (\<lparr>tx_id = nextId d, tx_type = ins_type ins, tx_amount = a,
                 tx_description = ins_description ins, tx_status = ins_status ins,
                 tx_fromUserId = ins_fromUserId ins, tx_toUserId = ins_toUserId ins,
                 tx_productId = ins_productId ins, tx_communityId = ins_communityId ins,
                 tx_txHash = ins_txHash ins\<rparr>,
                d\<lparr>transactions := transactions d @
                     [\<lparr>tx_id = nextId d, tx_type = ins_type ins, tx_amount = a,
                       tx_description = ins_description ins, tx_status = ins_status ins,
                       tx_fromUserId = ins_fromUserId ins, tx_toUserId = ins_toUserId ins,
                       tx_productId = ins_productId ins, tx_communityId = ins_communityId ins,
                       tx_txHash = ins_txHash ins\<rparr>],
                  nextId := Suc (nextId d)\<rparr>)"
  using assms by (simp add: createTransaction_def Let_def)

lemma createTransaction_Inr:
  assumes "createTransaction d ins = Inr (row, d')"
  shows "\<exists>a. int4_input (ins_amount ins) = Inr a
           \<and> d' = d\<lparr>transactions := transactions d @ [row], nextId := Suc (nextId d)\<rparr>
           \<and> tx_id row = nextId d \<and> tx_amount row = a \<and> tx_status row = ins_status ins
           \<and> tx_txHash row = ins_txHash ins"
  using assms by (auto simp: createTransaction_def Let_def split: sum.splits)

lemma createTransaction_Inl:
  "createTransaction d ins = Inl e \<longleftrightarrow> int4_input (ins_amount ins) = Inl e"
  by (auto simp: createTransaction_def Let_def split: sum.splits)

lemma updateUserBalance_ok:
  assumes "int4_input x = Inr a"
      and "\<forall>u \<in> set (users d). user_id u = i \<longrightarrow> int4_range (sint (user_tokenBalance u) + sint a)"
  shows "updateUserBalance d i x
         = Inr (d\<lparr>users := map (\<lambda>u. if user_id u = i
                                      then u\<lparr>user_tokenBalance := user_tokenBalance u + a\<rparr>
                                      else u) (users d)\<rparr>)"
  using assms by (auto simp: updateUserBalance_def list_ex_iff)

lemma updateUserBalance_Inr:
  assumes "updateUserBalance d i x = Inr d'"
  shows "\<exists>a. int4_input x = Inr a
           \<and> (\<forall>u \<in> set (users d). user_id u = i
                  \<longrightarrow> int4_range (sint (user_tokenBalance u) + sint a))
           \<and> d' = d\<lparr>users := map (\<lambda>u. if user_id u = i
                                       then u\<lparr>user_tokenBalance := user_tokenBalance u + a\<rparr>
                                       else u) (users d)\<rparr>"
  using assms
  by (auto simp: updateUserBalance_def list_ex_iff split: sum.splits if_splits)

lemma sint_int4_add:
  "int4_range (sint (w :: int4) + sint (a :: int4)) \<Longrightarrow> sint (w + a) = sint w + sint a"
  by (simp add: int4_range_def sint_word_add signed_take_bit_int_eq_self)

lemma cachedBalance_updated:
  assumes "\<forall>u \<in> set (users d). user_id u = i \<longrightarrow> int4_range (sint (user_tokenBalance u) + sint a)"
  shows "cachedBalance
           (d\<lparr>users := map (\<lambda>u. if user_id u = i
                                then u\<lparr>user_tokenBalance := user_tokenBalance u + a\<rparr>
                                else u) (users d)\<rparr>) j
         = map_option (\<lambda>b. if j = i then b + sint a else b) (cachedBalance d j)"
proof -
  let ?f = "\<lambda>u. if user_id u = i then u\<lparr>user_tokenBalance := user_tokenBalance u + a\<rparr> else u"
  have k: "\<And>u. user_id (?f u) = user_id u" by simp
  show ?thesis
  proof (cases "find (\<lambda>u. user_id u = j) (users d)")
    case None
    then show ?thesis
      by (simp add: cachedBalance_def getUser_def find_map_same_key[of user_id ?f, OF k])
  next
    case (Some u)
    then have m: "u \<in> set (users d)" "user_id u = j"
      by (auto simp: find_Some_iff)
    have "j = i \<Longrightarrow> sint (user_tokenBalance u + a) = sint (user_tokenBalance u) + sint a"
      using assms m by (simp add: sint_int4_add)
    then show ?thesis
      using Some m
      by (simp add: cachedBalance_def getUser_def find_map_same_key[of user_id ?f, OF k])
  qed
qed

lemma cachedBalance_users: "users d' = users d \<Longrightarrow> cachedBalance d' i = cachedBalance d i"
  by (simp add: cachedBalance_def getUser_def)

lemma users_updateTransactionStatus: "users (updateTransactionStatus d i st h) = users d"
  by (simp add: updateTransactionStatus_def)

lemma last_completed:
  "tx_id row = i \<Longrightarrow>
   last (transactions (updateTransactionStatus
           (d\<lparr>transactions := ts @ [row]\<rparr>) i Completed (Some h)))
     = row\<lparr>tx_status := Completed, tx_txHash := Some h\<rparr>"
  by (simp add: updateTransactionStatus_def)

section \<open>Transfer and purchase\<close>

lemma permitTransfer_success:
  assumes "permitTransfer G L E ch owner spender val deadline v r s recipient ta = (Inr tr, ch')"
  shows "\<exists>token admin receiptPermit ch1 allowance rc.
           getTokenContract L E ta = Inr token
         \<and> getAdminWallet L E = Inr admin
         \<and> c_permit G ch token owner spender val deadline v r s = (Inr receiptPermit, ch1)
         \<and> c_allowance G ch1 token owner (signer_address admin) = Inr allowance
         \<and> allowance \<noteq> 0
         \<and> c_transferFrom G ch1 token owner recipient (min val allowance) = (Inr rc, ch')
         \<and> transfer_sent tr = min val allowance
         \<and> transfer_transferTx tr = receipt_hash rc"
  using assms
  by (auto simp: permitTransfer_def Let_def min_def split: sum.splits prod.splits if_splits)

lemma permitFlow_success:
  assumes "permitFlow G L E now ch sw adminAddress amount payee ta = (Inr tr, ch')"
  shows "\<exists>config amountWei token admin ch1 allowance rc.
           getTokenConfig G E ch (Some ta) = Inr config
         \<and> parseAmount L amount (config_decimals config) = Inr amountWei
         \<and> getTokenContract L E (Some ta) = Inr token
         \<and> getAdminWallet L E = Inr admin
         \<and> c_allowance G ch1 token (signer_address sw) (signer_address admin) = Inr allowance
         \<and> allowance \<noteq> 0
         \<and> c_transferFrom G ch1 token (signer_address sw) payee (min amountWei allowance)
             = (Inr rc, ch')
         \<and> transfer_sent tr = min amountWei allowance
         \<and> transfer_transferTx tr = receipt_hash rc"
proof -
  from assms have "\<exists>amountWei v r s config.
        getTokenConfig G E ch (Some ta) = Inr config
      \<and> parseAmount L amount (config_decimals config) = Inr amountWei
      \<and> permitTransfer G L E ch (signer_address sw) adminAddress amountWei (now + 3600)
            v r s payee (Some ta)
          = (Inr tr, ch')"
    by (auto simp: permitFlow_def andThen_Inr split: sum.splits prod.splits)
  then obtain amountWei v r s config where
      c: "getTokenConfig G E ch (Some ta) = Inr config"
  and p: "parseAmount L amount (config_decimals config) = Inr amountWei"
  and t: "permitTransfer G L E ch (signer_address sw) adminAddress amountWei (now + 3600)
            v r s payee (Some ta)
          = (Inr tr, ch')"
    by blast
  from permitTransfer_success[OF t] c p show ?thesis by blast
qed



lemma demo_signer_alice:
  "custodialSigner demo_lib demo_env alice_wallet = Inr alice_signer"
proof -
  have d: "decryptPrivateKey demo_lib demo_env (wallet_encryptedPrivateKey alice_wallet)
             = Inr (signer_privateKey alice_signer)"
    unfolding decryptPrivateKey_def demo_encryption_key
    by (simp add: alice_wallet_def hexval_def demo_lib_def alice_signer_def char_of_eq_iff)
  have "newWallet demo_lib (signer_privateKey alice_signer) = Inr alice_signer"
    by (simp add: newWallet_def demo_lib_def alice_signer_def alice_address_def
          valid_private_key_def is_hex_char_def hexval_def)
  then show ?thesis by (simp add: custodialSigner_def d)
qed

lemma demo_users:
  "getUser demo_db ''u-alice'' = Some alice" "getUser demo_db ''u-bob'' = Some bob"
  "getUser demo_db ''u-carla'' = Some carla" "getUser demo_db ''u-paolo'' = Some paolo"
  by (simp_all add: getUser_def demo_db_def alice_def bob_def carla_def paolo_def)

lemma demo_community:
  "getCommunity demo_db ''c1''
     = Some \<lparr>community_id = ''c1'', community_name = ''Rete Uno'',
             community_tokenAddress = Some demo_token\<rparr>"
  by (simp add: getCommunity_def demo_db_def)

lemma demo_default_wallets:
  "getDefaultWallet demo_db ''u-alice'' = Some alice_wallet"
  "getDefaultWallet demo_db ''u-paolo'' = Some paolo_wallet"
  by (simp_all add: getDefaultWallet_def demo_db_def demo_wallets_def carla_wallet_def
        alice_wallet_def paolo_wallet_def)

lemma demo_transfer_prepare:
  "transfer_prepare demo_lib demo_env demo_db ''u-alice'' demo_transfer_body
     = Inr demo_transfer_ctx"
proof -
  have f: "user_id alice = ''u-alice''" "user_tokenBalance alice = 300"
          "user_communityId alice = Some ''c1''" "user_communityId bob = Some ''c1''"
    by (simp_all add: alice_def bob_def)
  show ?thesis
    by (simp add: transfer_prepare_def demo_transfer_body_def present_def demo_users f truthy_def
          orElse_def demo_community demo_default_wallets demo_signer_alice demo_admin
          demo_transfer_ctx_def js_lt_def js_of_int4_def js_of_int_def)
       (simp add: demo_token_def)
qed

lemma demo_purchase_prepare:
  "purchase_prepare demo_lib demo_env demo_db ''u-alice'' ''p1'' = Inr demo_purchase_ctx"
proof -
  have p: "getProduct demo_db ''p1'' = Some demo_product"
    by (simp add: getProduct_def demo_db_def demo_product_def)
  have a: "isProductAvailableInCommunity demo_db ''p1'' ''c1''"
    by (simp add: isProductAvailableInCommunity_def demo_db_def)
  have f: "user_id alice = ''u-alice''" "user_tokenBalance alice = 300"
          "user_communityId alice = Some ''c1''" "user_id paolo = ''u-paolo''"
          "product_price demo_product = 120" "product_providerId demo_product = ''u-paolo''"
          "product_id demo_product = ''p1''"
    by (simp_all add: alice_def paolo_def demo_product_def)
  show ?thesis
    by (simp add: purchase_prepare_def demo_users p f present_def a demo_community
          demo_default_wallets demo_signer_alice demo_admin demo_purchase_ctx_def)
       (simp add: demo_token_def)
qed





section \<open>Distribution to one recipient\<close>

lemma settled_distribution_balance:
  assumes "users_by_id d" and "A \<in> set (users d)"
      and "int4_range (sint (user_tokenBalance A) + sint x)"
  shows "cachedBalance (settled_distribution d user A x h) (user_id A)
           = Some (sint (user_tokenBalance A) + sint x)"
proof -
  have f: "\<forall>u \<in> set (users d). user_id u = user_id A
             \<longrightarrow> int4_range (sint (user_tokenBalance u) + sint x)"
    using assms same_id_same_user[OF assms(1) _ assms(2)] by blast
  have "cachedBalance (settled_distribution d user A x h) (user_id A)
          = cachedBalance
              (d\<lparr>users := map (\<lambda>u. if user_id u = user_id A
                                   then u\<lparr>user_tokenBalance := user_tokenBalance u + x\<rparr>
                                   else u) (users d)\<rparr>) (user_id A)"
    by (rule cachedBalance_users) (simp add: settled_distribution_def updateTransactionStatus_def)
  also have "\<dots> = map_option (\<lambda>b. b + sint x) (cachedBalance d (user_id A))"
    by (simp add: cachedBalance_updated[OF f])
  finally show ?thesis
    by (simp add: cachedBalance_def getUser_member[OF assms(1,2)])
qed

lemma distribute_try_success:
  assumes amount: "int4_input (dist_amount item) = Inr x"
      and fits: "\<forall>u \<in> set (users d). user_id u = user_id A
                   \<longrightarrow> int4_range (sint (user_tokenBalance u) + sint x)"
      and sign: "distribute_sign G L E now ch sw A item ta = Inr sg"
      and mint: "mintWithSignature G L E ch (signer_address sw) (user_ethAddress A)
                   (dist_amount item) (now + 3600) (auth_v sg) (auth_r sg) (auth_s sg) (Some ta)
                 = (Inr mr, ch')"
  shows "distribute_try G L E now user ta sw item A d ch
         = (Inr \<lparr>distributed_email = dist_email item, distributed_amount = dist_amount item,
                 distributed_userName = user_name A, distributed_txHash = mint_tx mr\<rparr>,
            settled_distribution d user A x (mint_tx mr), ch')"
proof -
  let ?ins = "\<lparr>ins_type = Receive, ins_amount = dist_amount item,
               ins_description = Some (''Distribuzione da '' @ user_name user),
               ins_status = Pending, ins_fromUserId = Some (user_id user),
               ins_toUserId = Some (user_id A), ins_productId = None,
               ins_communityId = user_communityId user, ins_txHash = None\<rparr>"
  have a: "int4_input (ins_amount ?ins) = Inr x" using amount by simp
  note c = createTransaction_ok[of ?ins x d, OF a]
  let ?d1 = "d\<lparr>transactions := transactions d @
                 [\<lparr>tx_id = nextId d, tx_type = Receive, tx_amount = x,
                   tx_description = Some (''Distribuzione da '' @ user_name user),
                   tx_status = Pending, tx_fromUserId = Some (user_id user),
                   tx_toUserId = Some (user_id A), tx_productId = None,
                   tx_communityId = user_communityId user, tx_txHash = None\<rparr>],
               nextId := Suc (nextId d)\<rparr>"
  have f1: "\<forall>u \<in> set (users ?d1). user_id u = user_id A
              \<longrightarrow> int4_range (sint (user_tokenBalance u) + sint x)"
    using fits by simp
  note u = updateUserBalance_ok[of "dist_amount item" x ?d1 "user_id A", OF amount f1]
  show ?thesis
    unfolding distribute_try_def
    by (simp add: c sign mint u del: append.simps)
       (simp add: settled_distribution_def updateTransactionStatus_def)
qed

text \<open>
  Claim C1 (amended). A coordinator's distribute request names one recipient \<open>A\<close> (found by
  e-mail, a member of the coordinator's community) with the integer amount \<open>X\<close>; the
  request passes the checks in front of the loop, the authorization is signed and the
  chain mint submission \<open>mintWithSignature\<close> succeeds with result \<open>mr\<close>; \<open>X\<close> and the
  balance of \<open>A\<close> raised by \<open>X\<close> are within the range of the ledger's \<^verbatim>\<open>int4\<close> columns. Then
  the response lists the item under \<open>distributed\<close> with the hash and no error, the balance
  the server reads for \<open>A\<close> is the former balance plus \<open>X\<close>, and the transaction record
  created for the item (the last row, with the id the store handed out) is completed and
  carries the hash of the mint.
\<close>

theorem distribute_single_mint:
  assumes auth: "uid \<noteq> []"
      and prep: "distribute_prepare L E d uid [item] = Inr (user, ta, sw, [item])"
      and target: "getUserByEmail d (dist_email item) = Some A"
      and member: "user_communityId A = user_communityId user"
      and sign: "distribute_sign G L E now ch sw A item ta = Inr sg"
      and mint: "mintWithSignature G L E ch (signer_address sw) (user_ethAddress A)
                   (dist_amount item) (now + 3600) (auth_v sg) (auth_r sg) (auth_s sg) (Some ta)
                 = (Inr mr, ch')"
      and amount: "dist_amount item = js_of_int X"
      and keys: "users_by_id d"
      and accepted: "int4_range X" "int4_range (sint (user_tokenBalance A) + X)"
  shows "\<exists>d'.
           distribute G L E now (Some uid) [item] d ch
             = (Json \<lparr>distributed =
                        [\<lparr>distributed_email = dist_email item,
                          distributed_amount = dist_amount item,
                          distributed_userName = user_name A,
                          distributed_txHash = mint_tx mr\<rparr>],
                      errors = []\<rparr>, d', ch')
         \<and> cachedBalance d (user_id A) = Some (sint (user_tokenBalance A))
         \<and> cachedBalance d' (user_id A) = Some (sint (user_tokenBalance A) + X)
         \<and> length (transactions d') = Suc (length (transactions d))
         \<and> tx_id (last (transactions d')) = nextId d
         \<and> tx_toUserId (last (transactions d')) = Some (user_id A)
         \<and> sint (tx_amount (last (transactions d'))) = X
         \<and> tx_status (last (transactions d')) = Completed
         \<and> tx_txHash (last (transactions d')) = Some (mint_tx mr)"
proof -
  let ?x = "word_of_int X :: int4"
  let ?d' = "settled_distribution d user A ?x (mint_tx mr)"
  have sx: "sint ?x = X" by (rule sint_int4_of_int[OF accepted(1)])
  have inp: "int4_input (dist_amount item) = Inr ?x"
    by (simp add: amount int4_input_of_int[OF accepted(1)])
  have A: "A \<in> set (users d)" by (rule getUserByEmail_member[OF target])
  have fits: "\<forall>u \<in> set (users d). user_id u = user_id A
                \<longrightarrow> int4_range (sint (user_tokenBalance u) + sint ?x)"
    using same_id_same_user[OF keys _ A] accepted(2) sx by auto
  have item_ok: "distribute_try G L E now user ta sw item A d ch =
           (Inr \<lparr>distributed_email = dist_email item, distributed_amount = dist_amount item,
                 distributed_userName = user_name A, distributed_txHash = mint_tx mr\<rparr>, ?d', ch')"
    by (rule distribute_try_success[OF inp fits sign mint])
  have run: "distribute G L E now (Some uid) [item] d ch
             = (Json \<lparr>distributed =
                        [\<lparr>distributed_email = dist_email item,
                          distributed_amount = dist_amount item,
                          distributed_userName = user_name A,
                          distributed_txHash = mint_tx mr\<rparr>],
                      errors = []\<rparr>, ?d', ch')"
    by (simp add: distribute_def requireAuth_def auth prep target member item_ok)
  have before: "cachedBalance d (user_id A) = Some (sint (user_tokenBalance A))"
    by (simp add: cachedBalance_def getUser_member[OF keys A])
  have after: "cachedBalance ?d' (user_id A) = Some (sint (user_tokenBalance A) + X)"
    using settled_distribution_balance[OF keys A, of ?x user "mint_tx mr"] accepted(2) sx
    by simp
  have rows: "length (transactions ?d') = Suc (length (transactions d))"
    by (simp add: settled_distribution_def updateTransactionStatus_def)
  have lst: "last (transactions ?d')
               = \<lparr>tx_id = nextId d, tx_type = Receive, tx_amount = ?x,
                  tx_description = Some (''Distribuzione da '' @ user_name user),
                  tx_status = Completed, tx_fromUserId = Some (user_id user),
                  tx_toUserId = Some (user_id A), tx_productId = None,
                  tx_communityId = user_communityId user, tx_txHash = Some (mint_tx mr)\<rparr>"
    by (simp add: settled_distribution_def updateTransactionStatus_def)
  from run before after rows lst sx show ?thesis by simp
qed

lemma demo_sign_any:
  assumes up: "chain_up ch" and amount: "dist_amount item = js_of_int X"
  shows "distribute_sign demo_gateway demo_lib demo_env now ch carla_signer U item demo_token
           = Inr (auth_at (chain_mintNonce ch carla_address) (now + 3600))"
proof -
  have n: "getMintNonce demo_gateway demo_env ch carla_address (Some demo_token)
             = Inr (chain_mintNonce ch carla_address)"
    using up by (simp add: getMintNonce_def demo_readonly) (simp add: demo_gateway_def demo_read_def)
  show ?thesis
    by (simp add: distribute_sign_def demo_config[OF up] amount js_of_int_def demo_parse
          signMintAuthorization_def demo_readonly n carla_signer_def auth_at_def
          del: of_int_numeral)
       (simp add: demo_lib_def demo_key_def)
qed

lemma demo_mint_any:
  assumes up: "chain_up ch" and owner: "chain_owner ch = carla_address"
  shows "mintWithSignature demo_gateway demo_lib demo_env ch carla_address to (js_of_int X) dl
           v r s (Some demo_token)
         = (Inr \<lparr>mint_tx = receipt_hash (demo_mined ch),
                 mint_block = receipt_blockNumber (demo_mined ch), mint_to = to,
                 mint_amount = X * 10 ^ 18, mint_signer = carla_address,
                 mint_deadline = dl\<rparr>,
            demo_minted ch to (X * 10 ^ 18))"
proof -
  have d: "c_decimals demo_gateway ch demo_token = Inr 18"
    using up by (simp add: demo_gateway_def demo_read_def)
  have m: "\<And>w. c_mintWithSig demo_gateway ch demo_token carla_address to w dl v r s
             = (Inr (demo_mined ch), demo_minted ch to w)"
    using up owner by (simp add: demo_gateway_def demo_minted_def)
  show ?thesis
    by (simp add: mintWithSignature_def demo_contract js_of_int_def demo_parse d m
          del: of_int_numeral)
qed

lemma demo_try_any:
  assumes up: "chain_up ch" and owner: "chain_owner ch = carla_address"
      and amount: "dist_amount item = js_of_int X" and range: "int4_range X"
      and fits: "\<forall>u \<in> set (users d). user_id u = user_id U
                   \<longrightarrow> int4_range (sint (user_tokenBalance u) + X)"
  shows "distribute_try demo_gateway demo_lib demo_env now carla demo_token carla_signer item U d ch
         = (Inr \<lparr>distributed_email = dist_email item, distributed_amount = dist_amount item,
                 distributed_userName = user_name U,
                 distributed_txHash = receipt_hash (demo_mined ch)\<rparr>,
            settled_distribution d carla U (word_of_int X) (receipt_hash (demo_mined ch)),
            demo_minted ch (user_ethAddress U) (X * 10 ^ 18))"
proof -
  have s: "signer_address carla_signer = carla_address" by (simp add: carla_signer_def)
  have inp: "int4_input (dist_amount item) = Inr (word_of_int X)"
    by (simp add: amount int4_input_of_int[OF range])
  have f: "\<forall>u \<in> set (users d). user_id u = user_id U
             \<longrightarrow> int4_range (sint (user_tokenBalance u) + sint (word_of_int X :: int4))"
    using fits by (simp add: sint_int4_of_int[OF range])
  have m: "mintWithSignature demo_gateway demo_lib demo_env ch (signer_address carla_signer)
             (user_ethAddress U) (dist_amount item) (now + 3600)
             (auth_v (auth_at (chain_mintNonce ch carla_address) (now + 3600)))
             (auth_r (auth_at (chain_mintNonce ch carla_address) (now + 3600)))
             (auth_s (auth_at (chain_mintNonce ch carla_address) (now + 3600))) (Some demo_token)
           = (Inr \<lparr>mint_tx = receipt_hash (demo_mined ch),
                   mint_block = receipt_blockNumber (demo_mined ch),
                   mint_to = user_ethAddress U,
                   mint_amount = X * 10 ^ 18, mint_signer = carla_address,
                   mint_deadline = now + 3600\<rparr>,
              demo_minted ch (user_ethAddress U) (X * 10 ^ 18))"
    by (simp only: s amount demo_mint_any[OF up owner])
  from distribute_try_success[OF inp f demo_sign_any[OF up amount] m]
  show ?thesis by simp
qed

lemma demo_keys: "users_by_id demo_db"
  by (simp add: users_by_id_def demo_db_def alice_def bob_def carla_def paolo_def)

theorem distribute_single_mint_witness:
  "''u-carla'' \<noteq> []
   \<and> distribute_prepare demo_lib demo_env demo_db ''u-carla'' [demo_item]
       = Inr (carla, demo_token, carla_signer, [demo_item])
   \<and> getUserByEmail demo_db (dist_email demo_item) = Some alice
   \<and> user_communityId alice = user_communityId carla
   \<and> distribute_sign demo_gateway demo_lib demo_env 1000 demo_chain carla_signer alice demo_item
        demo_token = Inr demo_auth
   \<and> fst (mintWithSignature demo_gateway demo_lib demo_env demo_chain
             (signer_address carla_signer) (user_ethAddress alice) (dist_amount demo_item)
             (1000 + 3600) (auth_v demo_auth) (auth_r demo_auth) (auth_s demo_auth)
             (Some demo_token)) = Inr demo_mint
   \<and> dist_amount demo_item = js_of_int 100
   \<and> users_by_id demo_db
   \<and> int4_range 100
   \<and> int4_range (sint (user_tokenBalance alice) + 100)
   \<and> cachedBalance demo_db ''u-alice'' = Some 300
   \<and> (\<exists>d' ch'. distribute demo_gateway demo_lib demo_env 1000 (Some ''u-carla'') [demo_item]
                  demo_db demo_chain
                = (Json \<lparr>distributed =
                           [\<lparr>distributed_email = ''alice@rete.it'', distributed_amount = Fin 100,
                             distributed_userName = ''Alice'', distributed_txHash = ''0xf''\<rparr>],
                         errors = []\<rparr>, d', ch')
              \<and> cachedBalance d' ''u-alice'' = Some 400
              \<and> tx_status (last (transactions d')) = Completed
              \<and> tx_txHash (last (transactions d')) = Some ''0xf'')"
proof -
  let ?m = "mintWithSignature demo_gateway demo_lib demo_env demo_chain
             (signer_address carla_signer) (user_ethAddress alice) (dist_amount demo_item)
             (1000 + 3600) (auth_v demo_auth) (auth_r demo_auth) (auth_s demo_auth)
             (Some demo_token)"
  have a: "''u-carla'' \<noteq> []" by simp
  note p = demo_prepare
  have t: "getUserByEmail demo_db (dist_email demo_item) = Some alice"
    by (simp add: getUserByEmail_def demo_db_def demo_item_def alice_def)
  have c: "user_communityId alice = user_communityId carla"
    by (simp add: alice_def carla_def)
  note s = demo_sign
  note f = demo_mint_ok
  have m: "?m = (Inr demo_mint, snd ?m)"
    using f by (simp add: prod_eq_iff)
  have x: "dist_amount demo_item = js_of_int 100"
    by (simp add: demo_item_def js_of_int_def)
  note k = demo_keys
  have r: "int4_range 100" "int4_range (sint (user_tokenBalance alice) + 100)"
    by (simp_all add: int4_range_def alice_def)
  have b: "cachedBalance demo_db ''u-alice'' = Some 300"
    by (simp add: cachedBalance_def getUser_def demo_db_def alice_def)
  have i: "user_id alice = ''u-alice''" "user_name alice = ''Alice''"
          "dist_email demo_item = ''alice@rete.it''" "dist_amount demo_item = Fin 100"
          "mint_tx demo_mint = ''0xf''" "sint (user_tokenBalance alice) = 300"
    by (simp_all add: alice_def demo_item_def demo_mint_def)
  from distribute_single_mint[OF a p t c s m x k r]
  obtain d' where
    "distribute demo_gateway demo_lib demo_env 1000 (Some ''u-carla'') [demo_item] demo_db
       demo_chain
       = (Json \<lparr>distributed =
                  [\<lparr>distributed_email = ''alice@rete.it'', distributed_amount = Fin 100,
                    distributed_userName = ''Alice'', distributed_txHash = ''0xf''\<rparr>],
                errors = []\<rparr>, d', snd ?m)"
    "cachedBalance d' ''u-alice'' = Some 400"
    "tx_status (last (transactions d')) = Completed"
    "tx_txHash (last (transactions d')) = Some ''0xf''"
    unfolding i by auto
  with a p t c s f x k r b show ?thesis by blast
qed

text \<open>
  Without the bound the claim fails. Alice holds 2147483647, the largest \<^verbatim>\<open>int4\<close>, and the
  coordinator distributes 1 to her: the mint is mined (her chain balance grows), the
  update of her cached balance is refused by the database, the item is reported under
  \<open>errors\<close>, her cached balance is unchanged and the item's transaction stays pending
  without a hash.
\<close>

theorem distribute_overflow_counterexample:
  "fst (mintWithSignature demo_gateway demo_lib demo_env demo_chain carla_address alice_address
          (Fin 1) 4600 27 ''0x11111111'' demo_token (Some demo_token))
     = Inr \<lparr>mint_tx = ''0xf'', mint_block = 1, mint_to = alice_address,
            mint_amount = 10 ^ 18, mint_signer = carla_address, mint_deadline = 4600\<rparr>
   \<and> cachedBalance full_db ''u-alice'' = Some 2147483647
   \<and> fst (distribute demo_gateway demo_lib demo_env 1000 (Some ''u-carla'') [one_item] full_db
            demo_chain)
     = Json \<lparr>distributed = [],
             errors = [\<lparr>error_email = ''alice@rete.it'',
                        error_text = ''Errore blockchain: integer out of range''\<rparr>]\<rparr>
   \<and> cachedBalance (fst (snd (distribute demo_gateway demo_lib demo_env 1000 (Some ''u-carla'')
                                  [one_item] full_db demo_chain))) ''u-alice''
     = Some 2147483647
   \<and> map tx_status (transactions (fst (snd (distribute demo_gateway demo_lib demo_env 1000
                                               (Some ''u-carla'') [one_item] full_db demo_chain))))
     = [Pending]
   \<and> map tx_txHash (transactions (fst (snd (distribute demo_gateway demo_lib demo_env 1000
                                               (Some ''u-carla'') [one_item] full_db demo_chain))))
     = [None]
   \<and> chain_balance (snd (snd (distribute demo_gateway demo_lib demo_env 1000 (Some ''u-carla'')
                                  [one_item] full_db demo_chain))) alice_address
     = chain_balance demo_chain alice_address + 10 ^ 18"
proof -
  have up: "chain_up demo_chain" "chain_owner demo_chain = carla_address"
    by (simp_all add: demo_chain_def)
  have x: "dist_amount one_item = js_of_int 1" "Fin 1 = js_of_int 1"
    by (simp_all add: one_item_def js_of_int_def)
  have mint: "mintWithSignature demo_gateway demo_lib demo_env demo_chain carla_address
                alice_address (Fin 1) 4600 27 ''0x11111111'' demo_token (Some demo_token)
              = (Inr \<lparr>mint_tx = ''0xf'', mint_block = 1, mint_to = alice_address,
                      mint_amount = 10 ^ 18, mint_signer = carla_address,
                      mint_deadline = 4600\<rparr>,
                 demo_minted demo_chain alice_address (10 ^ 18))"
    unfolding x(2)
    by (simp add: demo_mint_any[OF up]) (simp add: demo_mined_def demo_chain_def)
  have u: "getUser full_db ''u-carla'' = Some carla"
    by (simp add: getUser_def full_db_def demo_db_def alice_def bob_def carla_def)
  have c: "getCommunity full_db ''c1''
             = Some \<lparr>community_id = ''c1'', community_name = ''Rete Uno'',
                     community_tokenAddress = Some demo_token\<rparr>"
    by (simp add: getCommunity_def full_db_def demo_db_def)
  have w: "getDefaultWallet full_db (user_id carla) = Some carla_wallet"
    by (simp add: getDefaultWallet_def full_db_def demo_db_def demo_wallets_def carla_wallet_def
          carla_def)
  have p: "distributeTokensSchema_parse demo_lib [one_item] = Inr [one_item]"
    by (simp add: distributeTokensSchema_parse_def demo_lib_def one_item_def)
  have r: "user_role carla = Coordinator" "user_communityId carla = Some ''c1''"
    by (simp_all add: carla_def)
  have prep: "distribute_prepare demo_lib demo_env full_db ''u-carla'' [one_item]
                = Inr (carla, demo_token, carla_signer, [one_item])"
    by (simp add: distribute_prepare_def u c w p r demo_signer_carla) (simp add: demo_token_def)
  let ?A = "alice\<lparr>user_tokenBalance := 2147483647\<rparr>"
  have t: "getUserByEmail full_db (dist_email one_item) = Some ?A"
    by (simp add: getUserByEmail_def full_db_def one_item_def alice_def)
  have m: "user_communityId ?A = user_communityId carla"
    by (simp add: alice_def carla_def)
  let ?row = "\<lparr>tx_id = 0, tx_type = Receive, tx_amount = 1,
               tx_description = Some ''Distribuzione da Carla'',
               tx_status = Pending, tx_fromUserId = Some ''u-carla'',
               tx_toUserId = Some ''u-alice'', tx_productId = None,
               tx_communityId = Some ''c1'', tx_txHash = None\<rparr>"
  let ?d1 = "full_db\<lparr>transactions := [?row], nextId := 1\<rparr>"
  have cr: "createTransaction full_db
              \<lparr>ins_type = Receive, ins_amount = dist_amount one_item,
               ins_description = Some (''Distribuzione da '' @ user_name carla),
               ins_status = Pending, ins_fromUserId = Some (user_id carla),
               ins_toUserId = Some (user_id ?A), ins_productId = None,
               ins_communityId = user_communityId carla, ins_txHash = None\<rparr>
            = Inr (?row, ?d1)"
    by (simp add: createTransaction_def x(1) int4_input_of_int int4_range_def Let_def)
       (simp add: full_db_def demo_db_def carla_def alice_def)
  have sg: "distribute_sign demo_gateway demo_lib demo_env 1000 demo_chain carla_signer ?A
              one_item demo_token = Inr (auth_at 0 4600)"
    using demo_sign_any[OF up(1) x(1), of 1000 ?A] by (simp add: demo_chain_def)
  have mi: "mintWithSignature demo_gateway demo_lib demo_env demo_chain
              (signer_address carla_signer) (user_ethAddress ?A) (dist_amount one_item)
              (1000 + 3600) (auth_v (auth_at 0 4600)) (auth_r (auth_at 0 4600))
              (auth_s (auth_at 0 4600)) (Some demo_token)
            = (Inr \<lparr>mint_tx = ''0xf'', mint_block = 1, mint_to = alice_address,
                    mint_amount = 10 ^ 18, mint_signer = carla_address,
                    mint_deadline = 4600\<rparr>,
               demo_minted demo_chain alice_address (10 ^ 18))"
    using mint by (simp add: carla_signer_def alice_def one_item_def auth_at_def)
  have ov: "updateUserBalance ?d1 (user_id ?A) (dist_amount one_item)
              = Inl (Error ''integer out of range'')"
    by (simp add: updateUserBalance_def x(1) int4_input_of_int int4_range_def)
       (simp add: full_db_def demo_db_def alice_def bob_def carla_def paolo_def)
  have tr: "distribute_try demo_gateway demo_lib demo_env 1000 carla demo_token carla_signer
              one_item ?A full_db demo_chain
            = (Inl (Error ''integer out of range''), ?d1,
               demo_minted demo_chain alice_address (10 ^ 18))"
    unfolding distribute_try_def by (simp only: cr sg mi ov sum.case prod.case)
  have run: "distribute demo_gateway demo_lib demo_env 1000 (Some ''u-carla'') [one_item]
               full_db demo_chain
             = (Json \<lparr>distributed = [],
                      errors = [\<lparr>error_email = ''alice@rete.it'',
                                 error_text = ''Errore blockchain: integer out of range''\<rparr>]\<rparr>,
                ?d1, demo_minted demo_chain alice_address (10 ^ 18))"
    unfolding distribute_def requireAuth_def
    by (simp only: prep t m tr distribute_loop.simps option.case sum.case prod.case if_False
          refl if_True list.simps append_Nil)
       (simp add: one_item_def messageOr_def)
  have b: "cachedBalance full_db ''u-alice'' = Some 2147483647"
          "\<And>ts n. cachedBalance (full_db\<lparr>transactions := ts, nextId := n\<rparr>) ''u-alice''
                    = Some 2147483647"
    by (simp_all add: cachedBalance_def getUser_def full_db_def demo_db_def alice_def)
  show ?thesis
    by (simp add: mint run b) (simp add: demo_minted_def)
qed

section \<open>Batches of distributions\<close>

lemma loop_not_found:
  "getUserByEmail d (dist_email x) = None \<Longrightarrow>
   distribute_loop G L E now user ta sw (x # rest) results errs d ch
     = distribute_loop G L E now user ta sw rest results
         (errs @ [\<lparr>error_email = dist_email x, error_text = ''Utente non trovato''\<rparr>]) d ch"
  by simp

lemma loop_not_member:
  "getUserByEmail d (dist_email x) = Some A \<Longrightarrow> user_communityId A \<noteq> user_communityId user \<Longrightarrow>
   distribute_loop G L E now user ta sw (x # rest) results errs d ch
     = distribute_loop G L E now user ta sw rest results
         (errs @ [\<lparr>error_email = dist_email x,
                   error_text = ''Utente non appartiene alla comunita''\<rparr>]) d ch"
  by simp

lemma loop_chain_error:
  "getUserByEmail d (dist_email x) = Some A \<Longrightarrow> user_communityId A = user_communityId user \<Longrightarrow>
   distribute_try G L E now user ta sw x A d ch = (Inl e, d1, ch1) \<Longrightarrow>
   distribute_loop G L E now user ta sw (x # rest) results errs d ch
     = distribute_loop G L E now user ta sw rest results
         (errs @ [\<lparr>error_email = dist_email x,
                   error_text = ''Errore blockchain: '' @ messageOr e ''Mint fallito''\<rparr>]) d1 ch1"
  by simp

lemma loop_success:
  "getUserByEmail d (dist_email x) = Some A \<Longrightarrow> user_communityId A = user_communityId user \<Longrightarrow>
   distribute_try G L E now user ta sw x A d ch = (Inr entry, d1, ch1) \<Longrightarrow>
   distribute_loop G L E now user ta sw (x # rest) results errs d ch
     = distribute_loop G L E now user ta sw rest (results @ [entry]) errs d1 ch1"
  by simp







lemma demo_try_alice:
  "distribute_try demo_gateway demo_lib demo_env 1000 carla demo_token carla_signer
     \<lparr>dist_email = ''alice@rete.it'', dist_amount = Fin 100\<rparr> alice demo_db demo_chain
   = (Inr alice_entry, db_after_alice, chain_after_alice)"
proof -
  have up: "chain_up demo_chain" "chain_owner demo_chain = carla_address"
    by (simp_all add: demo_chain_def)
  have x: "dist_amount \<lparr>dist_email = ''alice@rete.it'', dist_amount = Fin 100\<rparr> = js_of_int 100"
          "int4_range 100"
    by (simp_all add: js_of_int_def int4_range_def)
  have f: "\<forall>u \<in> set (users demo_db). user_id u = user_id alice
             \<longrightarrow> int4_range (sint (user_tokenBalance u) + 100)"
    by (simp add: demo_db_def alice_def bob_def carla_def paolo_def int4_range_def)
  show ?thesis
    by (simp add: demo_try_any[OF up x f] alice_entry_def db_after_alice_def
          chain_after_alice_def)
       (simp add: alice_def demo_mined_def demo_chain_def)
qed



section \<open>Completed transactions carry a hash\<close>

lemma hash_createTransaction:
  assumes "completed_have_hash d"
      and "ins_status ins = Completed \<longrightarrow> ins_txHash ins \<noteq> None"
      and "createTransaction d ins = Inr (row, d1)"
  shows "completed_have_hash d1"
  using assms
  by (auto simp: completed_have_hash_def createTransaction_def Let_def split: sum.splits)

lemma hash_updateUserBalance:
  "updateUserBalance d i x = Inr d' \<Longrightarrow> completed_have_hash d' = completed_have_hash d"
  by (auto simp: completed_have_hash_def dest!: updateUserBalance_Inr)

lemma hash_updateTransactionStatus:
  "completed_have_hash d \<Longrightarrow> completed_have_hash (updateTransactionStatus d i st (Some h))"
  by (auto simp: completed_have_hash_def updateTransactionStatus_def list_all_iff)

lemma hash_distribute_try:
  assumes "completed_have_hash d"
      and "distribute_try G L E now user ta sw item target d ch = (r, d', ch')"
  shows "completed_have_hash d'"
proof (cases "createTransaction d
             \<lparr>ins_type = Receive, ins_amount = dist_amount item,
              ins_description = Some (''Distribuzione da '' @ user_name user),
              ins_status = Pending, ins_fromUserId = Some (user_id user),
              ins_toUserId = Some (user_id target), ins_productId = None,
              ins_communityId = user_communityId user, ins_txHash = None\<rparr>")
  case (Inl e)
  with assms show ?thesis by (simp add: distribute_try_def)
next
  case (Inr p)
  obtain row d1 where p: "p = (row, d1)" by (cases p)
  have h1: "completed_have_hash d1"
    by (rule hash_createTransaction[OF assms(1) _ Inr[unfolded p]]) simp
  show ?thesis
    using assms(2) h1 Inr[unfolded p]
    by (auto simp: distribute_try_def Let_def hash_updateUserBalance
          hash_updateTransactionStatus split: sum.splits prod.splits)
qed

lemma hash_distribute_loop:
  assumes "completed_have_hash d"
      and "distribute_loop G L E now user ta sw items results errs d ch = (r, d', ch')"
  shows "completed_have_hash d'"
  using assms
proof (induction items arbitrary: results errs d ch)
  case Nil
  then show ?case by simp
next
  case (Cons item rest)
  show ?case
  proof (cases "getUserByEmail d (dist_email item)")
    case None
    with Cons.prems Cons.IH[OF Cons.prems(1)] show ?thesis by simp
  next
    case (Some target)
    show ?thesis
    proof (cases "user_communityId target \<noteq> user_communityId user")
      case True
      with Some Cons.prems Cons.IH[OF Cons.prems(1)] show ?thesis by simp
    next
      case False
      obtain o1 d1 ch1 where t: "distribute_try G L E now user ta sw item target d ch = (o1, d1, ch1)"
        by (meson prod_cases3)
      have h: "completed_have_hash d1"
        by (rule hash_distribute_try[OF Cons.prems(1) t])
      from Cons.prems(2) Some False t Cons.IH[OF h] show ?thesis
        by (cases o1) auto
    qed
  qed
qed

lemma hash_distribute:
  assumes "completed_have_hash d"
      and "distribute G L E now session body d ch = (r, d', ch')"
  shows "completed_have_hash d'"
  using assms hash_distribute_loop[OF assms(1)]
  by (auto simp: distribute_def requireAuth_def split: option.splits if_splits sum.splits prod.splits)

lemma hash_burn_settle:
  assumes "completed_have_hash d"
      and s: "burn_settle G L E now body user ta bf sw d ch = (r, d', ch')"
  shows "completed_have_hash d'"
proof (cases "createTransaction d
             \<lparr>ins_type = Burn, ins_amount = body_burnAmount body,
              ins_description = orElse (body_description body) (Some ''Burn token''),
              ins_status = Pending, ins_fromUserId = Some (user_id bf),
              ins_toUserId = None, ins_productId = None,
              ins_communityId = user_communityId user, ins_txHash = None\<rparr>")
  case (Inl e)
  with assms show ?thesis by (simp add: burn_settle_def)
next
  case (Inr p)
  obtain row d1 where p: "p = (row, d1)" by (cases p)
  have h1: "completed_have_hash d1"
    by (rule hash_createTransaction[OF assms(1) _ Inr[unfolded p]]) simp
  show ?thesis
    using s h1 Inr[unfolded p]
    by (auto simp: burn_settle_def Let_def hash_updateUserBalance
          hash_updateTransactionStatus split: sum.splits prod.splits)
qed

lemma hash_burn:
  assumes "completed_have_hash d"
      and "burn G L E now session body d ch = (r, d', ch')"
  shows "completed_have_hash d'"
  using assms hash_burn_settle[OF assms(1)]
  by (auto simp: burn_def requireAuth_def split: option.splits if_splits sum.splits prod.splits)

lemma hash_burnAll_try:
  assumes "completed_have_hash d"
      and "burnAll_try G L E now user ta sw cfg b d ch = (r, d', ch')"
  shows "completed_have_hash d'"
proof (cases "createTransaction d
             \<lparr>ins_type = Burn, ins_amount = js_of_int (bal_tokenBalance b),
              ins_description = Some (''Burn completo - '' @ bal_name b),
              ins_status = Pending, ins_fromUserId = Some (bal_id b),
              ins_toUserId = Some (user_id user), ins_productId = None,
              ins_communityId = user_communityId user, ins_txHash = None\<rparr>")
  case (Inl e)
  with assms show ?thesis by (simp add: burnAll_try_def)
next
  case (Inr p)
  obtain row d1 where p: "p = (row, d1)" by (cases p)
  have h1: "completed_have_hash d1"
    by (rule hash_createTransaction[OF assms(1) _ Inr[unfolded p]]) simp
  show ?thesis
    using assms(2) h1 Inr[unfolded p]
    by (auto simp: burnAll_try_def Let_def hash_updateUserBalance
          hash_updateTransactionStatus split: sum.splits prod.splits if_splits)
qed

lemma hash_burnAll_loop:
  assumes "completed_have_hash d"
      and "burnAll_loop G L E now user ta sw cfg bs acc d ch = (r, d', ch')"
  shows "completed_have_hash d'"
  using assms
proof (induction bs arbitrary: acc d ch)
  case Nil
  then show ?case by simp
next
  case (Cons b rest)
  show ?case
  proof (cases "0 < bal_tokenBalance b")
    case False
    with Cons.prems Cons.IH[OF Cons.prems(1)] show ?thesis by simp
  next
    case True
    obtain o1 d1 ch1 where t: "burnAll_try G L E now user ta sw cfg b d ch = (o1, d1, ch1)"
      by (meson prod_cases3)
    have h: "completed_have_hash d1"
      by (rule hash_burnAll_try[OF Cons.prems(1) t])
    from Cons.prems(2) True t Cons.IH[OF h] show ?thesis
      by (cases o1) auto
  qed
qed

lemma hash_burnAll:
  assumes "completed_have_hash d"
      and "burnAll G L E now session d ch = (r, d', ch')"
  shows "completed_have_hash d'"
  using assms hash_burnAll_loop[OF assms(1)]
  by (auto simp: burnAll_def requireAuth_def split: option.splits if_splits sum.splits prod.splits)

lemma hash_transfer_settle:
  assumes "completed_have_hash d"
      and s: "transfer_settle G L E now body c d ch = (r, d', ch')"
  shows "completed_have_hash d'"
  using s assms(1)
  by (auto simp: transfer_settle_def Let_def hash_updateUserBalance
        split: sum.splits prod.splits
        dest!: hash_createTransaction[rotated 2])

lemma hash_transfer:
  assumes "completed_have_hash d"
      and "transfer G L E now session body d ch = (r, d', ch')"
  shows "completed_have_hash d'"
  using assms hash_transfer_settle[OF assms(1)]
  by (auto simp: transfer_def requireAuth_def split: option.splits if_splits sum.splits)

lemma hash_purchase_settle:
  assumes "completed_have_hash d"
      and s: "purchase_settle G L E now c d ch = (r, d', ch')"
  shows "completed_have_hash d'"
proof (cases "createTransaction d
             \<lparr>ins_type = Purchase, ins_amount = js_of_int4 (product_price (ctx_product c)),
              ins_description = Some (''Acquisto: '' @ product_name (ctx_product c)),
              ins_status = Pending, ins_fromUserId = Some (user_id (ctx_buyer c)),
              ins_toUserId = Some (product_providerId (ctx_product c)),
              ins_productId = Some (product_id (ctx_product c)),
              ins_communityId = Some (ctx_buyerCommunityId c), ins_txHash = None\<rparr>")
  case (Inl e)
  with assms show ?thesis by (simp add: purchase_settle_def)
next
  case (Inr p)
  obtain row d1 where p: "p = (row, d1)" by (cases p)
  have h1: "completed_have_hash d1"
    by (rule hash_createTransaction[OF assms(1) _ Inr[unfolded p]]) simp
  show ?thesis
    using s h1 Inr[unfolded p]
    by (auto simp: purchase_settle_def Let_def hash_updateUserBalance
          hash_updateTransactionStatus split: sum.splits prod.splits)
qed

lemma hash_purchase:
  assumes "completed_have_hash d"
      and "purchase G L E now session productId d ch = (r, d', ch')"
  shows "completed_have_hash d'"
  using assms hash_purchase_settle[OF assms(1)]
  by (auto simp: purchase_def requireAuth_def split: option.splits if_splits sum.splits)

text \<open>
  Claim C2 (amended). In every store reachable, from a store without transactions, through
  the five settlement routes (distribute, burn, burn-all, transfer, purchase), interleaved
  with any change to the other tables and to the chain, each completed transaction carries
  a chain hash. The routes only complete a transaction together with the hash of the chain
  transaction they have just sent.
\<close>

theorem completed_have_hash_routes:
  assumes "reachable G L E d ch"
  shows "completed_have_hash d"
  using assms
proof (induction rule: reachable.induct)
  case (init d ch)
  then show ?case by (simp add: completed_have_hash_def)
next
  case (other d ch d' ch')
  then show ?case by (simp add: completed_have_hash_def)
next
  case (by_distribute d ch now session body r d' ch')
  then show ?case by (blast intro: hash_distribute)
next
  case (by_burn d ch now session burnBody rb d' ch')
  then show ?case by (blast intro: hash_burn)
next
  case (by_burnAll d ch now session ra d' ch')
  then show ?case by (blast intro: hash_burnAll)
next
  case (by_transfer d ch now session transferBody rt d' ch')
  then show ?case by (blast intro: hash_transfer)
next
  case (by_purchase d ch now session productId rp d' ch')
  then show ?case by (blast intro: hash_purchase)
qed

lemma demo_distribute_run:
  "distribute demo_gateway demo_lib demo_env 1000 (Some ''u-carla'') [demo_item] demo_db
     demo_chain
   = (Json \<lparr>distributed = [alice_entry], errors = []\<rparr>, db_after_alice, chain_after_alice)"
proof -
  have t: "getUserByEmail demo_db ''alice@rete.it'' = Some alice"
    by (simp add: getUserByEmail_def demo_db_def alice_def)
  have c: "user_communityId alice = user_communityId carla"
    by (simp add: alice_def carla_def)
  show ?thesis
    by (simp add: distribute_def requireAuth_def demo_prepare)
       (simp add: demo_item_def t c demo_try_alice)
qed

lemma demo_balances:
  "getCommunityBalances demo_db ''c1''
     = [balanceRecord alice 300, balanceRecord carla 150]"
  by (simp add: getCommunityBalances_def allBalances_def providersWithSales_def
        providerBurns_def communityUsers_def demo_db_def)
     (simp add: alice_def bob_def carla_def paolo_def balanceRecord_def)

theorem completed_have_hash_routes_witness:
  "reachable demo_gateway demo_lib demo_env db_after_alice chain_after_alice
   \<and> completed_have_hash db_after_alice
   \<and> map tx_status (transactions db_after_alice) = [Completed]
   \<and> map tx_txHash (transactions db_after_alice) = [Some ''0xf'']"
proof -
  have "reachable demo_gateway demo_lib demo_env demo_db demo_chain"
    by (rule reachable.init) (simp add: demo_db_def)
  then have r: "reachable demo_gateway demo_lib demo_env db_after_alice chain_after_alice"
    by (rule reachable.by_distribute[OF _ demo_distribute_run])
  have t: "map tx_status (transactions db_after_alice) = [Completed]"
          "map tx_txHash (transactions db_after_alice) = [Some ''0xf'']"
    by (simp_all add: db_after_alice_def settled_distribution_def updateTransactionStatus_def
          demo_db_def)
  from completed_have_hash_routes[OF r] r t show ?thesis by blast
qed

text \<open>
  The mutators of the store do not keep the invariant on their own:
  \<open>burnAllCommunityTokens\<close> inserts completed transactions without a hash, and
  \<open>updateTransactionStatus\<close> called without a hash completes a pending transaction and
  leaves its hash empty.
\<close>

theorem storage_mutators_counterexample:
  "transactions demo_db = []
   \<and> fst (burnAllCommunityTokens demo_db ''c1'' ''u-carla'') = Inr (450, 2)
   \<and> map tx_status (transactions (snd (burnAllCommunityTokens demo_db ''c1'' ''u-carla'')))
       = [Completed, Completed]
   \<and> map tx_txHash (transactions (snd (burnAllCommunityTokens demo_db ''c1'' ''u-carla'')))
       = [None, None]
   \<and> \<not> completed_have_hash (snd (burnAllCommunityTokens demo_db ''c1'' ''u-carla''))
   \<and> completed_have_hash (demo_db\<lparr>transactions := [demo_pending_purchase]\<rparr>)
   \<and> \<not> completed_have_hash
         (updateTransactionStatus (demo_db\<lparr>transactions := [demo_pending_purchase]\<rparr>) 0
            Completed None)"
proof -
  have a: "transactions demo_db = []" "nextId demo_db = 0"
    by (simp_all add: demo_db_def)
  have i: "int4_input (js_of_int 300) = Inr 300" "int4_input (js_of_int 150) = Inr 150"
    by (simp_all add: int4_input_of_int int4_range_def)
  have b: "burnAllCommunityTokens demo_db ''c1'' ''u-carla''
             = (Inr (450, 2),
                demo_db\<lparr>users := [alice\<lparr>user_tokenBalance := 0\<rparr>, bob,
                                  carla\<lparr>user_tokenBalance := 0\<rparr>, paolo],
                  transactions :=
                [\<lparr>tx_id = 0, tx_type = Burn, tx_amount = 300,
                 tx_description = Some ''Burn completo - Alice'', tx_status = Completed,
                 tx_fromUserId = Some ''u-alice'', tx_toUserId = Some ''u-carla'',
                 tx_productId = None, tx_communityId = Some ''c1'', tx_txHash = None\<rparr>,
                \<lparr>tx_id = 1, tx_type = Burn, tx_amount = 150,
                 tx_description = Some ''Burn completo - Carla'', tx_status = Completed,
                 tx_fromUserId = Some ''u-carla'', tx_toUserId = Some ''u-carla'',
                 tx_productId = None, tx_communityId = Some ''c1'', tx_txHash = None\<rparr>],
                  nextId := 2\<rparr>)"
    by (simp add: burnAllCommunityTokens_def demo_balances balanceRecord_def
          createTransaction_def Let_def a i)
       (simp add: demo_db_def alice_def bob_def carla_def paolo_def)
  show ?thesis
    by (simp add: a b completed_have_hash_def updateTransactionStatus_def)
       (simp add: demo_pending_purchase_def)
qed

section \<open>The ledger and the chain after a transfer\<close>

lemma js_of_int_inject: "js_of_int a = js_of_int b \<longleftrightarrow> a = b"
  by (simp add: js_of_int_def)

lemma js_neg_of_int: "js_neg (js_of_int a) = js_of_int (- a)"
  by (simp add: js_of_int_def)

lemma cachedBalance_updateUserBalance:
  assumes "updateUserBalance d i (js_of_int X) = Inr d'"
  shows "cachedBalance d' j = map_option (\<lambda>b. if j = i then b + X else b) (cachedBalance d j)"
proof -
  from updateUserBalance_Inr[OF assms] obtain a where
      a: "int4_input (js_of_int X) = Inr a"
  and f: "\<forall>u \<in> set (users d). user_id u = i
             \<longrightarrow> int4_range (sint (user_tokenBalance u) + sint a)"
  and d': "d' = d\<lparr>users := map (\<lambda>u. if user_id u = i
                                     then u\<lparr>user_tokenBalance := user_tokenBalance u + a\<rparr>
                                     else u) (users d)\<rparr>"
    by blast
  from a have x: "X = sint a" by (simp add: int4_input_Inr js_of_int_inject)
  show ?thesis unfolding d' x by (simp add: cachedBalance_updated[OF f])
qed

lemma updateUserBalance_integer:
  assumes "updateUserBalance d i x = Inr d'"
  shows "\<exists>X. x = js_of_int X \<and> int4_range X"
  using updateUserBalance_Inr[OF assms] int4_range_sint by (auto simp: int4_input_Inr)

lemma cachedBalance_createTransaction:
  "createTransaction d ins = Inr (row, d') \<Longrightarrow> cachedBalance d' i = cachedBalance d i"
  by (auto dest!: createTransaction_Inr simp: cachedBalance_def getUser_def)

lemma permitFlow_amounts:
  assumes "permitFlow G L E now ch sw adminAddress amount payee ta = (Inr tr, ch')"
  shows "\<exists>config amountWei token admin ch1 allowance rc.
           getTokenConfig G E ch (Some ta) = Inr config
         \<and> parseAmount L amount (config_decimals config) = Inr amountWei
         \<and> getAdminWallet L E = Inr admin
         \<and> c_allowance G ch1 token (signer_address sw) (signer_address admin) = Inr allowance
         \<and> c_transferFrom G ch1 token (signer_address sw) payee (transfer_sent tr) = (Inr rc, ch')
         \<and> transfer_sent tr = min amountWei allowance
         \<and> (allowance < amountWei \<longrightarrow>
               transfer_sent tr = allowance \<and> 0 < amountWei - transfer_sent tr)"
proof -
  from permitFlow_success[OF assms] obtain config amountWei token admin ch1 allowance rc
    where h: "getTokenConfig G E ch (Some ta) = Inr config"
             "parseAmount L amount (config_decimals config) = Inr amountWei"
             "getAdminWallet L E = Inr admin"
             "c_allowance G ch1 token (signer_address sw) (signer_address admin) = Inr allowance"
             "c_transferFrom G ch1 token (signer_address sw) payee (min amountWei allowance)
                = (Inr rc, ch')"
             "transfer_sent tr = min amountWei allowance"
    by blast
  have "allowance < amountWei \<longrightarrow> transfer_sent tr = allowance \<and> 0 < amountWei - transfer_sent tr"
    using h(6) by auto
  with h show ?thesis by (metis (no_types))
qed

lemma transfer_prepare_positive:
  assumes "transfer_prepare L E d uid body = Inr c" and "body_amount body = js_of_int a"
  shows "0 < a"
  using assms
  by (auto simp: transfer_prepare_def js_of_int_def split: option.splits if_splits sum.splits)

lemma transfer_success:
  assumes auth: "uid \<noteq> []"
      and prep: "transfer_prepare L E d uid body = Inr c"
      and flow: "permitFlow G L E now ch (ctx_signerWallet c) (ctx_adminAddress c)
                   (body_amount body) (user_ethAddress (ctx_recipient c)) (ctx_tokenAddress c)
                 = (Inr tr, ch')"
      and debit: "updateUserBalance d (user_id (ctx_sender c)) (js_neg (body_amount body))
                    = Inr d1"
      and credit: "updateUserBalance d1 (user_id (ctx_recipient c)) (body_amount body) = Inr d2"
  shows "\<exists>a d'. body_amount body = js_of_int a \<and> 0 < a
           \<and> transfer G L E now (Some uid) body d ch
               = (Json \<lparr>transferred_success = True, transferred = body_amount body,
                        transferred_txHash = transfer_transferTx tr,
                        transferred_to = user_name (ctx_recipient c)\<rparr>, d', ch')
           \<and> (\<forall>i. cachedBalance d' i
                     = map_option (\<lambda>b. b - (if i = user_id (ctx_sender c) then a else 0)
                                         + (if i = user_id (ctx_recipient c) then a else 0))
                         (cachedBalance d i))"
proof -
  from updateUserBalance_integer[OF credit] obtain a where
    a: "body_amount body = js_of_int a" "int4_range a" by blast
  have pos: "0 < a" by (rule transfer_prepare_positive[OF prep a(1)])
  let ?ins = "\<lparr>ins_type = Send, ins_amount = body_amount body,
               ins_description =
                 orElse (body_note body) (Some (''Trasferimento a '' @ user_name (ctx_recipient c))),
               ins_status = Completed, ins_fromUserId = Some (user_id (ctx_sender c)),
               ins_toUserId = Some (user_id (ctx_recipient c)), ins_productId = None,
               ins_communityId = Some (ctx_communityId c),
               ins_txHash = Some (transfer_transferTx tr)\<rparr>"
  have inp: "int4_input (ins_amount ?ins) = Inr (word_of_int a)"
    by (simp add: a int4_input_of_int)
  note cr = createTransaction_ok[of ?ins "word_of_int a" d2, OF inp]
  obtain row d' where c3: "createTransaction d2 ?ins = Inr (row, d')"
    using cr by blast
  have run: "transfer G L E now (Some uid) body d ch
               = (Json \<lparr>transferred_success = True, transferred = body_amount body,
                        transferred_txHash = transfer_transferTx tr,
                        transferred_to = user_name (ctx_recipient c)\<rparr>, d', ch')"
    unfolding transfer_def requireAuth_def transfer_settle_def
    by (simp only: option.case auth if_False prep sum.case flow prod.case debit credit c3)
  have b1: "cachedBalance d1 i
              = map_option (\<lambda>b. if i = user_id (ctx_sender c) then b + (- a) else b)
                  (cachedBalance d i)" for i
    using debit unfolding a(1) js_neg_of_int by (rule cachedBalance_updateUserBalance)
  have b2: "cachedBalance d2 i
              = map_option (\<lambda>b. if i = user_id (ctx_recipient c) then b + a else b)
                  (cachedBalance d1 i)" for i
    using credit unfolding a(1) by (rule cachedBalance_updateUserBalance)
  have b3: "cachedBalance d' i = cachedBalance d2 i" for i
    by (rule cachedBalance_createTransaction[OF c3])
  have "cachedBalance d' i
          = map_option (\<lambda>b. b - (if i = user_id (ctx_sender c) then a else 0)
                              + (if i = user_id (ctx_recipient c) then a else 0))
              (cachedBalance d i)" for i
    by (cases "cachedBalance d i") (simp_all add: b1 b2 b3)
  with a(1) pos run show ?thesis by blast
qed

lemma purchase_success:
  assumes auth: "uid \<noteq> []"
      and prep: "purchase_prepare L E d uid productId = Inr c"
      and flow: "permitFlow G L E now ch (ctx_buyerSigner c) (ctx_purchaseAdmin c)
                   (js_of_int4 (product_price (ctx_product c)))
                   (wallet_address (ctx_providerWallet c)) (ctx_purchaseToken c)
                 = (Inr tr, ch')"
      and debit: "updateUserBalance
                    (d\<lparr>transactions := transactions d @
                         [\<lparr>tx_id = nextId d, tx_type = Purchase,
                           tx_amount = product_price (ctx_product c),
                           tx_description = Some (''Acquisto: '' @ product_name (ctx_product c)),
                           tx_status = Pending, tx_fromUserId = Some (user_id (ctx_buyer c)),
                           tx_toUserId = Some (product_providerId (ctx_product c)),
                           tx_productId = Some (product_id (ctx_product c)),
                           tx_communityId = Some (ctx_buyerCommunityId c), tx_txHash = None\<rparr>],
                       nextId := Suc (nextId d)\<rparr>)
                    (user_id (ctx_buyer c)) (js_neg (js_of_int4 (product_price (ctx_product c))))
                  = Inr d2"
      and credit: "updateUserBalance d2 (user_id (ctx_provider c))
                     (js_of_int4 (product_price (ctx_product c))) = Inr d3"
  shows "\<exists>d' r. purchase G L E now (Some uid) productId d ch = (Json r, d', ch')
           \<and> purchase_txHash r = transfer_transferTx tr
           \<and> (\<forall>i. cachedBalance d' i
                     = map_option
                         (\<lambda>b. b - (if i = user_id (ctx_buyer c)
                                    then sint (product_price (ctx_product c)) else 0)
                                + (if i = user_id (ctx_provider c)
                                   then sint (product_price (ctx_product c)) else 0))
                         (cachedBalance d i))"
proof -
  let ?p = "sint (product_price (ctx_product c))"
  let ?ins = "\<lparr>ins_type = Purchase, ins_amount = js_of_int4 (product_price (ctx_product c)),
               ins_description = Some (''Acquisto: '' @ product_name (ctx_product c)),
               ins_status = Pending, ins_fromUserId = Some (user_id (ctx_buyer c)),
               ins_toUserId = Some (product_providerId (ctx_product c)),
               ins_productId = Some (product_id (ctx_product c)),
               ins_communityId = Some (ctx_buyerCommunityId c), ins_txHash = None\<rparr>"
  let ?row = "\<lparr>tx_id = nextId d, tx_type = Purchase,
               tx_amount = product_price (ctx_product c),
               tx_description = Some (''Acquisto: '' @ product_name (ctx_product c)),
               tx_status = Pending, tx_fromUserId = Some (user_id (ctx_buyer c)),
               tx_toUserId = Some (product_providerId (ctx_product c)),
               tx_productId = Some (product_id (ctx_product c)),
               tx_communityId = Some (ctx_buyerCommunityId c), tx_txHash = None\<rparr>"
  let ?d1 = "d\<lparr>transactions := transactions d @ [?row], nextId := Suc (nextId d)\<rparr>"
  have inp: "int4_input (ins_amount ?ins) = Inr (product_price (ctx_product c))"
    by (simp add: int4_input_of_int4)
  have c1: "createTransaction d ?ins = Inr (?row, ?d1)"
    using createTransaction_ok[of ?ins "product_price (ctx_product c)" d, OF inp] by simp
  let ?d' = "updateTransactionStatus d3 (tx_id ?row) Completed (Some (transfer_transferTx tr))"
  have run: "purchase G L E now (Some uid) productId d ch
               = (Json \<lparr>purchase_success = True,
                        purchase_newBalance = cachedBalance ?d' (user_id (ctx_buyer c)),
                        purchase_product = product_name (ctx_product c),
                        purchase_txHash = transfer_transferTx tr\<rparr>, ?d', ch')"
    unfolding purchase_def requireAuth_def purchase_settle_def
    by (simp only: option.case auth if_False prep sum.case c1 flow prod.case debit credit Let_def)
  have b0: "cachedBalance (d\<lparr>transactions := ts, nextId := n\<rparr>) i = cachedBalance d i" for i ts n
    by (simp add: cachedBalance_def getUser_def)
  have b1: "cachedBalance d2 i
              = map_option (\<lambda>b. if i = user_id (ctx_buyer c) then b + (- ?p) else b)
                  (cachedBalance ?d1 i)" for i
    using debit unfolding js_of_int4_def js_neg_of_int by (rule cachedBalance_updateUserBalance)
  have b2: "cachedBalance d3 i
              = map_option (\<lambda>b. if i = user_id (ctx_provider c) then b + ?p else b)
                  (cachedBalance d2 i)" for i
    using credit unfolding js_of_int4_def by (rule cachedBalance_updateUserBalance)
  have b3: "cachedBalance (updateTransactionStatus d3 k st h) i = cachedBalance d3 i" for i k st h
    by (rule cachedBalance_users) (simp add: updateTransactionStatus_def)
  have "cachedBalance ?d' i
          = map_option (\<lambda>b. b - (if i = user_id (ctx_buyer c) then ?p else 0)
                              + (if i = user_id (ctx_provider c) then ?p else 0))
              (cachedBalance d i)" for i
    by (cases "cachedBalance d i") (simp_all add: b0 b1 b2 b3)
  with run show ?thesis by auto
qed

lemma updateUserBalance_frame:
  assumes "users d0 = users d" and "updateUserBalance d i x = Inr d'"
  shows "\<exists>d0'. updateUserBalance d0 i x = Inr d0' \<and> users d0' = users d'"
proof -
  from updateUserBalance_Inr[OF assms(2)] obtain a where
      a: "int4_input x = Inr a"
  and f: "\<forall>u \<in> set (users d). user_id u = i
             \<longrightarrow> int4_range (sint (user_tokenBalance u) + sint a)"
  and d': "d' = d\<lparr>users := map (\<lambda>u. if user_id u = i
                                     then u\<lparr>user_tokenBalance := user_tokenBalance u + a\<rparr>
                                     else u) (users d)\<rparr>"
    by blast
  from f have f0: "\<forall>u \<in> set (users d0). user_id u = i
             \<longrightarrow> int4_range (sint (user_tokenBalance u) + sint a)"
    by (simp add: assms(1))
  from updateUserBalance_ok[OF a f0] show ?thesis
    by (simp add: d' assms(1))
qed

text \<open>
  Claim C10 (amended). A transfer or a purchase passes its checks, its chain steps return
  and the database accepts the two balance updates, the debit of the payer and then the
  credit of the payee. Then the request is answered with success and the cached ledger has
  moved the full requested amount (the product's price for a purchase), an integer, from
  the payer to the payee, whatever was sent on chain. The amount handed to
  \<^verbatim>\<open>transferFrom\<close> is the smaller of the scaled amount and the allowance read back after
  the permit; when that allowance is below the scaled amount, the chain moves only the
  allowance and the ledger is ahead of the chain by the positive difference.
\<close>

theorem ledger_moves_full_amount:
  assumes auth: "uid \<noteq> []"
  shows "(transfer_prepare L E d uid body = Inr c
          \<and> permitFlow G L E now ch (ctx_signerWallet c) (ctx_adminAddress c)
                (body_amount body) (user_ethAddress (ctx_recipient c)) (ctx_tokenAddress c)
              = (Inr tr, ch')
          \<and> updateUserBalance d (user_id (ctx_sender c)) (js_neg (body_amount body)) = Inr d1
          \<and> updateUserBalance d1 (user_id (ctx_recipient c)) (body_amount body) = Inr d2
        \<longrightarrow> (\<exists>a d' r. body_amount body = js_of_int a \<and> 0 < a
                \<and> transfer G L E now (Some uid) body d ch = (Json r, d', ch')
                \<and> transferred r = body_amount body
                \<and> (\<forall>i. cachedBalance d' i
                          = map_option
                              (\<lambda>b. b - (if i = user_id (ctx_sender c) then a else 0)
                                     + (if i = user_id (ctx_recipient c) then a else 0))
                              (cachedBalance d i)))
          \<and> (\<exists>config amountWei token admin ch1 allowance rc.
                getTokenConfig G E ch (Some (ctx_tokenAddress c)) = Inr config
              \<and> parseAmount L (body_amount body) (config_decimals config) = Inr amountWei
              \<and> getAdminWallet L E = Inr admin
              \<and> c_allowance G ch1 token (signer_address (ctx_signerWallet c))
                    (signer_address admin) = Inr allowance
              \<and> c_transferFrom G ch1 token (signer_address (ctx_signerWallet c))
                    (user_ethAddress (ctx_recipient c)) (transfer_sent tr) = (Inr rc, ch')
              \<and> transfer_sent tr = min amountWei allowance
              \<and> (allowance < amountWei \<longrightarrow>
                    transfer_sent tr = allowance \<and> 0 < amountWei - transfer_sent tr)))
       \<and> (purchase_prepare L E d uid productId = Inr c2
          \<and> permitFlow G L E now ch (ctx_buyerSigner c2) (ctx_purchaseAdmin c2)
                (js_of_int4 (product_price (ctx_product c2)))
                (wallet_address (ctx_providerWallet c2)) (ctx_purchaseToken c2)
              = (Inr tr2, ch2)
          \<and> updateUserBalance d (user_id (ctx_buyer c2))
                (js_neg (js_of_int4 (product_price (ctx_product c2)))) = Inr e1
          \<and> updateUserBalance e1 (user_id (ctx_provider c2))
                (js_of_int4 (product_price (ctx_product c2))) = Inr e2
        \<longrightarrow> (\<exists>d' r. purchase G L E now (Some uid) productId d ch = (Json r, d', ch2)
                \<and> (\<forall>i. cachedBalance d' i
                          = map_option
                              (\<lambda>b. b - (if i = user_id (ctx_buyer c2)
                                         then sint (product_price (ctx_product c2)) else 0)
                                     + (if i = user_id (ctx_provider c2)
                                        then sint (product_price (ctx_product c2)) else 0))
                              (cachedBalance d i)))
          \<and> (\<exists>config amountWei token admin ch1 allowance rc.
                getTokenConfig G E ch (Some (ctx_purchaseToken c2)) = Inr config
              \<and> parseAmount L (js_of_int4 (product_price (ctx_product c2)))
                    (config_decimals config) = Inr amountWei
              \<and> getAdminWallet L E = Inr admin
              \<and> c_allowance G ch1 token (signer_address (ctx_buyerSigner c2))
                    (signer_address admin) = Inr allowance
              \<and> c_transferFrom G ch1 token (signer_address (ctx_buyerSigner c2))
                    (wallet_address (ctx_providerWallet c2)) (transfer_sent tr2) = (Inr rc, ch2)
              \<and> transfer_sent tr2 = min amountWei allowance
              \<and> (allowance < amountWei \<longrightarrow>
                    transfer_sent tr2 = allowance \<and> 0 < amountWei - transfer_sent tr2)))"
proof (intro conjI impI)
  assume h: "transfer_prepare L E d uid body = Inr c
          \<and> permitFlow G L E now ch (ctx_signerWallet c) (ctx_adminAddress c)
                (body_amount body) (user_ethAddress (ctx_recipient c)) (ctx_tokenAddress c)
              = (Inr tr, ch')
          \<and> updateUserBalance d (user_id (ctx_sender c)) (js_neg (body_amount body)) = Inr d1
          \<and> updateUserBalance d1 (user_id (ctx_recipient c)) (body_amount body) = Inr d2"
  then have prep: "transfer_prepare L E d uid body = Inr c"
    and flow: "permitFlow G L E now ch (ctx_signerWallet c) (ctx_adminAddress c)
                (body_amount body) (user_ethAddress (ctx_recipient c)) (ctx_tokenAddress c)
              = (Inr tr, ch')"
    and debit: "updateUserBalance d (user_id (ctx_sender c)) (js_neg (body_amount body)) = Inr d1"
    and credit: "updateUserBalance d1 (user_id (ctx_recipient c)) (body_amount body) = Inr d2"
    by blast+
  from transfer_success[OF auth prep flow debit credit]
  show "\<exists>a d' r. body_amount body = js_of_int a \<and> 0 < a
                \<and> transfer G L E now (Some uid) body d ch = (Json r, d', ch')
                \<and> transferred r = body_amount body
                \<and> (\<forall>i. cachedBalance d' i
                          = map_option
                              (\<lambda>b. b - (if i = user_id (ctx_sender c) then a else 0)
                                     + (if i = user_id (ctx_recipient c) then a else 0))
                              (cachedBalance d i))"
    by force
  from permitFlow_amounts[OF flow]
  show "\<exists>config amountWei token admin ch1 allowance rc.
                getTokenConfig G E ch (Some (ctx_tokenAddress c)) = Inr config
              \<and> parseAmount L (body_amount body) (config_decimals config) = Inr amountWei
              \<and> getAdminWallet L E = Inr admin
              \<and> c_allowance G ch1 token (signer_address (ctx_signerWallet c))
                    (signer_address admin) = Inr allowance
              \<and> c_transferFrom G ch1 token (signer_address (ctx_signerWallet c))
                    (user_ethAddress (ctx_recipient c)) (transfer_sent tr) = (Inr rc, ch')
              \<and> transfer_sent tr = min amountWei allowance
              \<and> (allowance < amountWei \<longrightarrow>
                    transfer_sent tr = allowance \<and> 0 < amountWei - transfer_sent tr)" .
next
  assume h: "purchase_prepare L E d uid productId = Inr c2
          \<and> permitFlow G L E now ch (ctx_buyerSigner c2) (ctx_purchaseAdmin c2)
                (js_of_int4 (product_price (ctx_product c2)))
                (wallet_address (ctx_providerWallet c2)) (ctx_purchaseToken c2)
              = (Inr tr2, ch2)
          \<and> updateUserBalance d (user_id (ctx_buyer c2))
                (js_neg (js_of_int4 (product_price (ctx_product c2)))) = Inr e1
          \<and> updateUserBalance e1 (user_id (ctx_provider c2))
                (js_of_int4 (product_price (ctx_product c2))) = Inr e2"
  then have prep: "purchase_prepare L E d uid productId = Inr c2"
    and flow: "permitFlow G L E now ch (ctx_buyerSigner c2) (ctx_purchaseAdmin c2)
                (js_of_int4 (product_price (ctx_product c2)))
                (wallet_address (ctx_providerWallet c2)) (ctx_purchaseToken c2)
              = (Inr tr2, ch2)"
    and debit: "updateUserBalance d (user_id (ctx_buyer c2))
                (js_neg (js_of_int4 (product_price (ctx_product c2)))) = Inr e1"
    and credit: "updateUserBalance e1 (user_id (ctx_provider c2))
                (js_of_int4 (product_price (ctx_product c2))) = Inr e2"
    by blast+
  let ?d1 = "d\<lparr>transactions := transactions d @
                [\<lparr>tx_id = nextId d, tx_type = Purchase,
                  tx_amount = product_price (ctx_product c2),
                  tx_description = Some (''Acquisto: '' @ product_name (ctx_product c2)),
                  tx_status = Pending, tx_fromUserId = Some (user_id (ctx_buyer c2)),
                  tx_toUserId = Some (product_providerId (ctx_product c2)),
                  tx_productId = Some (product_id (ctx_product c2)),
                  tx_communityId = Some (ctx_buyerCommunityId c2), tx_txHash = None\<rparr>],
              nextId := Suc (nextId d)\<rparr>"
  have u1: "users ?d1 = users d" by simp
  from updateUserBalance_frame[OF u1 debit] obtain f1 where
    f1: "updateUserBalance ?d1 (user_id (ctx_buyer c2))
           (js_neg (js_of_int4 (product_price (ctx_product c2)))) = Inr f1"
        "users f1 = users e1"
    by blast
  from updateUserBalance_frame[OF f1(2) credit] obtain f2 where
    f2: "updateUserBalance f1 (user_id (ctx_provider c2))
           (js_of_int4 (product_price (ctx_product c2))) = Inr f2"
    by blast
  from purchase_success[OF auth prep flow f1(1) f2]
  show "\<exists>d' r. purchase G L E now (Some uid) productId d ch = (Json r, d', ch2)
                \<and> (\<forall>i. cachedBalance d' i
                          = map_option
                              (\<lambda>b. b - (if i = user_id (ctx_buyer c2)
                                         then sint (product_price (ctx_product c2)) else 0)
                                     + (if i = user_id (ctx_provider c2)
                                        then sint (product_price (ctx_product c2)) else 0))
                              (cachedBalance d i))"
    by blast
  from permitFlow_amounts[OF flow]
  show "\<exists>config amountWei token admin ch1 allowance rc.
                getTokenConfig G E ch (Some (ctx_purchaseToken c2)) = Inr config
              \<and> parseAmount L (js_of_int4 (product_price (ctx_product c2)))
                    (config_decimals config) = Inr amountWei
              \<and> getAdminWallet L E = Inr admin
              \<and> c_allowance G ch1 token (signer_address (ctx_buyerSigner c2))
                    (signer_address admin) = Inr allowance
              \<and> c_transferFrom G ch1 token (signer_address (ctx_buyerSigner c2))
                    (wallet_address (ctx_providerWallet c2)) (transfer_sent tr2) = (Inr rc, ch2)
              \<and> transfer_sent tr2 = min amountWei allowance
              \<and> (allowance < amountWei \<longrightarrow>
                    transfer_sent tr2 = allowance \<and> 0 < amountWei - transfer_sent tr2)" .
qed

lemma demo_parse_half: "parseAmount demo_lib (Fin (3 / 2)) 18 = Inr (15 * 10 ^ 17)"
proof -
  have "(3 / 2 :: rat) * 10 ^ 18 = of_int (15 * 10 ^ 17)" by simp
  then show ?thesis
    by (simp add: parseAmount_def demo_lib_def del: of_int_mult of_int_power of_int_numeral)
qed

lemma not_integer_half: "js_integer (Fin (3 / 2)) = None" "js_integer (Fin (- (3 / 2))) = None"
proof -
  have a: "\<lfloor>3 / 2 :: rat\<rfloor> = 1" by (rule floor_unique) simp_all
  have b: "\<lfloor>- (3 / 2) :: rat\<rfloor> = - 2" by (rule floor_unique) simp_all
  show "js_integer (Fin (3 / 2)) = None" by (simp add: a)
  show "js_integer (Fin (- (3 / 2))) = None" by (simp add: b)
qed

lemma capped_up: "chain_up capped_chain"
  by (simp add: capped_chain_def demo_chain_def)

lemma demo_sign_permit:
  assumes up: "chain_up ch"
  shows "signPermit demo_gateway demo_lib demo_env ch alice_signer admin_address a dl
           (Some demo_token)
         = Inr \<lparr>permit_v = 27, permit_r = ''0x22222222'', permit_s = demo_token,
                permit_owner = alice_address, permit_spender = admin_address, permit_value = a,
                permit_nonce = chain_permitNonce ch alice_address, permit_deadline = dl\<rparr>"
proof -
  have n: "getPermitNonce demo_gateway demo_env ch alice_address (Some demo_token)
             = Inr (chain_permitNonce ch alice_address)"
    using up by (simp add: getPermitNonce_def demo_readonly) (simp add: demo_gateway_def demo_read_def)
  show ?thesis
    by (simp add: signPermit_def demo_config[OF up] n alice_signer_def)
       (simp add: demo_lib_def)
qed

lemma demo_flow_steps:
  assumes up: "chain_up ch" and parse: "parseAmount demo_lib amount 18 = Inr w"
  shows "permitFlow demo_gateway demo_lib demo_env now ch alice_signer admin_address amount payee
           demo_token
         = permitTransfer demo_gateway demo_lib demo_env ch alice_address admin_address w
             (now + 3600) 27 ''0x22222222'' demo_token payee (Some demo_token)"
proof -
  have s: "signer_address alice_signer = alice_address" by (simp add: alice_signer_def)
  show ?thesis
    by (simp add: permitFlow_def demo_config[OF up] parse demo_sign_permit[OF up] s)
qed

lemma capped_transfer:
  "fst (permitTransfer demo_gateway demo_lib demo_env capped_chain alice_address admin_address
          (100 * 10 ^ 18) 4600 27 ''0x22222222'' demo_token bob_address (Some demo_token))
     = Inr demo_transfer_result"
  by (simp add: permitTransfer_def demo_contract demo_admin toLowerCase_def)
     (simp add: demo_gateway_def demo_read_def capped_chain_def demo_chain_def demo_mined_def
        admin_address_def alice_address_def bob_address_def demo_transfer_result_def Let_def)

lemma capped_purchase:
  "fst (permitTransfer demo_gateway demo_lib demo_env capped_chain alice_address admin_address
          (120 * 10 ^ 18) 4600 27 ''0x22222222'' demo_token paolo_address (Some demo_token))
     = Inr demo_transfer_result"
  by (simp add: permitTransfer_def demo_contract demo_admin toLowerCase_def)
     (simp add: demo_gateway_def demo_read_def capped_chain_def demo_chain_def demo_mined_def
        admin_address_def alice_address_def paolo_address_def demo_transfer_result_def Let_def)

lemma capped_flow:
  "fst (permitFlow demo_gateway demo_lib demo_env 1000 capped_chain alice_signer admin_address
          (Fin 100) bob_address demo_token) = Inr demo_transfer_result"
  using capped_transfer by (simp add: demo_flow_steps[OF capped_up demo_parse_numeral])

lemma capped_flow_purchase:
  "fst (permitFlow demo_gateway demo_lib demo_env 1000 capped_chain alice_signer admin_address
          (Fin 120) paolo_address demo_token) = Inr demo_transfer_result"
  using capped_purchase by (simp add: demo_flow_steps[OF capped_up demo_parse_numeral])

lemma capped_after:
  "chain_balance (snd (permitFlow demo_gateway demo_lib demo_env 1000 capped_chain alice_signer
          admin_address (Fin 100) bob_address demo_token)) alice_address = 260 * 10 ^ 18
   \<and> chain_balance (snd (permitFlow demo_gateway demo_lib demo_env 1000 capped_chain alice_signer
          admin_address (Fin 100) bob_address demo_token)) bob_address = 40 * 10 ^ 18"
  by (simp add: demo_flow_steps[OF capped_up demo_parse_numeral]
        permitTransfer_def demo_contract demo_admin toLowerCase_def)
     (simp add: demo_gateway_def demo_read_def capped_chain_def demo_chain_def demo_mined_def
        admin_address_def alice_address_def bob_address_def carla_address_def Let_def)

lemma demo_debit_credit:
  assumes "int4_range X" and "int4_range (- X)"
      and "\<forall>u \<in> set (users demo_db). user_id u = payer
             \<longrightarrow> int4_range (sint (user_tokenBalance u) - X)"
      and "\<forall>u \<in> set (users demo_db). user_id u = payee
             \<longrightarrow> int4_range (sint (user_tokenBalance u)
                               - (if user_id u = payer then X else 0) + X)"
  shows "\<exists>d1 d2. updateUserBalance demo_db payer (js_neg (js_of_int X)) = Inr d1
               \<and> updateUserBalance d1 payee (js_of_int X) = Inr d2"
proof -
  obtain a b :: int4 where a: "a = word_of_int (- X)" and b: "b = word_of_int X"
    by simp
  have ia: "int4_input (js_neg (js_of_int X)) = Inr a"
    by (simp add: a js_neg_of_int int4_input_of_int assms(2))
  have ib: "int4_input (js_of_int X) = Inr b"
    by (simp add: b int4_input_of_int assms(1))
  have sa: "sint a = - X" "sint b = X"
    unfolding a b by (rule sint_int4_of_int[OF assms(2)], rule sint_int4_of_int[OF assms(1)])
  have fa: "\<forall>u \<in> set (users demo_db). user_id u = payer
              \<longrightarrow> int4_range (sint (user_tokenBalance u) + sint a)"
    using assms(3) by (simp add: sa)
  note d1 = updateUserBalance_ok[OF ia fa]
  let ?d1 = "demo_db\<lparr>users := map (\<lambda>u. if user_id u = payer
                                       then u\<lparr>user_tokenBalance := user_tokenBalance u + a\<rparr>
                                       else u) (users demo_db)\<rparr>"
  have fb: "\<forall>u \<in> set (users ?d1). user_id u = payee
              \<longrightarrow> int4_range (sint (user_tokenBalance u) + sint b)"
  proof (intro ballI impI)
    fix u assume u: "u \<in> set (users ?d1)" and p: "user_id u = payee"
    then obtain v where v: "v \<in> set (users demo_db)"
        "u = (if user_id v = payer then v\<lparr>user_tokenBalance := user_tokenBalance v + a\<rparr> else v)"
      by auto
    have iv: "user_id v = payee" using v(2) p by (auto split: if_splits)
    show "int4_range (sint (user_tokenBalance u) + sint b)"
    proof (cases "user_id v = payer")
      case True
      have "sint (user_tokenBalance v + a) = sint (user_tokenBalance v) + sint a"
        by (rule sint_int4_add) (use fa v(1) True in blast)
      then show ?thesis
        using assms(4) v iv True by (auto simp: sa)
    next
      case False
      then show ?thesis using assms(4) v iv by (auto simp: sa)
    qed
  qed
  from updateUserBalance_ok[OF ib fb] d1 show ?thesis by blast
qed

theorem ledger_moves_full_amount_witness:
  "''u-alice'' \<noteq> []
   \<and> transfer_prepare demo_lib demo_env demo_db ''u-alice'' demo_transfer_body
       = Inr demo_transfer_ctx
   \<and> fst (permitFlow demo_gateway demo_lib demo_env 1000 capped_chain
            (ctx_signerWallet demo_transfer_ctx) (ctx_adminAddress demo_transfer_ctx)
            (body_amount demo_transfer_body) (user_ethAddress (ctx_recipient demo_transfer_ctx))
            (ctx_tokenAddress demo_transfer_ctx)) = Inr demo_transfer_result
   \<and> (\<exists>d1 d2. updateUserBalance demo_db ''u-alice'' (js_neg (body_amount demo_transfer_body))
                  = Inr d1
              \<and> updateUserBalance d1 ''u-bob'' (body_amount demo_transfer_body) = Inr d2)
   \<and> parseAmount demo_lib (body_amount demo_transfer_body) 18 = Inr (100 * 10 ^ 18)
   \<and> transfer_sent demo_transfer_result = 40 * 10 ^ 18
   \<and> (\<exists>d' r ch'. transfer demo_gateway demo_lib demo_env 1000 (Some ''u-alice'')
                     demo_transfer_body demo_db capped_chain = (Json r, d', ch')
          \<and> cachedBalance demo_db ''u-alice'' = Some 300
          \<and> cachedBalance d' ''u-alice'' = Some 200
          \<and> cachedBalance demo_db ''u-bob'' = Some 0
          \<and> cachedBalance d' ''u-bob'' = Some 100
          \<and> chain_balance capped_chain alice_address = 300 * 10 ^ 18
          \<and> chain_balance ch' alice_address = 260 * 10 ^ 18
          \<and> chain_balance capped_chain bob_address = 0
          \<and> chain_balance ch' bob_address = 40 * 10 ^ 18)
   \<and> purchase_prepare demo_lib demo_env demo_db ''u-alice'' ''p1'' = Inr demo_purchase_ctx
   \<and> fst (permitFlow demo_gateway demo_lib demo_env 1000 capped_chain
            (ctx_buyerSigner demo_purchase_ctx) (ctx_purchaseAdmin demo_purchase_ctx)
            (js_of_int4 (product_price (ctx_product demo_purchase_ctx)))
            (wallet_address (ctx_providerWallet demo_purchase_ctx))
            (ctx_purchaseToken demo_purchase_ctx)) = Inr demo_transfer_result
   \<and> (\<exists>e1 e2. updateUserBalance demo_db ''u-alice'' (js_neg (js_of_int4 120)) = Inr e1
              \<and> updateUserBalance e1 ''u-paolo'' (js_of_int4 120) = Inr e2)
   \<and> (\<exists>d' r ch'. purchase demo_gateway demo_lib demo_env 1000 (Some ''u-alice'') ''p1''
                     demo_db capped_chain = (Json r, d', ch')
          \<and> cachedBalance d' ''u-alice'' = Some 180
          \<and> cachedBalance demo_db ''u-paolo'' = Some 0
          \<and> cachedBalance d' ''u-paolo'' = Some 120)"
proof -
  let ?f = "permitFlow demo_gateway demo_lib demo_env 1000 capped_chain
            (ctx_signerWallet demo_transfer_ctx) (ctx_adminAddress demo_transfer_ctx)
            (body_amount demo_transfer_body) (user_ethAddress (ctx_recipient demo_transfer_ctx))
            (ctx_tokenAddress demo_transfer_ctx)"
  let ?g = "permitFlow demo_gateway demo_lib demo_env 1000 capped_chain
            (ctx_buyerSigner demo_purchase_ctx) (ctx_purchaseAdmin demo_purchase_ctx)
            (js_of_int4 (product_price (ctx_product demo_purchase_ctx)))
            (wallet_address (ctx_providerWallet demo_purchase_ctx))
            (ctx_purchaseToken demo_purchase_ctx)"
  have a: "''u-alice'' \<noteq> []" by simp
  note p = demo_transfer_prepare
  have x: "?f = permitFlow demo_gateway demo_lib demo_env 1000 capped_chain alice_signer
                  admin_address (Fin 100) bob_address demo_token"
    by (simp add: demo_transfer_ctx_def demo_transfer_body_def bob_def)
  have f: "fst ?f = Inr demo_transfer_result"
    unfolding x by (rule capped_flow)
  have pf: "?f = (Inr demo_transfer_result, snd ?f)"
    using f by (simp add: prod_eq_iff)
  have i: "user_id (ctx_sender demo_transfer_ctx) = ''u-alice''"
          "user_id (ctx_recipient demo_transfer_ctx) = ''u-bob''"
          "body_amount demo_transfer_body = js_of_int 100"
          "user_id (ctx_buyer demo_purchase_ctx) = ''u-alice''"
          "user_id (ctx_provider demo_purchase_ctx) = ''u-paolo''"
          "product_price (ctx_product demo_purchase_ctx) = 120"
          "js_of_int4 120 = js_of_int 120"
          "sint (120 :: int4) = 120"
    by (simp_all add: demo_transfer_ctx_def demo_purchase_ctx_def alice_def bob_def paolo_def
          demo_transfer_body_def demo_product_def js_of_int_def js_of_int4_def)
  have w: "\<exists>d1 d2. updateUserBalance demo_db ''u-alice'' (js_neg (js_of_int 100)) = Inr d1
                 \<and> updateUserBalance d1 ''u-bob'' (js_of_int 100) = Inr d2"
    by (rule demo_debit_credit)
       (simp_all add: int4_range_def demo_db_def alice_def bob_def carla_def paolo_def)
  then obtain d1 d2 where
      w1: "updateUserBalance demo_db ''u-alice'' (js_neg (js_of_int 100)) = Inr d1"
  and w2: "updateUserBalance d1 ''u-bob'' (js_of_int 100) = Inr d2"
    by blast
  have q: "parseAmount demo_lib (body_amount demo_transfer_body) 18 = Inr (100 * 10 ^ 18)"
    by (simp add: demo_parse_numeral demo_transfer_body_def)
  have s: "transfer_sent demo_transfer_result = 40 * 10 ^ 18"
    by (simp add: demo_transfer_result_def)
  have c: "chain_balance (snd ?f) alice_address = 260 * 10 ^ 18"
          "chain_balance (snd ?f) bob_address = 40 * 10 ^ 18"
    unfolding x using capped_after by simp_all
  have c0: "chain_balance capped_chain alice_address = 300 * 10 ^ 18"
           "chain_balance capped_chain bob_address = 0"
    by (simp_all add: capped_chain_def demo_chain_def alice_address_def bob_address_def
          carla_address_def)
  have b0: "cachedBalance demo_db ''u-alice'' = Some 300" "cachedBalance demo_db ''u-bob'' = Some 0"
           "cachedBalance demo_db ''u-paolo'' = Some 0"
    by (simp_all add: cachedBalance_def demo_users alice_def bob_def paolo_def)
  note pp = demo_purchase_prepare
  have y: "?g = permitFlow demo_gateway demo_lib demo_env 1000 capped_chain alice_signer
                  admin_address (Fin 120) paolo_address demo_token"
    by (simp add: demo_purchase_ctx_def demo_product_def paolo_wallet_def js_of_int4_def
          js_of_int_def)
  have g: "fst ?g = Inr demo_transfer_result"
    unfolding y by (rule capped_flow_purchase)
  have pg: "?g = (Inr demo_transfer_result, snd ?g)"
    using g by (simp add: prod_eq_iff)
  have v: "\<exists>e1 e2. updateUserBalance demo_db ''u-alice'' (js_neg (js_of_int 120)) = Inr e1
                 \<and> updateUserBalance e1 ''u-paolo'' (js_of_int 120) = Inr e2"
    by (rule demo_debit_credit)
       (simp_all add: int4_range_def demo_db_def alice_def bob_def carla_def paolo_def)
  then obtain e1 e2 where
      v1: "updateUserBalance demo_db ''u-alice'' (js_neg (js_of_int 120)) = Inr e1"
  and v2: "updateUserBalance e1 ''u-paolo'' (js_of_int 120) = Inr e2"
    by blast
  note inst = ledger_moves_full_amount[OF a, where L = demo_lib and E = demo_env and d = demo_db
         and body = demo_transfer_body and c = demo_transfer_ctx and G = demo_gateway
         and now = 1000 and ch = capped_chain and tr = demo_transfer_result and ch' = "snd ?f"
         and ?d1.0 = d1 and ?d2.0 = d2 and productId = "''p1''" and ?c2.0 = demo_purchase_ctx
         and ?tr2.0 = demo_transfer_result and ?ch2.0 = "snd ?g" and ?e1.0 = e1 and ?e2.0 = e2]
  from inst p pf w1 w2
  obtain d' r where
      t: "transfer demo_gateway demo_lib demo_env 1000 (Some ''u-alice'') demo_transfer_body
            demo_db capped_chain = (Json r, d', snd ?f)"
  and u: "\<forall>i. cachedBalance d' i
                = map_option (\<lambda>b. b - (if i = ''u-alice'' then 100 else 0)
                                    + (if i = ''u-bob'' then 100 else 0))
                    (cachedBalance demo_db i)"
    unfolding i by (auto simp: js_of_int_inject)
  have b1: "cachedBalance d' ''u-alice'' = Some 200" "cachedBalance d' ''u-bob'' = Some 100"
    using b0 u by simp_all
  from inst pp pg v1 v2
  obtain d'' r'' where
      t2: "purchase demo_gateway demo_lib demo_env 1000 (Some ''u-alice'') ''p1''
            demo_db capped_chain = (Json r'', d'', snd ?g)"
  and u2: "\<forall>i. cachedBalance d'' i
                = map_option (\<lambda>b. b - (if i = ''u-alice'' then 120 else 0)
                                    + (if i = ''u-paolo'' then 120 else 0))
                    (cachedBalance demo_db i)"
    unfolding i by auto
  have b2: "cachedBalance d'' ''u-alice'' = Some 180" "cachedBalance d'' ''u-paolo'' = Some 120"
    using b0 u2 by simp_all
  from w v have w': "\<exists>d1 d2. updateUserBalance demo_db ''u-alice''
                               (js_neg (body_amount demo_transfer_body)) = Inr d1
              \<and> updateUserBalance d1 ''u-bob'' (body_amount demo_transfer_body) = Inr d2"
    and v': "\<exists>e1 e2. updateUserBalance demo_db ''u-alice'' (js_neg (js_of_int4 120)) = Inr e1
              \<and> updateUserBalance e1 ''u-paolo'' (js_of_int4 120) = Inr e2"
    unfolding i by simp_all
  from a p f w' q s t b0 b1 c0 c pp g v' t2 b2 show ?thesis by blast
qed

text \<open>
  Without the database's consent the claim fails. Alice sends Bob one token and a half: the
  request passes the checks, the permit and the transfer are mined and move
  \<open>15 * 10 ^ 17\<close> units on chain, the database refuses the debit of a number that is not
  an integer, the request is answered 500 and no cached balance has moved.
\<close>

theorem fractional_transfer_counterexample:
  "transfer_prepare demo_lib demo_env demo_db ''u-alice'' half_body = Inr demo_transfer_ctx
   \<and> map_sum id transfer_sent
        (fst (permitFlow demo_gateway demo_lib demo_env 1000 demo_chain alice_signer
                admin_address (body_amount half_body) bob_address demo_token))
       = Inr (15 * 10 ^ 17)
   \<and> fst (transfer demo_gateway demo_lib demo_env 1000 (Some ''u-alice'') half_body demo_db
            demo_chain)
       = Fail 500 ''Errore nel trasferimento: invalid input syntax for type integer''
   \<and> cachedBalance (fst (snd (transfer demo_gateway demo_lib demo_env 1000 (Some ''u-alice'')
                                  half_body demo_db demo_chain))) ''u-alice'' = Some 300
   \<and> cachedBalance (fst (snd (transfer demo_gateway demo_lib demo_env 1000 (Some ''u-alice'')
                                  half_body demo_db demo_chain))) ''u-bob'' = Some 0
   \<and> chain_balance demo_chain bob_address = 0
   \<and> chain_balance (snd (snd (transfer demo_gateway demo_lib demo_env 1000 (Some ''u-alice'')
                                  half_body demo_db demo_chain))) bob_address = 15 * 10 ^ 17"
proof -
  have up: "chain_up demo_chain" by (simp add: demo_chain_def)
  have f: "user_id alice = ''u-alice''" "user_tokenBalance alice = 300"
          "user_communityId alice = Some ''c1''" "user_communityId bob = Some ''c1''"
    by (simp_all add: alice_def bob_def)
  have prep: "transfer_prepare demo_lib demo_env demo_db ''u-alice'' half_body
                = Inr demo_transfer_ctx"
    by (simp add: transfer_prepare_def half_body_def present_def demo_users f truthy_def
          orElse_def demo_community demo_default_wallets demo_signer_alice demo_admin
          demo_transfer_ctx_def js_lt_def js_of_int4_def js_of_int_def)
       (simp add: demo_token_def)
  let ?t = "permitTransfer demo_gateway demo_lib demo_env demo_chain alice_address admin_address
              (15 * 10 ^ 17) (1000 + 3600) 27 ''0x22222222'' demo_token bob_address
              (Some demo_token)"
  have flow: "permitFlow demo_gateway demo_lib demo_env 1000 demo_chain alice_signer
                admin_address (Fin (3 / 2)) bob_address demo_token = ?t"
    by (rule demo_flow_steps[OF up demo_parse_half])
  have t: "map_sum id transfer_sent (fst ?t) = Inr (15 * 10 ^ 17)"
          "chain_balance (snd ?t) bob_address = 15 * 10 ^ 17"
          "\<exists>tr. fst ?t = Inr tr"
    by (simp_all add: permitTransfer_def demo_contract demo_admin toLowerCase_def)
       (simp_all add: demo_gateway_def demo_read_def demo_chain_def demo_mined_def
          admin_address_def alice_address_def bob_address_def carla_address_def Let_def)
  then obtain tr ch2 where tr: "?t = (Inr tr, ch2)"
    by (metis prod.collapse)
  have ch2: "snd ?t = ch2" by (simp only: tr snd_conv)
  have deb: "updateUserBalance demo_db ''u-alice'' (js_neg (Fin (3 / 2)))
               = Inl (Error ''invalid input syntax for type integer'')"
    by (simp add: updateUserBalance_def int4_input_def not_integer_half del: js_integer.simps)
  have i: "ctx_signerWallet demo_transfer_ctx = alice_signer"
          "ctx_adminAddress demo_transfer_ctx = admin_address"
          "user_ethAddress (ctx_recipient demo_transfer_ctx) = bob_address"
          "ctx_tokenAddress demo_transfer_ctx = demo_token"
          "user_id (ctx_sender demo_transfer_ctx) = ''u-alice''"
          "body_amount half_body = Fin (3 / 2)"
    by (simp_all add: demo_transfer_ctx_def bob_def alice_def half_body_def)
  have run: "transfer demo_gateway demo_lib demo_env 1000 (Some ''u-alice'') half_body demo_db
               demo_chain
             = (Fail 500 ''Errore nel trasferimento: invalid input syntax for type integer'',
                demo_db, ch2)"
    unfolding transfer_def requireAuth_def transfer_settle_def
    by (simp only: option.case list.simps if_False prep sum.case i flow tr prod.case deb)
       (simp add: messageOr_def)
  have b: "cachedBalance demo_db ''u-alice'' = Some 300" "cachedBalance demo_db ''u-bob'' = Some 0"
    by (simp_all add: cachedBalance_def demo_users alice_def bob_def)
  have c0: "chain_balance demo_chain bob_address = 0"
    by (simp add: demo_chain_def alice_address_def bob_address_def carla_address_def)
  show ?thesis
    using t(1,2) unfolding ch2 by (simp add: prep i flow run b c0)
qed

end
